theory Spec2Isabelle
  imports Main "HOL-Library.Word"
begin

unbundle bit_operations_syntax

section \<open>Data model (contracts/models.py)\<close>

text \<open>
  Every Django model is a record and every table a list of rows, oldest row first.
  A foreign key holds the primary key of the row it points to; a nullable foreign key is
  an \<open>option\<close>. Field names are the source's, prefixed with the model where two models
  share a name (\<open>approval_status\<close> for \<open>AdditionalApproval.status\<close>). The columns
  \<open>created_at\<close>, \<open>updated_at\<close>, \<open>shared_at\<close>, \<open>uploaded_at\<close> (set by the store through
  \<open>auto_now\<close>/\<open>auto_now_add\<close>), \<open>extra_metadata\<close> and the stored file blobs are not read
  by any operation modelled here and are left out.
\<close>

type_synonym uuid = "128 word"
type_synonym date = "nat \<times> nat \<times> nat"

text \<open>
  A \<open>Decimal\<close> of the standard library. A finite number is a signed coefficient and an
  exponent, and stands for the coefficient times ten to the exponent; the other values
  are the two infinities (the flag is the sign) and not-a-number. The sign of a zero and
  the payload of a not-a-number, which no operation below reads, are not kept.
\<close>

datatype decimal = Finite int int | Infinity bool | NaN

record datetime =
  year :: nat
  month :: nat
  day :: nat
  second_of_day :: nat

text \<open>
  The acting user, as the permission helpers read it. \<open>role_attr\<close> is \<open>None\<close> when the
  user object has no attribute \<open>role\<close> (\<open>hasattr(user, 'role')\<close> is false), and
  \<open>Some r\<close> when it has one, \<open>r\<close> being \<open>None\<close> for a value that is not a string.
  \<open>groups\<close> is \<open>None\<close> when there is no attribute \<open>groups\<close>, else the group names.
  \<open>department\<close> is \<open>None\<close> when the attribute is missing or falsy, the test the source
  makes with \<open>hasattr(user, 'department') and user.department\<close>.
\<close>

record user =
  pk :: nat
  is_authenticated :: bool
  is_superuser :: bool
  role_attr :: "string option option"
  groups :: "string list option"
  is_staff :: bool
  department :: "nat option"

record contract =
  contract_id :: uuid
  contract_number :: string
  title :: string
  status :: string
  category :: string
  sub_category :: string
  org_entity :: string
  region_country :: string
  bu_team :: "nat option"
  customer_or_vendor_name :: string
  customer_or_vendor_address :: string
  contract_type :: "nat option"
  value_amount :: "decimal option"
  currency :: string
  opportunity_id :: string
  effective_date :: "date option"
  end_date :: "date option"
  auto_renewal :: bool
  renewal_notice_date :: "date option"
  assignment_status :: string
  owner :: "nat option"
  is_confidential :: bool
  created_by :: "nat option"

record contract_tag =
  tag_contract :: uuid
  tag :: nat

record contract_file =
  file_id :: "nat option"
  file_contract :: uuid
  original_filename :: string
  file_size :: nat
  mime_type :: string
  is_primary :: bool
  file_description :: string
  uploaded_by :: "nat option"

record contract_version =
  version_id :: nat
  version_contract :: uuid
  version_number :: nat
  version_label :: string
  version_file :: "string option"
  version_notes :: string
  version_created_by :: "nat option"

record contract_share =
  share_id :: nat
  share_contract :: uuid
  shared_with_user :: "nat option"
  shared_with_department :: "nat option"
  access_level :: string
  shared_by :: "nat option"

record additional_approval =
  approval_id :: nat
  approval_contract :: uuid
  requested_by :: nat
  approver :: nat
  approval_status :: string
  reason :: string
  decided_at :: "datetime option"
  decision_comment :: string
  due_date :: "date option"

record clause =
  clause_id :: nat
  clause_contract :: uuid
  clause_label :: string
  clause_text :: string

record deviation =
  deviation_id :: nat
  deviation_contract :: uuid
  deviation_clause :: "nat option"
  deviation_description :: string

record risk_item =
  risk_id :: nat
  risk_contract :: uuid
  risk_description :: string
  severity :: string

record signature_record =
  signature_id :: nat
  signature_contract :: uuid
  signatory_name :: string

datatype json = JNull | JBool bool | JInt int | JStr string | JList "json list"

record audit_log =
  log_id :: nat
  log_contract :: "uuid option"
  action :: string
  actor :: "nat option"
  metadata :: "(string \<times> json) list"
  ip_address :: "string option"
  user_agent :: string

record db =
  contracts :: "contract list"
  contract_tags :: "contract_tag list"
  files :: "contract_file list"
  versions :: "contract_version list"
  shares :: "contract_share list"
  approvals :: "additional_approval list"
  clauses :: "clause list"
  deviations :: "deviation list"
  risks :: "risk_item list"
  signatures :: "signature_record list"
  audit_logs :: "audit_log list"

definition empty_db :: db where
  "empty_db = \<lparr>contracts = [], contract_tags = [], files = [], versions = [], shares = [],
     approvals = [], clauses = [], deviations = [], risks = [], signatures = [],
     audit_logs = []\<rparr>"

text \<open>\<open>QuerySet.exists()\<close>: the query selected at least one row.\<close>

definition exists_rows :: "'a list \<Rightarrow> bool" where
  "exists_rows rows = (rows \<noteq> [])"

section \<open>Roles and permission helpers (contracts/permissions.py)\<close>

definition LEGAL_ADMIN :: string where "LEGAL_ADMIN = ''LEGAL_ADMIN''"
definition LEGAL_USER :: string where "LEGAL_USER = ''LEGAL_USER''"
definition FINANCE_VIEWER :: string where "FINANCE_VIEWER = ''FINANCE_VIEWER''"
definition USER :: string where "USER = ''USER''"

lemmas role_defs = LEGAL_ADMIN_def LEGAL_USER_def FINANCE_VIEWER_def USER_def

text \<open>
  The user argument of every helper is \<open>None\<close> for Python's \<open>None\<close>; a user object is
  always truthy, so \<open>not user\<close> is the test for \<open>None\<close>.
\<close>

definition get_user_role :: "user option \<Rightarrow> string option" where
  "get_user_role usr =
     (case usr of
        None \<Rightarrow> None
      | Some u \<Rightarrow>
          if \<not> is_authenticated u then None
          else if is_superuser u then Some LEGAL_ADMIN
          else (case role_attr u of
                  Some r \<Rightarrow> r
                | None \<Rightarrow>
                    let by_group =
                      (case groups u of
                         None \<Rightarrow> None
                       | Some group_names \<Rightarrow>
                           if ''Legal Admin'' \<in> set group_names \<or> ''legal_admin'' \<in> set group_names
                           then Some LEGAL_ADMIN
                           else if ''Legal User'' \<in> set group_names \<or> ''legal_user'' \<in> set group_names
                           then Some LEGAL_USER
                           else if ''Finance Viewer'' \<in> set group_names
                                   \<or> ''finance_viewer'' \<in> set group_names
                           then Some FINANCE_VIEWER
                           else None)
                    in (case by_group of
                          Some r \<Rightarrow> Some r
                        | None \<Rightarrow> if is_staff u then Some LEGAL_USER else Some USER)))"

definition is_legal_admin :: "user option \<Rightarrow> bool" where
  "is_legal_admin usr = (get_user_role usr = Some LEGAL_ADMIN)"

definition is_legal_user :: "user option \<Rightarrow> bool" where
  "is_legal_user usr = (get_user_role usr \<in> {Some LEGAL_ADMIN, Some LEGAL_USER})"

definition is_finance_viewer :: "user option \<Rightarrow> bool" where
  "is_finance_viewer usr = (get_user_role usr = Some FINANCE_VIEWER)"

definition can_admin_contracts :: "user option \<Rightarrow> bool" where
  "can_admin_contracts usr = is_legal_admin usr"

definition can_create_contract :: "user option \<Rightarrow> bool" where
  "can_create_contract usr = is_legal_user usr"

text \<open>
  \<open>contract.owner == user\<close> compares two rows of the user table, which Django does by
  primary key; an empty \<open>owner\<close> equals no user.
\<close>

definition is_user :: "nat option \<Rightarrow> user \<Rightarrow> bool" where
  "is_user ref u = (ref = Some (pk u))"

definition user_shares :: "db \<Rightarrow> user \<Rightarrow> contract \<Rightarrow> contract_share list" where
  "user_shares d u c =
     filter (\<lambda>s. share_contract s = contract_id c \<and> shared_with_user s = Some (pk u)) (shares d)"

definition department_shares :: "db \<Rightarrow> nat \<Rightarrow> contract \<Rightarrow> contract_share list" where
  "department_shares d dep c =
     filter (\<lambda>s. share_contract s = contract_id c \<and> shared_with_department s = Some dep)
       (shares d)"

definition contract_approvals :: "db \<Rightarrow> contract \<Rightarrow> additional_approval list" where
  "contract_approvals d c = filter (\<lambda>a. approval_contract a = contract_id c) (approvals d)"

definition can_view_contract :: "db \<Rightarrow> user option \<Rightarrow> contract \<Rightarrow> bool" where
  "can_view_contract d usr c =
     (case usr of
        None \<Rightarrow> False
      | Some u \<Rightarrow>
          if \<not> is_authenticated u then False
          else if is_legal_admin usr then True
          else if is_user (owner c) u \<or> is_user (created_by c) u then True
          else if exists_rows (user_shares d u c) then True
          else if (case department u of
                     None \<Rightarrow> False
                   | Some dep \<Rightarrow> exists_rows (department_shares d dep c)) then True
          else if (case department u of
                     None \<Rightarrow> False
                   | Some dep \<Rightarrow> bu_team c \<noteq> None \<and> Some dep = bu_team c) then True
          else if is_finance_viewer usr \<and> \<not> is_confidential c then True
          else if is_legal_user usr
                  \<and> (exists_rows (filter (\<lambda>a. approver a = pk u) (contract_approvals d c))
                     \<or> exists_rows (filter (\<lambda>a. requested_by a = pk u) (contract_approvals d c)))
          then True
          else False)"

definition can_edit_contract :: "db \<Rightarrow> user option \<Rightarrow> contract \<Rightarrow> bool" where
  "can_edit_contract d usr c =
     (case usr of
        None \<Rightarrow> False
      | Some u \<Rightarrow>
          if \<not> is_authenticated u then False
          else if is_legal_admin usr then True
          else if is_user (owner c) u then True
          else if exists_rows (filter (\<lambda>s. access_level s = ''EDIT'') (user_shares d u c)) then True
          else if (case department u of
                     None \<Rightarrow> False
                   | Some dep \<Rightarrow>
                       exists_rows (filter (\<lambda>s. access_level s = ''EDIT'')
                         (department_shares d dep c))) then True
          else False)"

definition can_delete_contract :: "user option \<Rightarrow> contract \<Rightarrow> bool" where
  "can_delete_contract usr c =
     (case usr of
        None \<Rightarrow> False
      | Some u \<Rightarrow>
          if \<not> is_authenticated u then False
          else if is_legal_admin usr then True
          else if is_user (owner c) u \<and> status c = ''DRAFT'' then True
          else False)"

definition can_manage_approvals :: "db \<Rightarrow> user option \<Rightarrow> contract \<Rightarrow> bool" where
  "can_manage_approvals d usr c =
     (case usr of
        None \<Rightarrow> False
      | Some u \<Rightarrow>
          if \<not> is_authenticated u then False
          else if is_legal_admin usr then True
          else if is_user (owner c) u then True
          else can_edit_contract d usr c)"

definition can_approve_request :: "user option \<Rightarrow> additional_approval \<Rightarrow> bool" where
  "can_approve_request usr approval =
     (case usr of
        None \<Rightarrow> False
      | Some u \<Rightarrow>
          if \<not> is_authenticated u then False
          else if approver approval = pk u then True
          else if is_legal_admin usr then True
          else False)"

definition can_change_status :: "db \<Rightarrow> user option \<Rightarrow> contract \<Rightarrow> bool" where
  "can_change_status d usr c =
     (case usr of
        None \<Rightarrow> False
      | Some u \<Rightarrow>
          if \<not> is_authenticated u then False
          else if is_legal_admin usr then True
          else if is_user (owner c) u then True
          else can_edit_contract d usr c)"

definition can_share_contract :: "user option \<Rightarrow> contract \<Rightarrow> bool" where
  "can_share_contract usr c =
     (case usr of
        None \<Rightarrow> False
      | Some u \<Rightarrow>
          if \<not> is_authenticated u then False
          else if is_legal_admin usr then True
          else if is_user (owner c) u then True
          else False)"

section \<open>Model methods (contracts/models.py)\<close>

datatype error = IntegrityError | InvalidOperation | ValidationError

subsection \<open>Text helpers of the standard library\<close>

text \<open>
  \<open>str(uuid)\<close> is the 32 lower-case hexadecimal digits of the 128-bit value, most
  significant first, in groups of 8, 4, 4, 4 and 12 joined by hyphens. \<open>strftime('%Y%m')\<close>
  is the year in decimal followed by the month as two digits; years of fewer than four
  digits, which the platform may or may not pad, are outside every statement below.
  \<open>str.upper\<close> is modelled on ASCII.
\<close>

definition digit_char :: "nat \<Rightarrow> char" where
  "digit_char n = ''0123456789'' ! n"

definition hex_digit :: "nat \<Rightarrow> char" where
  "hex_digit n = ''0123456789abcdef'' ! n"

fun dec :: "nat \<Rightarrow> string" where
  "dec n = (if n < 10 then [digit_char n] else dec (n div 10) @ [digit_char (n mod 10)])"

declare dec.simps [simp del]

definition strftime_Ym :: "datetime \<Rightarrow> string" where
  "strftime_Ym t =
     dec (year t) @ (if month t < 10 then CHR ''0'' # dec (month t) else dec (month t))"

definition uuid_hex :: "uuid \<Rightarrow> string" where
  "uuid_hex w = map (\<lambda>i. hex_digit (unat (drop_bit (4 * (31 - i)) w AND 15))) [0..<32]"

definition uuid_str :: "uuid \<Rightarrow> string" where
  "uuid_str w =
     (let h = uuid_hex w
      in take 8 h @ ''-'' @ take 4 (drop 8 h) @ ''-'' @ take 4 (drop 12 h) @ ''-''
         @ take 4 (drop 16 h) @ ''-'' @ drop 20 h)"

definition upper_char :: "char \<Rightarrow> char" where
  "upper_char ch =
     (case map_of (zip ''abcdefghijklmnopqrstuvwxyz'' ''ABCDEFGHIJKLMNOPQRSTUVWXYZ'') ch of
        Some up \<Rightarrow> up
      | None \<Rightarrow> ch)"

definition upper :: "string \<Rightarrow> string" where
  "upper s = map upper_char s"

subsection \<open>Saving rows\<close>

text \<open>
  \<open>Model.save\<close> of the framework: a row whose key is in the table replaces that row,
  any other row is appended; with \<open>force_insert\<close> (what \<open>objects.create\<close> passes) a key
  that is already there raises \<open>IntegrityError\<close>. An \<open>AutoField\<close> key is allocated by
  the store; the model takes one more than the largest key in the table. Column
  constraints other than the primary key (\<open>max_length\<close>, \<open>unique_together\<close>) are the
  store's and are not modelled.
\<close>

definition save_row :: "('r \<Rightarrow> 'k) \<Rightarrow> 'r list \<Rightarrow> 'r \<Rightarrow> 'r list" where
  "save_row key rows row =
     (if key row \<in> set (map key rows)
      then map (\<lambda>r. if key r = key row then row else r) rows
      else rows @ [row])"

definition model_save :: "('r \<Rightarrow> 'k) \<Rightarrow> bool \<Rightarrow> 'r list \<Rightarrow> 'r \<Rightarrow> error + 'r list" where
  "model_save key force_insert rows row =
     (if force_insert \<and> key row \<in> set (map key rows) then Inl IntegrityError
      else Inr (save_row key rows row))"

definition fresh_id :: "nat list \<Rightarrow> nat" where
  "fresh_id ids = Suc (fold max ids 0)"

subsection \<open>Contract.save\<close>

definition generate_contract_number :: "datetime \<Rightarrow> contract \<Rightarrow> string" where
  "generate_contract_number now c =
     ''CNT-'' @ strftime_Ym now @ ''-'' @ upper (take 8 (uuid_str (contract_id c)))"

text \<open>
  \<open>value_amount\<close> is a \<open>DecimalField(max_digits=15, decimal_places=2)\<close>. On the way to
  the table the framework refuses a value that is not finite (\<open>ValidationError\<close> of
  \<open>DecimalField.to_python\<close>) and rounds a finite one to two decimal places, half to
  even, under a precision of 15 digits (\<open>Decimal.quantize\<close>), which signals
  \<open>InvalidOperation\<close> when the rounded coefficient has more than 15 digits. The column
  of the row holds the rounded value; the object in memory keeps the value it was given.
\<close>

definition round_half_even :: "int \<Rightarrow> int \<Rightarrow> int" where
  "round_half_even n m =
     (let q = n div m; r = n mod m
      in if 2 * r < m then q else if m < 2 * r then q + 1 else if even q then q else q + 1)"

definition quantize :: "int \<Rightarrow> int \<Rightarrow> int" where
  "quantize c e =
     (if - 2 \<le> e then c * 10 ^ nat (e + 2) else round_half_even c (10 ^ nat (- 2 - e)))"

definition adapt_decimalfield_value :: "decimal option \<Rightarrow> error + decimal option" where
  "adapt_decimalfield_value v =
     (case v of
        None \<Rightarrow> Inr None
      | Some (Finite c e) \<Rightarrow>
          if \<bar>quantize c e\<bar> < 10 ^ 15 then Inr (Some (Finite (quantize c e) (- 2)))
          else Inl InvalidOperation
      | Some (Infinity negative) \<Rightarrow> Inl ValidationError
      | Some NaN \<Rightarrow> Inl ValidationError)"

text \<open>
  \<open>Contract.save\<close>. The values are prepared for their columns before the row is
  written, so a refused amount is reported before a clash of keys. The second write,
  \<open>save(update_fields=['contract_number'])\<close>, touches the number only.
\<close>

definition Contract_save :: "datetime \<Rightarrow> bool \<Rightarrow> db \<Rightarrow> contract \<Rightarrow> error + contract \<times> db" where
  "Contract_save now force_insert d c =
     (case adapt_decimalfield_value (value_amount c) of
        Inl e \<Rightarrow> Inl e
      | Inr stored \<Rightarrow>
          if contract_number c = [] then
            (case model_save contract_id force_insert (contracts d) (c\<lparr>value_amount := stored\<rparr>) of
               Inl e \<Rightarrow> Inl e
             | Inr rows \<Rightarrow>
                 let number = generate_contract_number now c
                 in Inr (c\<lparr>contract_number := number\<rparr>,
                         d\<lparr>contracts :=
                             map (\<lambda>r. if contract_id r = contract_id c
                                       then r\<lparr>contract_number := number\<rparr> else r) rows\<rparr>))
          else
            (case model_save contract_id force_insert (contracts d) (c\<lparr>value_amount := stored\<rparr>) of
               Inl e \<Rightarrow> Inl e
             | Inr rows \<Rightarrow> Inr (c, d\<lparr>contracts := rows\<rparr>)))"

subsection \<open>ContractFile.save\<close>

text \<open>
  A file object that was never saved has \<open>file_id = None\<close>; \<open>exclude(pk=None)\<close> excludes
  no row.
\<close>

definition demote_other_primaries :: "contract_file \<Rightarrow> contract_file list \<Rightarrow> contract_file list" where
  "demote_other_primaries f rows =
     map (\<lambda>r. if file_contract r = file_contract f \<and> is_primary r
                  \<and> (case file_id f of None \<Rightarrow> True | Some i \<Rightarrow> file_id r \<noteq> Some i)
               then r\<lparr>is_primary := False\<rparr> else r) rows"

definition ContractFile_save :: "db \<Rightarrow> contract_file \<Rightarrow> contract_file \<times> db" where
  "ContractFile_save d f =
     (let rows = (if is_primary f then demote_other_primaries f (files d) else files d)
      in (case file_id f of
            None \<Rightarrow>
              let f' = f\<lparr>file_id := Some (fresh_id (List.map_filter file_id rows))\<rparr>
              in (f', d\<lparr>files := rows @ [f']\<rparr>)
          | Some i \<Rightarrow> (f, d\<lparr>files := save_row file_id rows f\<rparr>)))"

subsection \<open>Contract.delete\<close>

text \<open>
  Deleting a row follows the \<open>on_delete\<close> argument of every foreign key that points to
  it: \<open>CASCADE\<close> deletes the referring row, \<open>SET_NULL\<close> keeps it and empties the
  reference. Every foreign key to \<open>Contract\<close> in models.py is declared with
  \<open>on_delete=models.CASCADE\<close>, the one of \<open>AuditLog\<close> (which is nullable) included;
  \<open>Deviation.clause\<close> is declared \<open>SET_NULL\<close>.
\<close>

datatype on_delete = CASCADE | SET_NULL

definition AuditLog_contract_on_delete :: on_delete where
  "AuditLog_contract_on_delete = CASCADE"

definition on_delete_audit_logs :: "on_delete \<Rightarrow> uuid \<Rightarrow> audit_log list \<Rightarrow> audit_log list" where
  "on_delete_audit_logs policy cid rows =
     (case policy of
        CASCADE \<Rightarrow> filter (\<lambda>r. log_contract r \<noteq> Some cid) rows
      | SET_NULL \<Rightarrow>
          map (\<lambda>r. if log_contract r = Some cid then r\<lparr>log_contract := None\<rparr> else r) rows)"

definition Contract_delete :: "db \<Rightarrow> uuid \<Rightarrow> db" where
  "Contract_delete d cid =
     (let deleted_clauses = map clause_id (filter (\<lambda>r. clause_contract r = cid) (clauses d))
      in d\<lparr>contracts := filter (\<lambda>r. contract_id r \<noteq> cid) (contracts d),
           contract_tags := filter (\<lambda>r. tag_contract r \<noteq> cid) (contract_tags d),
           files := filter (\<lambda>r. file_contract r \<noteq> cid) (files d),
           versions := filter (\<lambda>r. version_contract r \<noteq> cid) (versions d),
           shares := filter (\<lambda>r. share_contract r \<noteq> cid) (shares d),
           approvals := filter (\<lambda>r. approval_contract r \<noteq> cid) (approvals d),
           clauses := filter (\<lambda>r. clause_contract r \<noteq> cid) (clauses d),
           deviations :=
             map (\<lambda>r. case deviation_clause r of
                         None \<Rightarrow> r
                       | Some k \<Rightarrow> if k \<in> set deleted_clauses
                                   then r\<lparr>deviation_clause := None\<rparr> else r)
               (filter (\<lambda>r. deviation_contract r \<noteq> cid) (deviations d)),
           risks := filter (\<lambda>r. risk_contract r \<noteq> cid) (risks d),
           signatures := filter (\<lambda>r. signature_contract r \<noteq> cid) (signatures d),
           audit_logs := on_delete_audit_logs AuditLog_contract_on_delete cid (audit_logs d)\<rparr>)"

section \<open>Services (contracts/services.py)\<close>

subsection \<open>AuditLogService\<close>

text \<open>
  \<open>AuditLogService.log\<close> as the services call it, with no \<open>request\<close>: the address is
  empty and the client identifier is the empty string.
\<close>

definition AuditLogService_log ::
  "db \<Rightarrow> uuid option \<Rightarrow> string \<Rightarrow> nat option \<Rightarrow> (string \<times> json) list \<Rightarrow> db" where
  "AuditLogService_log d contract_ref act who meta =
     d\<lparr>audit_logs := audit_logs d @
         [\<lparr>log_id = fresh_id (map log_id (audit_logs d)), log_contract = contract_ref,
           action = act, actor = who, metadata = meta, ip_address = None, user_agent = []\<rparr>]\<rparr>"

subsection \<open>ApprovalService\<close>

definition process_decision ::
  "datetime \<Rightarrow> user \<Rightarrow> db \<Rightarrow> additional_approval \<Rightarrow> string \<Rightarrow> string
     \<Rightarrow> additional_approval \<times> db" where
  "process_decision now u d approval decision comment =
     (let approval' = approval\<lparr>approval_status := decision, decision_comment := comment,
                                decided_at := Some now\<rparr>;
          d1 = d\<lparr>approvals := save_row approval_id (approvals d) approval'\<rparr>;
          act = (if decision = ''APPROVED'' then ''APPROVE'' else ''REJECT'')
      in (approval',
          AuditLogService_log d1 (Some (approval_contract approval')) act (Some (pk u))
            [(''approval_id'', JInt (int (approval_id approval'))), (''comment'', JStr comment)]))"

subsection \<open>ContractOperationsService\<close>

text \<open>
  The \<open>data\<close> dictionary of \<open>create_contract\<close> and \<open>update_contract\<close>: its entries for
  model fields, in order, as typed assignments, and its \<open>tags\<close> entry (\<open>None\<close> when the
  key is absent). \<open>Contract(**data)\<close> and the \<open>setattr\<close> loop both assign the entries
  one after the other.
\<close>

datatype field_update =
    Set_title string
  | Set_contract_number string
  | Set_status string
  | Set_category string
  | Set_sub_category string
  | Set_org_entity string
  | Set_region_country string
  | Set_bu_team "nat option"
  | Set_customer_or_vendor_name string
  | Set_customer_or_vendor_address string
  | Set_contract_type "nat option"
  | Set_value_amount "decimal option"
  | Set_currency string
  | Set_opportunity_id string
  | Set_effective_date "date option"
  | Set_end_date "date option"
  | Set_auto_renewal bool
  | Set_renewal_notice_date "date option"
  | Set_assignment_status string
  | Set_owner "nat option"
  | Set_is_confidential bool
  | Set_created_by "nat option"

fun setattr :: "contract \<Rightarrow> field_update \<Rightarrow> contract" where
  "setattr c (Set_title v) = c\<lparr>title := v\<rparr>"
| "setattr c (Set_contract_number v) = c\<lparr>contract_number := v\<rparr>"
| "setattr c (Set_status v) = c\<lparr>status := v\<rparr>"
| "setattr c (Set_category v) = c\<lparr>category := v\<rparr>"
| "setattr c (Set_sub_category v) = c\<lparr>sub_category := v\<rparr>"
| "setattr c (Set_org_entity v) = c\<lparr>org_entity := v\<rparr>"
| "setattr c (Set_region_country v) = c\<lparr>region_country := v\<rparr>"
| "setattr c (Set_bu_team v) = c\<lparr>bu_team := v\<rparr>"
| "setattr c (Set_customer_or_vendor_name v) = c\<lparr>customer_or_vendor_name := v\<rparr>"
| "setattr c (Set_customer_or_vendor_address v) = c\<lparr>customer_or_vendor_address := v\<rparr>"
| "setattr c (Set_contract_type v) = c\<lparr>contract_type := v\<rparr>"
| "setattr c (Set_value_amount v) = c\<lparr>value_amount := v\<rparr>"
| "setattr c (Set_currency v) = c\<lparr>currency := v\<rparr>"
| "setattr c (Set_opportunity_id v) = c\<lparr>opportunity_id := v\<rparr>"
| "setattr c (Set_effective_date v) = c\<lparr>effective_date := v\<rparr>"
| "setattr c (Set_end_date v) = c\<lparr>end_date := v\<rparr>"
| "setattr c (Set_auto_renewal v) = c\<lparr>auto_renewal := v\<rparr>"
| "setattr c (Set_renewal_notice_date v) = c\<lparr>renewal_notice_date := v\<rparr>"
| "setattr c (Set_assignment_status v) = c\<lparr>assignment_status := v\<rparr>"
| "setattr c (Set_owner v) = c\<lparr>owner := v\<rparr>"
| "setattr c (Set_is_confidential v) = c\<lparr>is_confidential := v\<rparr>"
| "setattr c (Set_created_by v) = c\<lparr>created_by := v\<rparr>"

fun field_name :: "field_update \<Rightarrow> string" where
  "field_name (Set_title v) = ''title''"
| "field_name (Set_contract_number v) = ''contract_number''"
| "field_name (Set_status v) = ''status''"
| "field_name (Set_category v) = ''category''"
| "field_name (Set_sub_category v) = ''sub_category''"
| "field_name (Set_org_entity v) = ''org_entity''"
| "field_name (Set_region_country v) = ''region_country''"
| "field_name (Set_bu_team v) = ''bu_team''"
| "field_name (Set_customer_or_vendor_name v) = ''customer_or_vendor_name''"
| "field_name (Set_customer_or_vendor_address v) = ''customer_or_vendor_address''"
| "field_name (Set_contract_type v) = ''contract_type''"
| "field_name (Set_value_amount v) = ''value_amount''"
| "field_name (Set_currency v) = ''currency''"
| "field_name (Set_opportunity_id v) = ''opportunity_id''"
| "field_name (Set_effective_date v) = ''effective_date''"
| "field_name (Set_end_date v) = ''end_date''"
| "field_name (Set_auto_renewal v) = ''auto_renewal''"
| "field_name (Set_renewal_notice_date v) = ''renewal_notice_date''"
| "field_name (Set_assignment_status v) = ''assignment_status''"
| "field_name (Set_owner v) = ''owner''"
| "field_name (Set_is_confidential v) = ''is_confidential''"
| "field_name (Set_created_by v) = ''created_by''"

record contract_data =
  data_fields :: "field_update list"
  data_tags :: "nat list option"

definition assign_fields :: "field_update list \<Rightarrow> contract \<Rightarrow> contract" where
  "assign_fields updates c = fold (\<lambda>f acc. setattr acc f) updates c"

text \<open>A new \<open>Contract\<close> object carries the field defaults of models.py.\<close>

definition new_contract :: "uuid \<Rightarrow> contract" where
  "new_contract new_id =
     \<lparr>contract_id = new_id, contract_number = [], title = [], status = ''DRAFT'',
      category = ''OTHER'', sub_category = [], org_entity = [], region_country = [],
      bu_team = None, customer_or_vendor_name = [], customer_or_vendor_address = [],
      contract_type = None, value_amount = None, currency = ''INR'', opportunity_id = [],
      effective_date = None, end_date = None, auto_renewal = False,
      renewal_notice_date = None, assignment_status = ''NOT_ASSIGNED'', owner = None,
      is_confidential = False, created_by = None\<rparr>"

text \<open>
  An uploaded file object; its size is the length of its content. A file object is falsy
  when its name is empty.
\<close>

record uploaded_file =
  upload_name :: string
  upload_content :: string
  upload_content_type :: "string option"

definition create_contract_file ::
  "user \<Rightarrow> db \<Rightarrow> contract \<Rightarrow> uploaded_file \<Rightarrow> bool \<Rightarrow> string \<Rightarrow> contract_file \<times> db" where
  "create_contract_file u d c file primary description =
     ContractFile_save d
       \<lparr>file_id = None, file_contract = contract_id c, original_filename = upload_name file,
        file_size = length (upload_content file),
        mime_type = (case upload_content_type file of None \<Rightarrow> [] | Some t \<Rightarrow> t),
        is_primary = primary, file_description = description, uploaded_by = Some (pk u)\<rparr>"

definition tags_set :: "db \<Rightarrow> contract \<Rightarrow> nat list \<Rightarrow> db" where
  "tags_set d c tags =
     (let kept = filter (\<lambda>r. tag_contract r \<noteq> contract_id c \<or> tag r \<in> set tags)
                   (contract_tags d);
          present = map tag (filter (\<lambda>r. tag_contract r = contract_id c) kept)
      in d\<lparr>contract_tags := kept @
             map (\<lambda>t. \<lparr>tag_contract = contract_id c, tag = t\<rparr>)
               (filter (\<lambda>t. t \<notin> set present) (remdups tags))\<rparr>)"

definition data_owner :: "field_update list \<Rightarrow> nat option" where
  "data_owner updates =
     fold (\<lambda>f acc. case f of Set_owner v \<Rightarrow> v | _ \<Rightarrow> acc) updates None"

definition create_contract ::
  "datetime \<Rightarrow> uuid \<Rightarrow> user \<Rightarrow> db \<Rightarrow> contract_data \<Rightarrow> uploaded_file option
     \<Rightarrow> error + contract \<times> db" where
  "create_contract now new_id u d data file =
     (let fields1 = data_fields data @ [Set_created_by (Some (pk u))];
          fields2 = (if data_owner fields1 = None then fields1 @ [Set_owner (Some (pk u))]
                     else fields1);
          tags = (case data_tags data of None \<Rightarrow> [] | Some ts \<Rightarrow> ts)
      in case Contract_save now True d (assign_fields fields2 (new_contract new_id)) of
           Inl e \<Rightarrow> Inl e
         | Inr (c, d1) \<Rightarrow>
             let d2 = (if tags \<noteq> [] then tags_set d1 c tags else d1);
                 d3 = (case file of
                         None \<Rightarrow> d2
                       | Some f \<Rightarrow> if upload_name f \<noteq> []
                                   then snd (create_contract_file u d2 c f True [])
                                   else d2);
                 d4 = d3\<lparr>versions := versions d3 @
                          [\<lparr>version_id = fresh_id (map version_id (versions d3)),
                            version_contract = contract_id c, version_number = 1,
                            version_label = ''Initial Version'', version_file = None,
                            version_notes = [], version_created_by = Some (pk u)\<rparr>]\<rparr>
             in Inr (c, AuditLogService_log d4 (Some (contract_id c)) ''CREATE_CONTRACT''
                          (Some (pk u))
                          [(''title'', JStr (title c)), (''status'', JStr (status c))]))"

definition update_contract ::
  "datetime \<Rightarrow> user \<Rightarrow> db \<Rightarrow> contract \<Rightarrow> contract_data \<Rightarrow> error + contract \<times> db" where
  "update_contract now u d c data =
     (let old_status = status c
      in case Contract_save now False d (assign_fields (data_fields data) c) of
           Inl e \<Rightarrow> Inl e
         | Inr (c', d1) \<Rightarrow>
             let d2 = (case data_tags data of None \<Rightarrow> d1 | Some ts \<Rightarrow> tags_set d1 c' ts)
             in if status c' \<noteq> old_status
                then Inr (c', AuditLogService_log d2 (Some (contract_id c')) ''CHANGE_STATUS''
                                (Some (pk u))
                                [(''old_status'', JStr old_status),
                                 (''new_status'', JStr (status c'))])
                else Inr (c', AuditLogService_log d2 (Some (contract_id c')) ''UPDATE_CONTRACT''
                                (Some (pk u))
                                [(''updated_fields'',
                                  JList (map (\<lambda>f. JStr (field_name f)) (data_fields data)))]))"

definition upload_file ::
  "user \<Rightarrow> db \<Rightarrow> contract \<Rightarrow> uploaded_file \<Rightarrow> bool \<Rightarrow> string \<Rightarrow> contract_file \<times> db" where
  "upload_file u d c file primary description =
     (case create_contract_file u d c file primary description of
        (contract_file, d1) \<Rightarrow>
          (contract_file,
           AuditLogService_log d1 (Some (contract_id c)) ''ADD_FILE'' (Some (pk u))
             [(''filename'', JStr (original_filename contract_file)),
              (''is_primary'', JBool primary)]))"

definition contract_versions :: "db \<Rightarrow> contract \<Rightarrow> contract_version list" where
  "contract_versions d c = filter (\<lambda>v. version_contract v = contract_id c) (versions d)"

definition add_version ::
  "user \<Rightarrow> db \<Rightarrow> contract \<Rightarrow> string \<Rightarrow> string option \<Rightarrow> string \<Rightarrow> contract_version \<times> db" where
  "add_version u d c label file notes =
     (let existing = contract_versions d c;
          next_version = (if existing = [] then 1
                          else Max (set (map version_number existing)) + 1);
          version = \<lparr>version_id = fresh_id (map version_id (versions d)),
                     version_contract = contract_id c, version_number = next_version,
                     version_label = label, version_file = file, version_notes = notes,
                     version_created_by = Some (pk u)\<rparr>
      in (version,
          AuditLogService_log (d\<lparr>versions := versions d @ [version]\<rparr>) (Some (contract_id c))
            ''ADD_VERSION'' (Some (pk u))
            [(''version_number'', JInt (int next_version)), (''label'', JStr label)]))"

section \<open>Approval decisions (contracts/forms.py, contracts/views.py)\<close>

subsection \<open>ApprovalDecisionForm\<close>

text \<open>
  The form has a required \<open>ChoiceField\<close> \<open>decision\<close> over \<open>DECISION_CHOICES\<close> and an
  optional \<open>CharField\<close> \<open>comment\<close>. The framework cleans each field first: a choice
  field accepts exactly the keys of its choices, a character field strips white space
  from both ends, turns a missing value into the empty string and refuses a null
  character. A field that is refused leaves no entry in \<open>cleaned_data\<close> (\<open>None\<close> below)
  and an error on the form. \<open>clean\<close> runs afterwards in every case, and the form is valid
  when nothing raised. A string is a list of code points below 256; among these,
  \<open>str.strip()\<close> removes the ones \<open>str.isspace\<close> accepts: the ASCII controls 9 to 13
  and 28 to 31, the space, the next-line control 0x85 and the no-break space 0xA0.
\<close>

definition DECISION_CHOICES :: "(string \<times> string) list" where
  "DECISION_CHOICES = [(''APPROVED'', ''Approve''), (''REJECTED'', ''Reject'')]"

record decision_post =
  post_decision :: "string option"
  post_comment :: "string option"

record decision_cleaned =
  cleaned_decision :: "string option"
  cleaned_comment :: "string option"

definition isspace :: "char \<Rightarrow> bool" where
  "isspace ch = (ch \<in> set [CHR 0x09, CHR 0x0A, CHR 0x0B, CHR 0x0C, CHR 0x0D,
                             CHR 0x1C, CHR 0x1D, CHR 0x1E, CHR 0x1F, CHR 0x20,
                             CHR 0x85, CHR 0xA0])"

definition strip :: "string \<Rightarrow> string" where
  "strip s = rev (dropWhile isspace (rev (dropWhile isspace s)))"

definition clean_choice_field :: "(string \<times> string) list \<Rightarrow> string option \<Rightarrow> string option" where
  "clean_choice_field choices raw =
     (case raw of
        None \<Rightarrow> None
      | Some v \<Rightarrow> if v \<in> set (map fst choices) then Some v else None)"

definition clean_optional_char_field :: "string option \<Rightarrow> string option" where
  "clean_optional_char_field raw =
     (case raw of
        None \<Rightarrow> Some []
      | Some v \<Rightarrow> if CHR 0x00 \<in> set (strip v) then None else Some (strip v))"

definition ApprovalDecisionForm_clean :: "decision_cleaned \<Rightarrow> string + decision_cleaned" where
  "ApprovalDecisionForm_clean cleaned_data =
     (if cleaned_decision cleaned_data = Some ''REJECTED''
         \<and> (cleaned_comment cleaned_data = None \<or> cleaned_comment cleaned_data = Some [])
      then Inl ''Please provide a reason for rejection.''
      else Inr cleaned_data)"

text \<open>
  \<open>form.is_valid()\<close> with the two values the view reads from \<open>cleaned_data\<close> afterwards:
  \<open>Inr (decision, comment)\<close> for a valid form, the errors otherwise. The error of a
  refused field is written as the name of the field (its wording is the framework's),
  the error of \<open>clean\<close> as the message the source raises.
\<close>

definition ApprovalDecisionForm_is_valid :: "decision_post \<Rightarrow> string list + string \<times> string" where
  "ApprovalDecisionForm_is_valid posted =
     (let cleaned_data =
            \<lparr>cleaned_decision = clean_choice_field DECISION_CHOICES (post_decision posted),
             cleaned_comment = clean_optional_char_field (post_comment posted)\<rparr>;
          field_errors =
            (if cleaned_decision cleaned_data = None then [''decision''] else [])
            @ (if cleaned_comment cleaned_data = None then [''comment''] else [])
      in case ApprovalDecisionForm_clean cleaned_data of
           Inl e \<Rightarrow> Inl (field_errors @ [e])
         | Inr cd \<Rightarrow>
             (case (cleaned_decision cd, cleaned_comment cd) of
                (Some decision, Some comment) \<Rightarrow> Inr (decision, comment)
              | _ \<Rightarrow> Inl field_errors))"

subsection \<open>ApprovalDetailView.post\<close>

datatype message = Error_message string | Success_message string

datatype response =
    Http404
  | Redirect string message
  | Render string "string list"

definition lower_char :: "char \<Rightarrow> char" where
  "lower_char ch =
     (case map_of (zip ''ABCDEFGHIJKLMNOPQRSTUVWXYZ'' ''abcdefghijklmnopqrstuvwxyz'') ch of
        Some low \<Rightarrow> low
      | None \<Rightarrow> ch)"

definition lower :: "string \<Rightarrow> string" where
  "lower s = map lower_char s"

definition get_approval :: "db \<Rightarrow> nat \<Rightarrow> additional_approval option" where
  "get_approval d key = find (\<lambda>a. approval_id a = key) (approvals d)"

text \<open>
  The view receives the user of the request (never \<open>None\<close>; an anonymous user is one
  with \<open>is_authenticated\<close> false), the key of the approval and the posted form, and
  answers with a response and the store it leaves.
\<close>

definition ApprovalDetailView_post ::
  "datetime \<Rightarrow> db \<Rightarrow> user \<Rightarrow> nat \<Rightarrow> decision_post \<Rightarrow> response \<times> db" where
  "ApprovalDetailView_post now d request_user key posted =
     (case get_approval d key of
        None \<Rightarrow> (Http404, d)
      | Some approval \<Rightarrow>
          if \<not> can_approve_request (Some request_user) approval
          then (Redirect ''contracts:approvals''
                  (Error_message ''You don't have permission to decide on this approval.''), d)
          else if approval_status approval \<noteq> ''PENDING''
          then (Redirect ''contracts:approval_detail''
                  (Error_message ''This approval has already been decided.''), d)
          else (case ApprovalDecisionForm_is_valid posted of
                  Inr (decision, comment) \<Rightarrow>
                    (Redirect ''contracts:approvals''
                       (Success_message (''Approval '' @ lower decision @ '' successfully.'')),
                     snd (process_decision now request_user d approval decision comment))
                | Inl errors \<Rightarrow> (Render ''contracts/approval_detail.html'' errors, d)))"

section \<open>The contract creation wizard (contracts/views.py)\<close>

text \<open>
  The wizard keeps a dictionary in the session, keyed by step name, of what each step's
  form delivered. An entry is the \<open>cleaned_data\<close> of the step's form, typed by the form
  it came from; the \<open>value\<close> step stores the posted text as it is, and the \<open>upload\<close> step
  adds an entry \<open>uploaded_file\<close> with the name and size of the file. The validation of a
  step's form against the posted data is the framework's; the request carries its
  outcome (\<open>form_cleaned\<close>: \<open>None\<close> for an invalid form, else its \<open>cleaned_data\<close>).

  An entry is modelled as the view stored it. How the session keeps it from one request
  to the next is the serialiser's, which the settings choose and contracts/ does not:
  the JSON serialiser of the framework's default keeps text, numbers, booleans and empty
  references and refuses a date, a model object, a file or a byte string when the
  response is written, so under it a step that stored one of these ends in an error.
\<close>

record basic_info =
  basic_org_entity :: string
  basic_region_country :: string
  basic_bu_team :: "nat option"
  basic_category :: string
  basic_sub_category :: string

record party_info =
  party_customer_or_vendor_name :: string
  party_customer_or_vendor_address :: string
  party_contract_type :: "nat option"

record dates_info =
  dates_effective_date :: "date option"
  dates_end_date :: "date option"
  dates_auto_renewal :: bool
  dates_renewal_notice_date :: "date option"

record owner_tags_info =
  owner_tags_owner :: "nat option"
  owner_tags_tags :: "nat list"
  owner_tags_is_confidential :: bool

datatype cleaned =
    MethodData string
  | UploadData uploaded_file
  | UploadedInfo string nat
  | NameData string
  | BasicData basic_info
  | PartyData party_info
  | DatesData dates_info
  | ValueData "string option" string string
  | OwnerTagsData owner_tags_info

type_synonym wizard_data = "string \<rightharpoonup> cleaned"

record session =
  contract_wizard :: "wizard_data option"
  contract_wizard_file :: "string option"
  contract_wizard_file_name :: "string option"

record wizard_post =
  current_step :: "string option"
  post_action :: "string option"
  post_value_amount :: "string option"
  post_currency :: "string option"
  post_opportunity_id :: "string option"
  form_cleaned :: "cleaned option"
  posted_file :: "uploaded_file option"

datatype wizard_response =
    Redirect_to_step string
  | Redirect_to_detail uuid
  | Render_form string

definition STEPS :: "string list" where
  "STEPS = [''method'', ''upload'', ''name'', ''basic'', ''party'', ''dates'', ''value'',
            ''owner_tags'']"

fun list_index :: "'a list \<Rightarrow> 'a \<Rightarrow> nat" where
  "list_index [] x = 0"
| "list_index (y # ys) x = (if y = x then 0 else Suc (list_index ys x))"

definition step_index :: "string \<Rightarrow> nat" where
  "step_index step = (if step \<in> set STEPS then list_index STEPS step else 0)"

definition wizard_method :: "wizard_data \<Rightarrow> string option" where
  "wizard_method wizard = (case wizard ''method'' of Some (MethodData m) \<Rightarrow> Some m | _ \<Rightarrow> None)"

text \<open>
  \<open>_parse_decimal\<close> catches \<open>ValueError\<close> and \<open>TypeError\<close> only; the constructor
  \<open>Decimal(str(value))\<close> of the standard library signals text that is no number with
  \<open>InvalidOperation\<close>, which is neither, so it leaves the view. The constructor is a
  parameter: \<open>None\<close> where it raises, else the number it reads, which may be an
  infinity or a not-a-number (\<open>Decimal('NaN')\<close> raises nothing).
\<close>

definition parse_decimal ::
  "(string \<Rightarrow> decimal option) \<Rightarrow> string option \<Rightarrow> error + decimal option" where
  "parse_decimal Decimal v =
     (case v of
        None \<Rightarrow> Inr None
      | Some s \<Rightarrow>
          if s = [] then Inr None
          else (case Decimal s of None \<Rightarrow> Inl InvalidOperation | Some x \<Rightarrow> Inr (Some x)))"

definition wizard_basic :: "wizard_data \<Rightarrow> basic_info option" where
  "wizard_basic wizard = (case wizard ''basic'' of Some (BasicData b) \<Rightarrow> Some b | _ \<Rightarrow> None)"

definition wizard_party :: "wizard_data \<Rightarrow> party_info option" where
  "wizard_party wizard = (case wizard ''party'' of Some (PartyData p) \<Rightarrow> Some p | _ \<Rightarrow> None)"

definition wizard_dates :: "wizard_data \<Rightarrow> dates_info option" where
  "wizard_dates wizard = (case wizard ''dates'' of Some (DatesData x) \<Rightarrow> Some x | _ \<Rightarrow> None)"

definition wizard_owner_tags :: "wizard_data \<Rightarrow> owner_tags_info option" where
  "wizard_owner_tags wizard =
     (case wizard ''owner_tags'' of Some (OwnerTagsData x) \<Rightarrow> Some x | _ \<Rightarrow> None)"

definition get_or :: "'a option \<Rightarrow> ('a \<Rightarrow> 'b) \<Rightarrow> 'b \<Rightarrow> 'b" where
  "get_or entry field dflt = (case entry of None \<Rightarrow> dflt | Some e \<Rightarrow> field e)"

definition wizard_contract_data ::
  "user \<Rightarrow> wizard_data \<Rightarrow> bool \<Rightarrow> decimal option \<Rightarrow> contract_data" where
  "wizard_contract_data request_user wizard as_draft amount =
     \<lparr>data_fields =
        [Set_title (case wizard ''name'' of Some (NameData t) \<Rightarrow> t | _ \<Rightarrow> ''Untitled Contract''),
         Set_status (if as_draft then ''DRAFT'' else ''PENDING''),
         Set_org_entity (get_or (wizard_basic wizard) basic_org_entity []),
         Set_region_country (get_or (wizard_basic wizard) basic_region_country []),
         Set_bu_team (get_or (wizard_basic wizard) basic_bu_team None),
         Set_category (get_or (wizard_basic wizard) basic_category ''OTHER''),
         Set_sub_category (get_or (wizard_basic wizard) basic_sub_category []),
         Set_customer_or_vendor_name
           (get_or (wizard_party wizard) party_customer_or_vendor_name []),
         Set_customer_or_vendor_address
           (get_or (wizard_party wizard) party_customer_or_vendor_address []),
         Set_contract_type (get_or (wizard_party wizard) party_contract_type None),
         Set_effective_date (get_or (wizard_dates wizard) dates_effective_date None),
         Set_end_date (get_or (wizard_dates wizard) dates_end_date None),
         Set_auto_renewal (get_or (wizard_dates wizard) dates_auto_renewal False),
         Set_renewal_notice_date (get_or (wizard_dates wizard) dates_renewal_notice_date None),
         Set_value_amount amount,
         Set_currency (case wizard ''value'' of Some (ValueData a cur opp) \<Rightarrow> cur | _ \<Rightarrow> ''INR''),
         Set_opportunity_id (case wizard ''value'' of Some (ValueData a cur opp) \<Rightarrow> opp | _ \<Rightarrow> []),
         Set_owner (case get_or (wizard_owner_tags wizard) owner_tags_owner None of
                      None \<Rightarrow> Some (pk request_user)
                    | Some chosen \<Rightarrow> Some chosen),
         Set_is_confidential (get_or (wizard_owner_tags wizard) owner_tags_is_confidential False)],
      data_tags = Some (get_or (wizard_owner_tags wizard) owner_tags_tags [])\<rparr>"

text \<open>
  \<open>_save_contract\<close>: the identifier of the new contract (\<open>uuid.uuid4()\<close>) and the clock
  are parameters. On success the three session entries are removed.
\<close>

definition save_contract ::
  "(string \<Rightarrow> decimal option) \<Rightarrow> datetime \<Rightarrow> uuid \<Rightarrow> user \<Rightarrow> session \<Rightarrow> db \<Rightarrow> wizard_data \<Rightarrow> bool
     \<Rightarrow> error + wizard_response \<times> session \<times> db" where
  "save_contract Decimal now new_id request_user sess d wizard as_draft =
     (case parse_decimal Decimal
             (case wizard ''value'' of Some (ValueData a cur opp) \<Rightarrow> a | _ \<Rightarrow> None) of
        Inl e \<Rightarrow> Inl e
      | Inr amount \<Rightarrow>
          let contract_data = wizard_contract_data request_user wizard as_draft amount;
              uploaded =
                (case (contract_wizard_file sess, contract_wizard_file_name sess) of
                   (Some file_data, Some file_name) \<Rightarrow>
                     if file_data \<noteq> [] \<and> file_name \<noteq> []
                     then Some \<lparr>upload_name = file_name, upload_content = file_data,
                                upload_content_type = Some ''text/plain''\<rparr>
                     else None
                 | _ \<Rightarrow> None)
          in case create_contract now new_id request_user d contract_data uploaded of
               Inl e \<Rightarrow> Inl e
             | Inr (c, d') \<Rightarrow>
                 Inr (Redirect_to_detail (contract_id c),
                      \<lparr>contract_wizard = None, contract_wizard_file = None,
                       contract_wizard_file_name = None\<rparr>, d'))"

definition ContractCreateWizardView_post ::
  "(string \<Rightarrow> decimal option) \<Rightarrow> datetime \<Rightarrow> uuid \<Rightarrow> user \<Rightarrow> session \<Rightarrow> db \<Rightarrow> wizard_post
     \<Rightarrow> error + wizard_response \<times> session \<times> db" where
  "ContractCreateWizardView_post Decimal now new_id request_user sess d posted =
     (let step = (case current_step posted of None \<Rightarrow> ''method'' | Some s \<Rightarrow> s);
          act = (case post_action posted of None \<Rightarrow> ''next'' | Some a \<Rightarrow> a);
          wizard = (case contract_wizard sess of None \<Rightarrow> Map.empty | Some w \<Rightarrow> w)
      in if act = ''back'' then
           (let current_index = step_index step
            in if current_index > 0 then
                 (let prev_step = STEPS ! (current_index - 1)
                  in if prev_step = ''upload'' \<and> wizard_method wizard = Some ''template''
                     then Inr (Redirect_to_step ''method'', sess, d)
                     else Inr (Redirect_to_step prev_step, sess, d))
               else Inr (Redirect_to_step ''method'', sess, d))
         else if act = ''save_draft'' then
           save_contract Decimal now new_id request_user sess d wizard True
         else if step = ''value'' then
           (let value_amount = (case post_value_amount posted of None \<Rightarrow> [] | Some v \<Rightarrow> v);
                wizard' = wizard(step \<mapsto>
                  ValueData (if value_amount \<noteq> [] then Some value_amount else None)
                    (case post_currency posted of None \<Rightarrow> ''INR'' | Some v \<Rightarrow> v)
                    (case post_opportunity_id posted of None \<Rightarrow> [] | Some v \<Rightarrow> v))
            in Inr (Redirect_to_step ''owner_tags'', sess\<lparr>contract_wizard := Some wizard'\<rparr>, d))
         else
           (case form_cleaned posted of
              Some cleaned_data \<Rightarrow>
                (let stored = wizard(step \<mapsto> cleaned_data);
                     wizard' =
                       (case posted_file posted of
                          Some f \<Rightarrow>
                            if step = ''upload''
                            then stored(''uploaded_file'' \<mapsto>
                                   UploadedInfo (upload_name f) (length (upload_content f)))
                            else stored
                        | None \<Rightarrow> stored);
                     sess' =
                       (case posted_file posted of
                          Some f \<Rightarrow>
                            if step = ''upload''
                            then sess\<lparr>contract_wizard := Some wizard',
                                      contract_wizard_file := Some (upload_content f),
                                      contract_wizard_file_name := Some (upload_name f)\<rparr>
                            else sess\<lparr>contract_wizard := Some wizard'\<rparr>
                        | None \<Rightarrow> sess\<lparr>contract_wizard := Some wizard'\<rparr>);
                     current_index = step_index step
                 in if step = ''method'' then
                      (if (case cleaned_data of MethodData m \<Rightarrow> m = ''template'' | _ \<Rightarrow> False)
                       then Inr (Redirect_to_step ''name'', sess', d)
                       else Inr (Redirect_to_step ''upload'', sess', d))
                    else if current_index < length STEPS - 1 then
                      (let next_step = STEPS ! (current_index + 1)
                       in if next_step = ''upload'' \<and> wizard_method wizard' = Some ''template''
                          then Inr (Redirect_to_step ''name'', sess', d)
                          else Inr (Redirect_to_step next_step, sess', d))
                    else save_contract Decimal now new_id request_user sess' d wizard' False)
            | None \<Rightarrow> Inr (Render_form step, sess, d)))"

section \<open>Notions of the specification and sample data\<close>

subsection \<open>Access control\<close>

text \<open>
  The conditions the specification names when it states who may see a contract, written
  over the tables the permission helpers query.
\<close>

definition has_approval_on :: "db \<Rightarrow> user \<Rightarrow> contract \<Rightarrow> bool" where
  "has_approval_on d u c =
     (exists_rows (filter (\<lambda>a. approver a = pk u) (contract_approvals d c))
      \<or> exists_rows (filter (\<lambda>a. requested_by a = pk u) (contract_approvals d c)))"

definition no_department_access :: "db \<Rightarrow> user \<Rightarrow> contract \<Rightarrow> bool" where
  "no_department_access d u c =
     (case department u of
        None \<Rightarrow> True
      | Some dep \<Rightarrow> \<not> exists_rows (department_shares d dep c) \<and> bu_team c \<noteq> Some dep)"

definition has_edit_share :: "db \<Rightarrow> user \<Rightarrow> contract \<Rightarrow> bool" where
  "has_edit_share d u c =
     (exists_rows (filter (\<lambda>s. access_level s = ''EDIT'') (user_shares d u c))
      \<or> (case department u of
            None \<Rightarrow> False
          | Some dep \<Rightarrow>
              exists_rows (filter (\<lambda>s. access_level s = ''EDIT'') (department_shares d dep c))))"

text \<open>Sample rows for the closed instances below.\<close>

definition example_contract :: contract where
  "example_contract =
     \<lparr>contract_id = 0x1a2b3c4d000000000000000000000001, contract_number = ''CNT-202401-1A2B3C4D'',
      title = ''NDA Vendor X'', status = ''ACTIVE'', category = ''LEGAL'', sub_category = [],
      org_entity = [], region_country = [], bu_team = Some 7,
      customer_or_vendor_name = ''Vendor X'', customer_or_vendor_address = [],
      contract_type = None, value_amount = None, currency = ''INR'', opportunity_id = [],
      effective_date = Some (2024, 1, 1), end_date = None, auto_renewal = False,
      renewal_notice_date = None, assignment_status = ''NOT_ASSIGNED'', owner = Some 1,
      is_confidential = True, created_by = Some 2\<rparr>"

definition plain_user :: "nat \<Rightarrow> user" where
  "plain_user n = \<lparr>pk = n, is_authenticated = True, is_superuser = False, role_attr = None,
     groups = Some [], is_staff = False, department = None\<rparr>"

definition staff_user :: "nat \<Rightarrow> user" where
  "staff_user n = (plain_user n)\<lparr>is_staff := True\<rparr>"

definition finance_user :: "nat \<Rightarrow> user" where
  "finance_user n = (plain_user n)\<lparr>role_attr := Some (Some FINANCE_VIEWER)\<rparr>"

definition example_approval :: additional_approval where
  "example_approval =
     \<lparr>approval_id = 1, approval_contract = contract_id example_contract, requested_by = 1,
      approver = 3, approval_status = ''PENDING'', reason = ''Need legal review'',
      decided_at = None, decision_comment = [], due_date = None\<rparr>"

definition example_db :: db where
  "example_db = empty_db\<lparr>contracts := [example_contract], approvals := [example_approval]\<rparr>"

lemmas permission_defs =
  can_view_contract_def can_edit_contract_def can_delete_contract_def can_manage_approvals_def
  can_approve_request_def can_change_status_def can_share_contract_def

lemmas role_test_defs = is_legal_admin_def is_legal_user_def is_finance_viewer_def get_user_role_def

lemmas example_defs = example_contract_def plain_user_def example_approval_def example_db_def
  empty_db_def

subsection \<open>Approval decisions\<close>

text \<open>
  A decision went through when the view answers with its success message; the row a
  decision leaves is the approval with the three fields the service sets.
\<close>

definition is_success :: "response \<Rightarrow> bool" where
  "is_success r = (case r of Redirect target (Success_message m) \<Rightarrow> True | _ \<Rightarrow> False)"

definition decided_row :: "additional_approval \<Rightarrow> string \<Rightarrow> string \<Rightarrow> datetime \<Rightarrow> additional_approval" where
  "decided_row a decision comment now =
     a\<lparr>approval_status := decision, decision_comment := comment, decided_at := Some now\<rparr>"

definition example_time :: datetime where
  "example_time = \<lparr>year = 2024, month = 1, day = 15, second_of_day = 0\<rparr>"

text \<open>
  A request carries no comment when the field is missing or holds white space only.
\<close>

definition no_comment :: "string option \<Rightarrow> bool" where
  "no_comment posted = (case posted of None \<Rightarrow> True | Some s \<Rightarrow> list_all isspace s)"

definition approve_post :: decision_post where
  "approve_post = \<lparr>post_decision = Some ''APPROVED'', post_comment = None\<rparr>"

definition empty_approve_post :: decision_post where
  "empty_approve_post = \<lparr>post_decision = Some ''APPROVED'', post_comment = Some []\<rparr>"

definition blank_reject_post :: decision_post where
  "blank_reject_post =
     \<lparr>post_decision = Some ''REJECTED'', post_comment = Some [CHR 0x20, CHR 0xA0, CHR 0x0A]\<rparr>"

definition reasoned_reject_post :: decision_post where
  "reasoned_reject_post =
     \<lparr>post_decision = Some ''REJECTED'', post_comment = Some '' Cap missing ''\<rparr>"

subsection \<open>Primary files\<close>

text \<open>
  The primary files of a contract, the invariant that no contract has two, and the shape
  of a file table of the store: every row has a key and no two rows share one.
\<close>

definition primary_files :: "contract_file list \<Rightarrow> uuid \<Rightarrow> contract_file list" where
  "primary_files rows cid = filter (\<lambda>r. file_contract r = cid \<and> is_primary r) rows"

definition at_most_one_primary :: "contract_file list \<Rightarrow> bool" where
  "at_most_one_primary rows =
     list_all (\<lambda>r. length (primary_files rows (file_contract r)) \<le> 1) rows"

definition keyed_files :: "contract_file list \<Rightarrow> bool" where
  "keyed_files rows = (distinct (map file_id rows) \<and> list_all (\<lambda>r. file_id r \<noteq> None) rows)"

datatype store_op = Save_file contract_file | Delete_contract uuid

fun apply_op :: "db \<Rightarrow> store_op \<Rightarrow> db" where
  "apply_op d (Save_file f) = snd (ContractFile_save d f)"
| "apply_op d (Delete_contract cid) = Contract_delete d cid"

definition run_ops :: "store_op list \<Rightarrow> db \<Rightarrow> db" where
  "run_ops ops d = fold (\<lambda>op acc. apply_op acc op) ops d"

definition saved_rows :: "db \<Rightarrow> contract_file \<Rightarrow> contract_file list" where
  "saved_rows d f = (if is_primary f then demote_other_primaries f (files d) else files d)"

definition example_file :: "string \<Rightarrow> contract_file" where
  "example_file name =
     \<lparr>file_id = None, file_contract = contract_id example_contract, original_filename = name,
      file_size = 7, mime_type = ''application/pdf'', is_primary = True,
      file_description = [], uploaded_by = Some 1\<rparr>"

subsection \<open>Versions\<close>

text \<open>
  The store keeps references intact: every version row belongs to a contract of the
  contract table. A call of \<open>add_version\<close> is given by its arguments; \<open>add_versions\<close>
  makes the calls one after the other.
\<close>

definition versions_reference_contracts :: "db \<Rightarrow> bool" where
  "versions_reference_contracts d =
     list_all (\<lambda>v. version_contract v \<in> set (map contract_id (contracts d))) (versions d)"

record add_version_call =
  call_user :: user
  call_contract :: contract
  call_label :: string
  call_file :: "string option"
  call_notes :: string

definition add_versions :: "db \<Rightarrow> add_version_call list \<Rightarrow> db" where
  "add_versions d calls =
     fold (\<lambda>call acc. snd (add_version (call_user call) acc (call_contract call) (call_label call)
                             (call_file call) (call_notes call))) calls d"

definition calls_on :: "contract \<Rightarrow> add_version_call list \<Rightarrow> nat" where
  "calls_on c calls = length (filter (\<lambda>call. contract_id (call_contract call) = contract_id c) calls)"

definition example_data :: contract_data where
  "example_data =
     \<lparr>data_fields = [Set_title ''NDA Vendor X'', Set_customer_or_vendor_name ''Vendor X'',
                     Set_category ''LEGAL'', Set_effective_date (Some (2024, 1, 1))],
      data_tags = None\<rparr>"

definition example_created :: "contract \<times> db" where
  "example_created =
     projr (create_contract example_time (contract_id example_contract) (staff_user 1) empty_db
              example_data None)"

definition example_call :: "string \<Rightarrow> add_version_call" where
  "example_call label =
     \<lparr>call_user = staff_user 1, call_contract = fst example_created, call_label = label,
      call_file = None, call_notes = []\<rparr>"

subsection \<open>Contract numbers\<close>

text \<open>
  The format the specification gives for a contract number: \<open>CNT-\<close>, six digits, a
  hyphen, and eight characters that are digits or upper-case letters. The clock shows a
  year of four digits and a month of the calendar.
\<close>

definition is_digit :: "char \<Rightarrow> bool" where
  "is_digit ch = (ch \<in> set ''0123456789'')"

definition is_upper_alnum :: "char \<Rightarrow> bool" where
  "is_upper_alnum ch = (ch \<in> set ''0123456789ABCDEFGHIJKLMNOPQRSTUVWXYZ'')"

definition contract_number_format :: "string \<Rightarrow> bool" where
  "contract_number_format s =
     (length s = 19 \<and> take 4 s = ''CNT-'' \<and> list_all is_digit (take 6 (drop 4 s))
      \<and> take 1 (drop 10 s) = ''-'' \<and> list_all is_upper_alnum (drop 11 s))"

definition clock_ok :: "datetime \<Rightarrow> bool" where
  "clock_ok t = (1000 \<le> year t \<and> year t \<le> 9999 \<and> 1 \<le> month t \<and> month t \<le> 12)"

text \<open>
  The contract number an update dictionary assigns: \<open>None\<close> when it has no entry
  \<open>contract_number\<close>.
\<close>

definition assigned_number :: "field_update list \<Rightarrow> string option" where
  "assigned_number updates =
     fold (\<lambda>f acc. case f of Set_contract_number v \<Rightarrow> Some v | _ \<Rightarrow> acc) updates None"

definition stored_number :: "db \<Rightarrow> uuid \<Rightarrow> string option" where
  "stored_number d cid = map_option contract_number (find (\<lambda>r. contract_id r = cid) (contracts d))"

definition numbered_contract :: contract where
  "numbered_contract =
     (new_contract (contract_id example_contract))\<lparr>contract_number := ''CNT-202401-1A2B3C4D''\<rparr>"

definition activation_data :: contract_data where
  "activation_data = \<lparr>data_fields = [Set_status ''ACTIVE''], data_tags = None\<rparr>"

definition later_time :: datetime where
  "later_time = \<lparr>year = 2025, month = 11, day = 3, second_of_day = 0\<rparr>"

subsection \<open>The wizard\<close>

text \<open>
  What the wizard has accumulated is the dictionary of the session, read entry by entry:
  a field of the entry of a step when the session holds that entry, and else the value
  \<open>_save_contract\<close> names for a missing one.
\<close>

definition session_wizard :: "session \<Rightarrow> wizard_data" where
  "session_wizard sess = (case contract_wizard sess of None \<Rightarrow> Map.empty | Some w \<Rightarrow> w)"

definition wizard_amount_text :: "wizard_data \<Rightarrow> string option" where
  "wizard_amount_text wizard =
     (case wizard ''value'' of Some (ValueData a cur opp) \<Rightarrow> a | _ \<Rightarrow> None)"

definition basic_entry :: "wizard_data \<Rightarrow> (basic_info \<Rightarrow> 'a) \<Rightarrow> 'a \<Rightarrow> 'a" where
  "basic_entry wizard field missing =
     (case wizard ''basic'' of Some (BasicData b) \<Rightarrow> field b | _ \<Rightarrow> missing)"

definition party_entry :: "wizard_data \<Rightarrow> (party_info \<Rightarrow> 'a) \<Rightarrow> 'a \<Rightarrow> 'a" where
  "party_entry wizard field missing =
     (case wizard ''party'' of Some (PartyData p) \<Rightarrow> field p | _ \<Rightarrow> missing)"

definition dates_entry :: "wizard_data \<Rightarrow> (dates_info \<Rightarrow> 'a) \<Rightarrow> 'a \<Rightarrow> 'a" where
  "dates_entry wizard field missing =
     (case wizard ''dates'' of Some (DatesData x) \<Rightarrow> field x | _ \<Rightarrow> missing)"

definition owner_tags_entry :: "wizard_data \<Rightarrow> (owner_tags_info \<Rightarrow> 'a) \<Rightarrow> 'a \<Rightarrow> 'a" where
  "owner_tags_entry wizard field missing =
     (case wizard ''owner_tags'' of Some (OwnerTagsData x) \<Rightarrow> field x | _ \<Rightarrow> missing)"

text \<open>
  The row a commit is to leave in the table of contracts, written out field by field:
  the accumulated entries, the status of the commit, the amount as the column keeps
  it, the acting user as creator (and as owner when no owner was chosen), and the
  number of a contract created in the month of the clock.
\<close>

definition accumulated_contract ::
  "datetime \<Rightarrow> uuid \<Rightarrow> user \<Rightarrow> wizard_data \<Rightarrow> string \<Rightarrow> decimal option \<Rightarrow> contract" where
  "accumulated_contract now new_id u wizard committed_status stored_amount =
     \<lparr>contract_id = new_id,
      contract_number = ''CNT-'' @ strftime_Ym now @ ''-'' @ upper (take 8 (uuid_str new_id)),
      title = (case wizard ''name'' of Some (NameData t) \<Rightarrow> t | _ \<Rightarrow> ''Untitled Contract''),
      status = committed_status,
      category = basic_entry wizard basic_category ''OTHER'',
      sub_category = basic_entry wizard basic_sub_category [],
      org_entity = basic_entry wizard basic_org_entity [],
      region_country = basic_entry wizard basic_region_country [],
      bu_team = basic_entry wizard basic_bu_team None,
      customer_or_vendor_name = party_entry wizard party_customer_or_vendor_name [],
      customer_or_vendor_address = party_entry wizard party_customer_or_vendor_address [],
      contract_type = party_entry wizard party_contract_type None,
      value_amount = stored_amount,
      currency = (case wizard ''value'' of Some (ValueData a cur opp) \<Rightarrow> cur | _ \<Rightarrow> ''INR''),
      opportunity_id = (case wizard ''value'' of Some (ValueData a cur opp) \<Rightarrow> opp | _ \<Rightarrow> []),
      effective_date = dates_entry wizard dates_effective_date None,
      end_date = dates_entry wizard dates_end_date None,
      auto_renewal = dates_entry wizard dates_auto_renewal False,
      renewal_notice_date = dates_entry wizard dates_renewal_notice_date None,
      assignment_status = ''NOT_ASSIGNED'',
      owner = (case owner_tags_entry wizard owner_tags_owner None of
                 None \<Rightarrow> Some (pk u)
               | Some chosen \<Rightarrow> Some chosen),
      is_confidential = owner_tags_entry wizard owner_tags_is_confidential False,
      created_by = Some (pk u)\<rparr>"

definition accumulated_tags :: "wizard_data \<Rightarrow> nat list" where
  "accumulated_tags wizard = owner_tags_entry wizard owner_tags_tags []"

text \<open>
  The file the upload step left in the session, as name and size, when both the content
  and the name are there and not empty.
\<close>

definition buffered_file :: "session \<Rightarrow> (string \<times> nat) option" where
  "buffered_file sess =
     (case contract_wizard_file sess of
        None \<Rightarrow> None
      | Some content \<Rightarrow>
          (case contract_wizard_file_name sess of
             None \<Rightarrow> None
           | Some name \<Rightarrow>
               if content = [] \<or> name = [] then None else Some (name, length content)))"

text \<open>
  The store after a commit: the store before it with one more contract, one tag row for
  every distinct accumulated tag, one primary file row when a file was buffered, one
  version numbered 1 and labelled \<open>Initial Version\<close>, and one audit event
  \<open>CREATE_CONTRACT\<close> carrying the title and the status. Every other table is as before.
\<close>

definition committed ::
  "db \<Rightarrow> user \<Rightarrow> contract \<Rightarrow> nat list \<Rightarrow> (string \<times> nat) option \<Rightarrow> db" where
  "committed d u c tags buffered =
     d\<lparr>contracts := contracts d @ [c],
       contract_tags := contract_tags d
         @ map (\<lambda>t. \<lparr>tag_contract = contract_id c, tag = t\<rparr>) (remdups tags),
       files := files d
         @ (case buffered of
              None \<Rightarrow> []
            | Some (name, bytes) \<Rightarrow>
                [\<lparr>file_id = Some (fresh_id (List.map_filter file_id (files d))),
                  file_contract = contract_id c, original_filename = name, file_size = bytes,
                  mime_type = ''text/plain'', is_primary = True, file_description = [],
                  uploaded_by = Some (pk u)\<rparr>]),
       versions := versions d
         @ [\<lparr>version_id = fresh_id (map version_id (versions d)),
              version_contract = contract_id c, version_number = 1,
              version_label = ''Initial Version'', version_file = None, version_notes = [],
              version_created_by = Some (pk u)\<rparr>],
       audit_logs := audit_logs d
         @ [\<lparr>log_id = fresh_id (map log_id (audit_logs d)),
              log_contract = Some (contract_id c), action = ''CREATE_CONTRACT'',
              actor = Some (pk u),
              metadata = [(''title'', JStr (title c)), (''status'', JStr (status c))],
              ip_address = None, user_agent = []\<rparr>]\<rparr>"

definition cleared_session :: session where
  "cleared_session =
     \<lparr>contract_wizard = None, contract_wizard_file = None, contract_wizard_file_name = None\<rparr>"

text \<open>
  The amount the column keeps is the amount given, rounded to hundredths: the nearest
  one, and the even one of the two when the amount lies half way between them. No
  amount stays no amount; an infinity or a not-a-number is never kept.
\<close>

definition nearest_hundredth :: "int \<Rightarrow> int \<Rightarrow> int \<Rightarrow> bool" where
  "nearest_hundredth c e q =
     (if - 2 \<le> e then q = c * 10 ^ nat (e + 2)
      else 2 * \<bar>q * 10 ^ nat (- 2 - e) - c\<bar> < 10 ^ nat (- 2 - e)
           \<or> (2 * \<bar>q * 10 ^ nat (- 2 - e) - c\<bar> = 10 ^ nat (- 2 - e) \<and> even q))"

definition rounded_to_hundredths :: "decimal option \<Rightarrow> decimal option \<Rightarrow> bool" where
  "rounded_to_hundredths amount stored =
     (case amount of
        None \<Rightarrow> stored = None
      | Some (Finite c e) \<Rightarrow>
          (case stored of
             Some (Finite q e') \<Rightarrow> e' = - 2 \<and> nearest_hundredth c e q \<and> \<bar>q\<bar> < 10 ^ 15
           | _ \<Rightarrow> False)
      | Some (Infinity negative) \<Rightarrow> False
      | Some NaN \<Rightarrow> False)"

text \<open>
  Every tag row and every file row of the store belongs to a contract of the store, as
  the foreign keys of \<open>ContractTag\<close> and \<open>ContractFile\<close> require.
\<close>

definition children_reference_contracts :: "db \<Rightarrow> bool" where
  "children_reference_contracts d =
     (set (map tag_contract (contract_tags d)) \<subseteq> set (map contract_id (contracts d))
      \<and> set (map file_contract (files d)) \<subseteq> set (map contract_id (contracts d)))"

subsection \<open>Deletion\<close>

text \<open>
  A store in which the sample contract has one row in every child table and one audit
  event.
\<close>

definition example_audit_log :: audit_log where
  "example_audit_log =
     \<lparr>log_id = 1, log_contract = Some (contract_id example_contract),
      action = ''CREATE_CONTRACT'', actor = Some 1,
      metadata = [(''title'', JStr ''NDA Vendor X''), (''status'', JStr ''DRAFT'')],
      ip_address = None, user_agent = []\<rparr>"

definition populated_db :: db where
  "populated_db =
     \<lparr>contracts = [example_contract],
      contract_tags = [\<lparr>tag_contract = contract_id example_contract, tag = 4\<rparr>],
      files = [(example_file ''test1.pdf'')\<lparr>file_id := Some 1\<rparr>],
      versions = [\<lparr>version_id = 1, version_contract = contract_id example_contract,
                   version_number = 1, version_label = ''Initial Version'', version_file = None,
                   version_notes = [], version_created_by = Some 1\<rparr>],
      shares = [\<lparr>share_id = 1, share_contract = contract_id example_contract,
                 shared_with_user = Some 5, shared_with_department = None,
                 access_level = ''VIEW'', shared_by = Some 1\<rparr>],
      approvals = [example_approval],
      clauses = [\<lparr>clause_id = 1, clause_contract = contract_id example_contract,
                  clause_label = ''Liability'', clause_text = ''Limited''\<rparr>],
      deviations = [\<lparr>deviation_id = 1, deviation_contract = contract_id example_contract,
                     deviation_clause = Some 1, deviation_description = ''Cap removed''\<rparr>],
      risks = [\<lparr>risk_id = 1, risk_contract = contract_id example_contract,
                risk_description = ''Uncapped liability'', severity = ''HIGH''\<rparr>],
      signatures = [\<lparr>signature_id = 1, signature_contract = contract_id example_contract,
                     signatory_name = ''A. Vendor''\<rparr>],
      audit_logs = [example_audit_log]\<rparr>"

subsection \<open>A wizard session\<close>

text \<open>
  Sample data. The session holds what the steps \<open>method\<close>, \<open>name\<close>, \<open>basic\<close>,
  \<open>party\<close>, \<open>dates\<close> and \<open>value\<close> stored when no reference and no date was chosen:
  text, booleans and empty values. \<open>example_Decimal\<close> reads the one amount of the sample
  as the constructor \<open>Decimal\<close> does, 2500.5 as 25005 tenths, and raises on any other
  text. The store is the populated one, and the identifier drawn for the new contract is
  not the one of the contract it holds.
\<close>

definition acting_user :: user where
  "acting_user = staff_user 1"

definition drawn_id :: uuid where
  "drawn_id = 0x5e6f7a8b000000000000000000000002"

definition example_wizard :: wizard_data where
  "example_wizard =
     [''method'' \<mapsto> MethodData ''template'',
      ''name'' \<mapsto> NameData ''NDA Vendor X'',
      ''basic'' \<mapsto> BasicData \<lparr>basic_org_entity = ''Acme India'', basic_region_country = ''IN'',
                                basic_bu_team = None, basic_category = ''LEGAL'',
                                basic_sub_category = []\<rparr>,
      ''party'' \<mapsto> PartyData \<lparr>party_customer_or_vendor_name = ''Vendor X'',
                                party_customer_or_vendor_address = [],
                                party_contract_type = None\<rparr>,
      ''dates'' \<mapsto> DatesData \<lparr>dates_effective_date = None, dates_end_date = None,
                                dates_auto_renewal = True, dates_renewal_notice_date = None\<rparr>,
      ''value'' \<mapsto> ValueData (Some ''2500.5'') ''USD'' ''OPP-9'']"

definition example_session :: session where
  "example_session =
     \<lparr>contract_wizard = Some example_wizard, contract_wizard_file = None,
      contract_wizard_file_name = None\<rparr>"

definition unreadable_session :: session where
  "unreadable_session =
     example_session
       \<lparr>contract_wizard := Some (example_wizard(''value'' \<mapsto> ValueData (Some ''12,5'') ''USD'' []))\<rparr>"

definition example_Decimal :: "string \<Rightarrow> decimal option" where
  "example_Decimal s = (if s = ''2500.5'' then Some (Finite 25005 (- 1)) else None)"

definition example_owner_tags :: cleaned where
  "example_owner_tags =
     OwnerTagsData \<lparr>owner_tags_owner = Some 4, owner_tags_tags = [3, 5],
                    owner_tags_is_confidential = True\<rparr>"

definition final_post :: wizard_post where
  "final_post =
     \<lparr>current_step = Some ''owner_tags'', post_action = Some ''next'', post_value_amount = None,
      post_currency = None, post_opportunity_id = None,
      form_cleaned = Some example_owner_tags, posted_file = None\<rparr>"

definition draft_post :: wizard_post where
  "draft_post = final_post\<lparr>post_action := Some ''save_draft''\<rparr>"

definition back_post :: wizard_post where
  "back_post = final_post\<lparr>post_action := Some ''back''\<rparr>"

definition example_committed_contract :: contract where
  "example_committed_contract =
     \<lparr>contract_id = drawn_id, contract_number = ''CNT-202401-5E6F7A8B'',
      title = ''NDA Vendor X'', status = ''DRAFT'', category = ''LEGAL'', sub_category = [],
      org_entity = ''Acme India'', region_country = ''IN'', bu_team = None,
      customer_or_vendor_name = ''Vendor X'', customer_or_vendor_address = [],
      contract_type = None, value_amount = Some (Finite 250050 (- 2)), currency = ''USD'',
      opportunity_id = ''OPP-9'', effective_date = None, end_date = None, auto_renewal = True,
      renewal_notice_date = None, assignment_status = ''NOT_ASSIGNED'', owner = Some 1,
      is_confidential = False, created_by = Some 1\<rparr>"

definition example_initial_version :: contract_version where
  "example_initial_version =
     \<lparr>version_id = 2, version_contract = drawn_id, version_number = 1,
      version_label = ''Initial Version'', version_file = None, version_notes = [],
      version_created_by = Some 1\<rparr>"

definition example_draft_store :: db where
  "example_draft_store =
     populated_db
       \<lparr>contracts := [example_contract, example_committed_contract],
        versions := versions populated_db @ [example_initial_version],
        audit_logs :=
          [example_audit_log,
           \<lparr>log_id = 2, log_contract = Some drawn_id, action = ''CREATE_CONTRACT'',
            actor = Some 1,
            metadata = [(''title'', JStr ''NDA Vendor X''), (''status'', JStr ''DRAFT'')],
            ip_address = None, user_agent = []\<rparr>]\<rparr>"

definition example_pending_store :: db where
  "example_pending_store =
     populated_db
       \<lparr>contracts := [example_contract,
                       example_committed_contract
                         \<lparr>status := ''PENDING'', owner := Some 4, is_confidential := True\<rparr>],
        contract_tags := [\<lparr>tag_contract = contract_id example_contract, tag = 4\<rparr>,
                           \<lparr>tag_contract = drawn_id, tag = 3\<rparr>,
                           \<lparr>tag_contract = drawn_id, tag = 5\<rparr>],
        versions := versions populated_db @ [example_initial_version],
        audit_logs :=
          [example_audit_log,
           \<lparr>log_id = 2, log_contract = Some drawn_id, action = ''CREATE_CONTRACT'',
            actor = Some 1,
            metadata = [(''title'', JStr ''NDA Vendor X''), (''status'', JStr ''PENDING'')],
            ip_address = None, user_agent = []\<rparr>]\<rparr>"


section \<open>What the operations leave untouched\<close>

text \<open>
  Which tables an operation writes, as equations for the simplifier, and the result of
  saving a new contract under an identifier the table does not hold.
\<close>

lemma Contract_save_fresh:
  assumes "contract_id c0 \<notin> set (map contract_id (contracts d))" and "contract_number c0 = []"
    and "adapt_decimalfield_value (value_amount c0) = Inr stored"
  shows "Contract_save now True d c0 =
           Inr (c0\<lparr>contract_number := generate_contract_number now c0\<rparr>,
                d\<lparr>contracts := contracts d
                     @ [c0\<lparr>value_amount := stored,
                           contract_number := generate_contract_number now c0\<rparr>]\<rparr>)"
proof -
  have "map (\<lambda>r. if contract_id r = contract_id c0
                  then r\<lparr>contract_number := generate_contract_number now c0\<rparr> else r)
          (contracts d) = contracts d"
  proof (intro map_idI)
    fix r
    assume "r \<in> set (contracts d)"
    with assms(1) have "contract_id r \<noteq> contract_id c0" by (metis image_eqI list.set_map)
    then show "(if contract_id r = contract_id c0
                then r\<lparr>contract_number := generate_contract_number now c0\<rparr> else r) = r"
      by simp
  qed
  with assms show ?thesis
    by (simp add: Contract_save_def model_save_def save_row_def Let_def)
qed

lemma contract_id_new [simp]: "contract_id (new_contract new_id) = new_id"
  by (simp add: new_contract_def)

lemma contracts_log [simp]: "contracts (AuditLogService_log d c act who meta) = contracts d"
  by (simp add: AuditLogService_log_def)

lemma contracts_tags_set [simp]: "contracts (tags_set d c tags) = contracts d"
  by (simp add: tags_set_def Let_def)

lemma contracts_file_save [simp]: "contracts (snd (ContractFile_save d f)) = contracts d"
  by (simp add: ContractFile_save_def Let_def split: option.splits)

lemma contracts_create_file [simp]:
  "contracts (snd (create_contract_file u d c f primary description)) = contracts d"
  by (simp add: create_contract_file_def)

lemma assign_fields_append:
  "assign_fields (xs @ ys) c = assign_fields ys (assign_fields xs c)"
  by (simp add: assign_fields_def)

section \<open>Access control\<close>

text \<open>
  C10. Every permission predicate answers false when the acting user is \<open>None\<close> or is
  not authenticated, whatever the contract, the approval and the store; being total
  functions of their arguments, they answer without raising.
\<close>

theorem no_permission_without_authentication:
  assumes "usr = None \<or> (\<exists>u. usr = Some u \<and> \<not> is_authenticated u)"
  shows "\<not> can_view_contract d usr c \<and> \<not> can_edit_contract d usr c
         \<and> \<not> can_delete_contract usr c \<and> \<not> can_share_contract usr c
         \<and> \<not> can_change_status d usr c \<and> \<not> can_manage_approvals d usr c
         \<and> \<not> can_approve_request usr a"
  using assms by (auto simp: permission_defs)

theorem no_permission_without_authentication_witness:
  "\<not> can_view_contract example_db None example_contract
   \<and> \<not> can_approve_request None example_approval
   \<and> \<not> is_authenticated ((plain_user 1)\<lparr>is_authenticated := False\<rparr>)
   \<and> \<not> can_edit_contract example_db (Some ((plain_user 1)\<lparr>is_authenticated := False\<rparr>)) example_contract
   \<and> \<not> can_delete_contract (Some ((plain_user 1)\<lparr>is_authenticated := False\<rparr>)) example_contract"
  using no_permission_without_authentication [of None example_db example_contract example_approval]
    no_permission_without_authentication
      [of "Some ((plain_user 1)\<lparr>is_authenticated := False\<rparr>)" example_db example_contract
          example_approval]
  by (simp add: plain_user_def)

text \<open>
  C5 as stated fails: an owner who is an administrator may delete the contract in any
  status. Here the owner is a superuser and the contract is Active.
\<close>

theorem owner_delete_counterexample:
  "is_authenticated ((plain_user 1)\<lparr>is_superuser := True\<rparr>)
   \<and> is_user (owner example_contract) ((plain_user 1)\<lparr>is_superuser := True\<rparr>)
   \<and> status example_contract = ''ACTIVE''
   \<and> can_delete_contract (Some ((plain_user 1)\<lparr>is_superuser := True\<rparr>)) example_contract"
  by (simp add: example_defs is_user_def can_delete_contract_def role_test_defs)

text \<open>
  C5, amended. For every authenticated owner of a contract who is not an administrator,
  \<open>can_delete_contract\<close> is true if and only if the status of the contract is Draft (so
  it is false for an Active contract).
\<close>

theorem non_admin_owner_deletes_draft_only:
  assumes "is_authenticated u" and "\<not> is_legal_admin (Some u)" and "is_user (owner c) u"
  shows "can_delete_contract (Some u) c \<longleftrightarrow> status c = ''DRAFT''"
  using assms by (simp add: can_delete_contract_def)

theorem non_admin_owner_deletes_draft_only_witness:
  "is_authenticated (plain_user 1) \<and> \<not> is_legal_admin (Some (plain_user 1))
   \<and> is_user (owner example_contract) (plain_user 1)
   \<and> \<not> can_delete_contract (Some (plain_user 1)) example_contract
   \<and> can_delete_contract (Some (plain_user 1)) (example_contract\<lparr>status := ''DRAFT''\<rparr>)"
proof -
  have a: "is_authenticated (plain_user 1)" by (simp add: plain_user_def)
  have b: "\<not> is_legal_admin (Some (plain_user 1))"
    by (simp add: plain_user_def role_test_defs role_defs)
  have c: "is_user (owner example_contract) (plain_user 1)"
    by (simp add: example_defs is_user_def)
  have c': "is_user (owner (example_contract\<lparr>status := ''DRAFT''\<rparr>)) (plain_user 1)"
    by (simp add: example_defs is_user_def)
  show ?thesis
    using a b c non_admin_owner_deletes_draft_only [OF a b c]
      non_admin_owner_deletes_draft_only [OF a b c']
    by (simp add: example_contract_def)
qed


text \<open>
  C1 as stated fails: a user with the role LEGAL_USER who is the approver of an approval
  request on the contract sees it, confidential or not, without owning it, having
  created it, holding a share or matching its department.
\<close>

theorem view_confidential_counterexample:
  "is_authenticated (staff_user 3) \<and> \<not> is_legal_admin (Some (staff_user 3))
   \<and> \<not> is_user (owner example_contract) (staff_user 3)
   \<and> \<not> is_user (created_by example_contract) (staff_user 3)
   \<and> \<not> exists_rows (user_shares example_db (staff_user 3) example_contract)
   \<and> no_department_access example_db (staff_user 3) example_contract
   \<and> is_confidential example_contract
   \<and> can_view_contract example_db (Some (staff_user 3)) example_contract"
  by (simp add: example_defs staff_user_def is_user_def can_view_contract_def role_test_defs
      role_defs exists_rows_def user_shares_def no_department_access_def contract_approvals_def)

text \<open>
  C1, amended. For every authenticated user who is not an administrator, is neither owner
  nor creator of the contract, has no share record targeting them or their department,
  whose department is not the business unit of the contract, and who is not a legal user
  with an approval request on the contract (as approver or requester):
  \<open>can_view_contract\<close> is false when the contract is confidential, and for a contract
  that is not confidential it is true exactly when the user holds the role
  FINANCE_VIEWER.
\<close>

theorem view_without_ownership_or_share:
  assumes "is_authenticated u" and "\<not> is_legal_admin (Some u)"
    and "\<not> is_user (owner c) u" and "\<not> is_user (created_by c) u"
    and "\<not> exists_rows (user_shares d u c)"
    and "no_department_access d u c"
    and "\<not> (is_legal_user (Some u) \<and> has_approval_on d u c)"
  shows "(is_confidential c \<longrightarrow> \<not> can_view_contract d (Some u) c)
         \<and> (\<not> is_confidential c \<longrightarrow>
              (can_view_contract d (Some u) c \<longleftrightarrow> is_finance_viewer (Some u)))"
  using assms
  by (auto simp: can_view_contract_def no_department_access_def has_approval_on_def
      split: option.splits)

theorem view_without_ownership_or_share_witness:
  "is_authenticated (finance_user 5) \<and> \<not> is_legal_admin (Some (finance_user 5))
   \<and> \<not> is_user (owner example_contract) (finance_user 5)
   \<and> \<not> is_user (created_by example_contract) (finance_user 5)
   \<and> \<not> exists_rows (user_shares example_db (finance_user 5) example_contract)
   \<and> no_department_access example_db (finance_user 5) example_contract
   \<and> \<not> (is_legal_user (Some (finance_user 5))
          \<and> has_approval_on example_db (finance_user 5) example_contract)
   \<and> \<not> can_view_contract example_db (Some (finance_user 5)) example_contract
   \<and> can_view_contract example_db (Some (finance_user 5))
        (example_contract\<lparr>is_confidential := False\<rparr>)"
proof -
  let ?u = "finance_user 5" and ?c = "example_contract\<lparr>is_confidential := False\<rparr>"
  have a: "is_authenticated ?u" by (simp add: finance_user_def plain_user_def)
  have b: "\<not> is_legal_admin (Some ?u)"
    by (simp add: finance_user_def plain_user_def role_test_defs role_defs)
  have c1: "\<not> is_user (owner example_contract) ?u" "\<not> is_user (owner ?c) ?u"
    by (simp_all add: finance_user_def example_defs is_user_def)
  have c2: "\<not> is_user (created_by example_contract) ?u" "\<not> is_user (created_by ?c) ?u"
    by (simp_all add: finance_user_def example_defs is_user_def)
  have e: "\<not> exists_rows (user_shares example_db ?u example_contract)"
    "\<not> exists_rows (user_shares example_db ?u ?c)"
    by (simp_all add: example_defs exists_rows_def user_shares_def)
  have f: "no_department_access example_db ?u example_contract"
    "no_department_access example_db ?u ?c"
    by (simp_all add: finance_user_def plain_user_def no_department_access_def)
  have g: "\<not> (is_legal_user (Some ?u) \<and> has_approval_on example_db ?u example_contract)"
    "\<not> (is_legal_user (Some ?u) \<and> has_approval_on example_db ?u ?c)"
    by (simp_all add: finance_user_def plain_user_def role_test_defs role_defs)
  have h: "is_finance_viewer (Some ?u)"
    by (simp add: finance_user_def plain_user_def role_test_defs role_defs)
  have conf: "is_confidential example_contract" "\<not> is_confidential ?c"
    by (simp_all add: example_contract_def)
  show ?thesis
    using a b c1 c2 e f g h conf
      view_without_ownership_or_share [OF a b c1(1) c2(1) e(1) f(1) g(1)]
      view_without_ownership_or_share [OF a b c1(2) c2(2) e(2) f(2) g(2)]
    by simp
qed

text \<open>
  C2 as stated fails: \<open>can_edit_contract\<close> does not look at \<open>created_by\<close>. The creator
  of the sample contract, who is not its owner, may not edit it.
\<close>

theorem creator_edit_counterexample:
  "is_authenticated (plain_user 2) \<and> is_user (created_by example_contract) (plain_user 2)
   \<and> \<not> can_edit_contract example_db (Some (plain_user 2)) example_contract"
  by (simp add: example_defs is_user_def can_edit_contract_def role_test_defs role_defs
      exists_rows_def user_shares_def)

text \<open>
  C2, amended. For every authenticated user and every contract whose creator is that
  user, the user may view the contract; the user may edit it or change its status exactly
  when the user is an administrator, the owner, or holds an EDIT share (directly or
  through the department), and may share it exactly when the user is an administrator or
  the owner. The creator who is none of these gets false from \<open>can_edit_contract\<close>.
\<close>

theorem creator_rights:
  assumes "is_authenticated u" and "is_user (created_by c) u"
  shows "can_view_contract d (Some u) c
         \<and> (can_edit_contract d (Some u) c \<longleftrightarrow>
              is_legal_admin (Some u) \<or> is_user (owner c) u \<or> has_edit_share d u c)
         \<and> (can_change_status d (Some u) c \<longleftrightarrow>
              is_legal_admin (Some u) \<or> is_user (owner c) u \<or> has_edit_share d u c)
         \<and> (can_share_contract (Some u) c \<longleftrightarrow> is_legal_admin (Some u) \<or> is_user (owner c) u)"
  using assms
  by (auto simp: can_view_contract_def can_edit_contract_def can_change_status_def
      can_share_contract_def has_edit_share_def split: option.splits)

theorem creator_rights_witness:
  "is_authenticated (plain_user 2) \<and> is_user (created_by example_contract) (plain_user 2)
   \<and> can_view_contract example_db (Some (plain_user 2)) example_contract
   \<and> \<not> can_edit_contract example_db (Some (plain_user 2)) example_contract
   \<and> \<not> can_change_status example_db (Some (plain_user 2)) example_contract
   \<and> \<not> can_share_contract (Some (plain_user 2)) example_contract"
proof -
  have a: "is_authenticated (plain_user 2)" by (simp add: plain_user_def)
  have b: "is_user (created_by example_contract) (plain_user 2)"
    by (simp add: example_defs is_user_def)
  have c: "\<not> is_legal_admin (Some (plain_user 2))"
    by (simp add: plain_user_def role_test_defs role_defs)
  have d: "\<not> is_user (owner example_contract) (plain_user 2)"
    by (simp add: example_defs is_user_def)
  have e: "\<not> has_edit_share example_db (plain_user 2) example_contract"
    by (simp add: example_defs has_edit_share_def exists_rows_def user_shares_def)
  show ?thesis
    using a b c d e creator_rights [OF a b, of example_db] by simp
qed

section \<open>Approval decisions: properties\<close>

lemma find_save_row:
  assumes "find (\<lambda>a. approval_id a = key) rows = Some a" and "approval_id a' = key"
  shows "find (\<lambda>a. approval_id a = key) (save_row approval_id rows a') = Some a'"
proof -
  have k: "key \<in> set (map approval_id rows)"
    using assms(1) by (auto simp: find_Some_iff)
  have "find (\<lambda>a. approval_id a = key) (map (\<lambda>r. if approval_id r = key then a' else r) rows)
        = Some a'"
    using assms by (induction rows) (auto split: if_splits)
  with k assms(2) show ?thesis by (simp add: save_row_def)
qed

lemma find_key:
  "find (\<lambda>a. approval_id a = key) rows = Some a \<Longrightarrow> approval_id a = key"
  by (auto simp: find_Some_iff)

lemma approvals_log [simp]:
  "approvals (AuditLogService_log d c act who meta) = approvals d"
  by (simp add: AuditLogService_log_def)

lemma get_approval_process_decision:
  assumes "get_approval d key = Some a"
  shows "get_approval (snd (process_decision now u d a decision comment)) key
         = Some (decided_row a decision comment now)"
  using assms find_save_row [of key "approvals d" a "decided_row a decision comment now"]
    find_key [of key "approvals d" a]
  by (simp add: get_approval_def process_decision_def decided_row_def Let_def)

lemma valid_decision:
  assumes "ApprovalDecisionForm_is_valid p = Inr (decision, comment)"
  shows "decision \<in> {''APPROVED'', ''REJECTED''}"
    and "decision = ''REJECTED'' \<longrightarrow> comment \<noteq> []"
    and "post_decision p = Some decision"
    and "clean_optional_char_field (post_comment p) = Some comment"
  using assms
  by (auto simp: ApprovalDecisionForm_is_valid_def ApprovalDecisionForm_clean_def Let_def
      clean_choice_field_def DECISION_CHOICES_def split: if_splits option.splits sum.splits)

lemma strip_blank_iff: "strip s = [] \<longleftrightarrow> list_all isspace s"
proof
  assume "list_all isspace s"
  then have "\<forall>x\<in>set s. isspace x" by (simp add: list_all_iff)
  then have "dropWhile isspace s = []" by (simp only: dropWhile_eq_Nil_conv)
  then show "strip s = []" by (simp only: strip_def rev.simps dropWhile.simps)
next
  assume "strip s = []"
  then have "dropWhile isspace (rev (dropWhile isspace s)) = []"
    by (simp only: strip_def rev_is_Nil_conv)
  then have tail: "\<forall>x\<in>set (dropWhile isspace s). isspace x"
    by (simp only: dropWhile_eq_Nil_conv set_rev)
  have "dropWhile isspace s = []"
  proof (cases "dropWhile isspace s")
    case Nil
    then show ?thesis .
  next
    case (Cons x xs)
    have ne: "dropWhile isspace s \<noteq> []" using Cons by simp
    have "\<not> isspace (hd (dropWhile isspace s))" by (rule hd_dropWhile [OF ne])
    then have "\<not> isspace x" using Cons by simp
    moreover have "isspace x" using tail Cons by simp
    ultimately show ?thesis by simp
  qed
  then have "\<forall>x\<in>set s. isspace x" by (simp only: dropWhile_eq_Nil_conv)
  then show "list_all isspace s" by (simp add: list_all_iff)
qed

lemma no_comment_cleaned:
  "no_comment posted \<longleftrightarrow> clean_optional_char_field posted = Some []"
proof (cases posted)
  case None
  then show ?thesis by (simp add: no_comment_def clean_optional_char_field_def)
next
  case (Some s)
  show ?thesis
  proof (cases "strip s = []")
    case True
    with Some show ?thesis
      by (simp add: no_comment_def clean_optional_char_field_def strip_blank_iff [symmetric])
  next
    case False
    with Some show ?thesis
      by (simp add: no_comment_def clean_optional_char_field_def strip_blank_iff [symmetric])
  qed
qed

lemma reject_without_comment_invalid:
  assumes "post_decision p = Some ''REJECTED''" and "no_comment (post_comment p)"
  shows "ApprovalDecisionForm_is_valid p = Inl [''Please provide a reason for rejection.'']"
  using assms
  by (simp add: ApprovalDecisionForm_is_valid_def ApprovalDecisionForm_clean_def Let_def
      clean_choice_field_def DECISION_CHOICES_def no_comment_cleaned)

lemma decision_with_comment_valid:
  assumes "post_decision p = Some decision" and "decision = ''APPROVED'' \<or> decision = ''REJECTED''"
    and "clean_optional_char_field (post_comment p) = Some comment"
    and "decision = ''REJECTED'' \<longrightarrow> comment \<noteq> []"
  shows "ApprovalDecisionForm_is_valid p = Inr (decision, comment)"
  using assms
  by (auto simp: ApprovalDecisionForm_is_valid_def ApprovalDecisionForm_clean_def Let_def
      clean_choice_field_def DECISION_CHOICES_def)

lemma post_cases:
  assumes "get_approval d key = Some a"
  shows "ApprovalDetailView_post now d u key p =
     (if \<not> can_approve_request (Some u) a
      then (Redirect ''contracts:approvals''
              (Error_message ''You don't have permission to decide on this approval.''), d)
      else if approval_status a \<noteq> ''PENDING''
      then (Redirect ''contracts:approval_detail''
              (Error_message ''This approval has already been decided.''), d)
      else (case ApprovalDecisionForm_is_valid p of
              Inr (decision, comment) \<Rightarrow>
                (Redirect ''contracts:approvals''
                   (Success_message (''Approval '' @ lower decision @ '' successfully.'')),
                 snd (process_decision now u d a decision comment))
            | Inl errors \<Rightarrow> (Render ''contracts/approval_detail.html'' errors, d)))"
  using assms by (simp add: ApprovalDetailView_post_def)

lemma post_not_pending:
  assumes "get_approval d key = Some a" and "approval_status a \<noteq> ''PENDING''"
  shows "snd (ApprovalDetailView_post now d u key p) = d"
  using assms by (simp add: post_cases)

lemma post_success:
  assumes "get_approval d key = Some a"
    and "is_success (fst (ApprovalDetailView_post now d u key p))"
  shows "can_approve_request (Some u) a \<and> approval_status a = ''PENDING''
         \<and> (\<exists>decision comment.
               ApprovalDecisionForm_is_valid p = Inr (decision, comment)
               \<and> get_approval (snd (ApprovalDetailView_post now d u key p)) key
                   = Some (decided_row a decision comment now))"
  using assms get_approval_process_decision [OF assms(1)]
  by (auto simp: post_cases is_success_def split: if_splits sum.splits)

lemma post_failure:
  assumes "get_approval d key = Some a"
    and "\<not> is_success (fst (ApprovalDetailView_post now d u key p))"
  shows "snd (ApprovalDetailView_post now d u key p) = d"
  using assms by (auto simp: post_cases is_success_def split: if_splits sum.splits)

text \<open>
  C3. An AdditionalApproval is decided through the decision view only while its status
  is Pending, only to Approved or Rejected, and once: a request on an approval that is
  not Pending, and every request that does not end in success, leaves the store as it
  was; a successful request found the approval Pending, stores the posted decision
  (Approved or Rejected, the latter with a comment that is not empty), sets
  \<open>decided_at\<close> to the time of the request and \<open>decision_comment\<close> to the comment,
  and after it no further request changes the store. A Rejected decision with no comment
  (none posted, an empty one, or white space only) is refused with no mutation; by a
  user who may decide a Pending approval, an Approved decision with no comment succeeds
  and stores the empty comment, and so does every decision, Approved or Rejected, whose
  comment the field accepts, a Rejected one provided that comment is not empty.
\<close>

theorem approval_decided_once:
  assumes found: "get_approval d key = Some a"
  shows "(approval_status a \<noteq> ''PENDING'' \<longrightarrow> snd (ApprovalDetailView_post now d u key p) = d)
    \<and> (\<not> is_success (fst (ApprovalDetailView_post now d u key p)) \<longrightarrow>
         snd (ApprovalDetailView_post now d u key p) = d)
    \<and> (is_success (fst (ApprovalDetailView_post now d u key p)) \<longrightarrow>
         approval_status a = ''PENDING'' \<and> can_approve_request (Some u) a
         \<and> (\<exists>decision comment.
               (decision = ''APPROVED'' \<or> decision = ''REJECTED'')
               \<and> post_decision p = Some decision
               \<and> clean_optional_char_field (post_comment p) = Some comment
               \<and> (decision = ''REJECTED'' \<longrightarrow> comment \<noteq> [])
               \<and> get_approval (snd (ApprovalDetailView_post now d u key p)) key
                   = Some (decided_row a decision comment now))
         \<and> (\<forall>now' u' p'.
               snd (ApprovalDetailView_post now' (snd (ApprovalDetailView_post now d u key p))
                      u' key p')
               = snd (ApprovalDetailView_post now d u key p)))
    \<and> (post_decision p = Some ''REJECTED'' \<and> no_comment (post_comment p) \<longrightarrow>
         \<not> is_success (fst (ApprovalDetailView_post now d u key p))
         \<and> snd (ApprovalDetailView_post now d u key p) = d)
    \<and> (can_approve_request (Some u) a \<and> approval_status a = ''PENDING''
        \<and> post_decision p = Some ''APPROVED'' \<and> no_comment (post_comment p) \<longrightarrow>
         is_success (fst (ApprovalDetailView_post now d u key p))
         \<and> get_approval (snd (ApprovalDetailView_post now d u key p)) key
             = Some (decided_row a ''APPROVED'' [] now))
    \<and> (can_approve_request (Some u) a \<and> approval_status a = ''PENDING''
        \<and> post_decision p = Some decision
        \<and> (decision = ''APPROVED'' \<or> decision = ''REJECTED'')
        \<and> clean_optional_char_field (post_comment p) = Some comment
        \<and> (decision = ''REJECTED'' \<longrightarrow> comment \<noteq> []) \<longrightarrow>
         is_success (fst (ApprovalDetailView_post now d u key p))
         \<and> get_approval (snd (ApprovalDetailView_post now d u key p)) key
             = Some (decided_row a decision comment now))"
proof (intro conjI impI)
  let ?R = "ApprovalDetailView_post now d u key p"
  have accepted: "is_success (fst ?R)
                  \<and> get_approval (snd ?R) key = Some (decided_row a dec com now)"
    if "can_approve_request (Some u) a" "approval_status a = ''PENDING''"
      "ApprovalDecisionForm_is_valid p = Inr (dec, com)" for dec com
    using found that get_approval_process_decision [OF found]
    by (simp add: post_cases is_success_def)
  show "snd ?R = d" if "approval_status a \<noteq> ''PENDING''"
    using post_not_pending [OF found that] .
  show "snd ?R = d" if "\<not> is_success (fst ?R)"
    using post_failure [OF found that] .
  {
    assume ok: "is_success (fst ?R)"
    from post_success [OF found ok] obtain decision comment where
      perm: "can_approve_request (Some u) a" and pend: "approval_status a = ''PENDING''"
      and valid: "ApprovalDecisionForm_is_valid p = Inr (decision, comment)"
      and row: "get_approval (snd ?R) key = Some (decided_row a decision comment now)"
      by blast
    show "approval_status a = ''PENDING''" by (rule pend)
    show "can_approve_request (Some u) a" by (rule perm)
    show "\<exists>decision comment.
            (decision = ''APPROVED'' \<or> decision = ''REJECTED'')
            \<and> post_decision p = Some decision
            \<and> clean_optional_char_field (post_comment p) = Some comment
            \<and> (decision = ''REJECTED'' \<longrightarrow> comment \<noteq> [])
            \<and> get_approval (snd ?R) key = Some (decided_row a decision comment now)"
      using valid_decision [OF valid] row by blast
    have "approval_status (decided_row a decision comment now) \<noteq> ''PENDING''"
      using valid_decision(1) [OF valid] by (auto simp: decided_row_def)
    then show "\<forall>now' u' p'. snd (ApprovalDetailView_post now' (snd ?R) u' key p') = snd ?R"
      using post_not_pending [OF row] by blast
  }
  {
    assume rej: "post_decision p = Some ''REJECTED'' \<and> no_comment (post_comment p)"
    then have inv: "ApprovalDecisionForm_is_valid p
                    = Inl [''Please provide a reason for rejection.'']"
      using reject_without_comment_invalid by blast
    show nok: "\<not> is_success (fst ?R)"
      using found inv by (simp add: post_cases is_success_def)
    show "snd ?R = d" using post_failure [OF found nok] .
  }
  {
    assume app: "can_approve_request (Some u) a \<and> approval_status a = ''PENDING''
                 \<and> post_decision p = Some ''APPROVED'' \<and> no_comment (post_comment p)"
    then have "ApprovalDecisionForm_is_valid p = Inr (''APPROVED'', [])"
      using decision_with_comment_valid [of p "''APPROVED''" "[]"]
      by (simp add: no_comment_cleaned)
    with app accepted
    show "is_success (fst ?R)"
      and "get_approval (snd ?R) key = Some (decided_row a ''APPROVED'' [] now)"
      by blast+
  }
  {
    assume any: "can_approve_request (Some u) a \<and> approval_status a = ''PENDING''
        \<and> post_decision p = Some decision
        \<and> (decision = ''APPROVED'' \<or> decision = ''REJECTED'')
        \<and> clean_optional_char_field (post_comment p) = Some comment
        \<and> (decision = ''REJECTED'' \<longrightarrow> comment \<noteq> [])"
    then have "ApprovalDecisionForm_is_valid p = Inr (decision, comment)"
      using decision_with_comment_valid [of p decision comment] by blast
    with any accepted
    show "is_success (fst ?R)"
      and "get_approval (snd ?R) key = Some (decided_row a decision comment now)"
      by blast+
  }
qed

theorem approval_decided_once_witness:
  "get_approval example_db 1 = Some example_approval
   \<and> can_approve_request (Some (staff_user 3)) example_approval
   \<and> approval_status example_approval = ''PENDING''
   \<and> no_comment (post_comment approve_post) \<and> no_comment (post_comment empty_approve_post)
   \<and> no_comment (post_comment blank_reject_post)
   \<and> is_success (fst (ApprovalDetailView_post example_time example_db (staff_user 3) 1 approve_post))
   \<and> get_approval
        (snd (ApprovalDetailView_post example_time example_db (staff_user 3) 1 approve_post)) 1
       = Some (decided_row example_approval ''APPROVED'' [] example_time)
   \<and> is_success (fst (ApprovalDetailView_post example_time example_db (staff_user 3) 1
                        empty_approve_post))
   \<and> get_approval
        (snd (ApprovalDetailView_post example_time example_db (staff_user 3) 1 empty_approve_post)) 1
       = Some (decided_row example_approval ''APPROVED'' [] example_time)
   \<and> snd (ApprovalDetailView_post example_time
             (snd (ApprovalDetailView_post example_time example_db (staff_user 3) 1 approve_post))
             (staff_user 3) 1 blank_reject_post)
       = snd (ApprovalDetailView_post example_time example_db (staff_user 3) 1 approve_post)
   \<and> snd (ApprovalDetailView_post example_time example_db (staff_user 3) 1 blank_reject_post)
       = example_db
   \<and> get_approval
        (snd (ApprovalDetailView_post example_time example_db (staff_user 3) 1 reasoned_reject_post)) 1
       = Some (decided_row example_approval ''REJECTED'' ''Cap missing'' example_time)"
proof -
  have found: "get_approval example_db 1 = Some example_approval"
    by (simp add: get_approval_def example_defs)
  have perm: "can_approve_request (Some (staff_user 3)) example_approval"
    by (simp add: can_approve_request_def staff_user_def example_defs)
  have pend: "approval_status example_approval = ''PENDING''"
    by (simp add: example_approval_def)
  have app: "post_decision approve_post = Some ''APPROVED''" "no_comment (post_comment approve_post)"
    "post_decision empty_approve_post = Some ''APPROVED''"
    "no_comment (post_comment empty_approve_post)"
    by (simp_all add: approve_post_def empty_approve_post_def no_comment_def)
  have rej: "post_decision blank_reject_post = Some ''REJECTED''"
    "no_comment (post_comment blank_reject_post)"
    by (simp_all add: blank_reject_post_def no_comment_def isspace_def)
  have reasoned: "post_decision reasoned_reject_post = Some ''REJECTED''"
    "clean_optional_char_field (post_comment reasoned_reject_post) = Some ''Cap missing''"
    by (simp_all add: reasoned_reject_post_def clean_optional_char_field_def strip_def isspace_def)
  note inst = approval_decided_once [OF found, of example_time "staff_user 3"]
  from inst [of approve_post, THEN conjunct2, THEN conjunct2, THEN conjunct1] perm pend app
  have first: "(\<forall>now' u' p'.
       snd (ApprovalDetailView_post now'
              (snd (ApprovalDetailView_post example_time example_db (staff_user 3) 1 approve_post))
              u' 1 p')
       = snd (ApprovalDetailView_post example_time example_db (staff_user 3) 1 approve_post))"
    if "is_success (fst (ApprovalDetailView_post example_time example_db (staff_user 3) 1 approve_post))"
    using that by blast
  from inst [of approve_post, THEN conjunct2, THEN conjunct2, THEN conjunct2, THEN conjunct2,
      THEN conjunct1] perm pend app
  have r1: "is_success (fst (ApprovalDetailView_post example_time example_db (staff_user 3) 1 approve_post))"
    "get_approval
        (snd (ApprovalDetailView_post example_time example_db (staff_user 3) 1 approve_post)) 1
       = Some (decided_row example_approval ''APPROVED'' [] example_time)"
    by blast+
  from inst [of empty_approve_post, THEN conjunct2, THEN conjunct2, THEN conjunct2, THEN conjunct2,
      THEN conjunct1] perm pend app
  have r2: "is_success (fst (ApprovalDetailView_post example_time example_db (staff_user 3) 1
                        empty_approve_post))"
    "get_approval
        (snd (ApprovalDetailView_post example_time example_db (staff_user 3) 1 empty_approve_post)) 1
       = Some (decided_row example_approval ''APPROVED'' [] example_time)"
    by blast+
  from inst [of blank_reject_post, THEN conjunct2, THEN conjunct2, THEN conjunct2, THEN conjunct1] rej
  have r3: "snd (ApprovalDetailView_post example_time example_db (staff_user 3) 1 blank_reject_post)
       = example_db"
    by blast
  from inst [of reasoned_reject_post "''REJECTED''" "''Cap missing''", THEN conjunct2, THEN conjunct2,
      THEN conjunct2, THEN conjunct2, THEN conjunct2] perm pend reasoned
  have r4: "get_approval
        (snd (ApprovalDetailView_post example_time example_db (staff_user 3) 1 reasoned_reject_post)) 1
       = Some (decided_row example_approval ''REJECTED'' ''Cap missing'' example_time)"
    by simp
  show ?thesis
    using found perm pend app rej r1 r2 r3 r4 first [OF r1(1)] by simp
qed

section \<open>Primary files: properties\<close>

lemma at_most_one_primary_iff:
  "at_most_one_primary rows \<longleftrightarrow> (\<forall>cid. length (primary_files rows cid) \<le> 1)"
proof
  assume a: "at_most_one_primary rows"
  show "\<forall>cid. length (primary_files rows cid) \<le> 1"
  proof
    fix cid
    show "length (primary_files rows cid) \<le> 1"
    proof (cases "primary_files rows cid")
      case Nil
      then show ?thesis by simp
    next
      case (Cons r rs)
      then have "r \<in> set (primary_files rows cid)" by simp
      then have "r \<in> set rows" and "file_contract r = cid"
        by (auto simp: primary_files_def)
      with a show ?thesis by (auto simp: at_most_one_primary_def list_all_iff)
    qed
  qed
next
  assume "\<forall>cid. length (primary_files rows cid) \<le> 1"
  then show "at_most_one_primary rows"
    by (simp add: at_most_one_primary_def list_all_iff)
qed

lemma filter_short_iff:
  assumes "distinct xs"
  shows "length (filter P xs) \<le> 1 \<longleftrightarrow> (\<forall>x\<in>set xs. \<forall>y\<in>set xs. P x \<and> P y \<longrightarrow> x = y)"
proof
  assume short: "length (filter P xs) \<le> 1"
  show "\<forall>x\<in>set xs. \<forall>y\<in>set xs. P x \<and> P y \<longrightarrow> x = y"
  proof (intro ballI impI)
    fix x y
    assume "x \<in> set xs" "y \<in> set xs" "P x \<and> P y"
    then have "x \<in> set (filter P xs)" "y \<in> set (filter P xs)" by simp_all
    with short show "x = y"
      by (cases "filter P xs") (auto split: if_splits)
  qed
next
  assume uniq: "\<forall>x\<in>set xs. \<forall>y\<in>set xs. P x \<and> P y \<longrightarrow> x = y"
  have d: "distinct (filter P xs)" using assms by simp
  show "length (filter P xs) \<le> 1"
  proof (cases "filter P xs")
    case Nil
    then show ?thesis by simp
  next
    case (Cons a as)
    have "as = []"
    proof (cases as)
      case Nil
      then show ?thesis .
    next
      case (Cons b bs)
      with \<open>filter P xs = a # as\<close> have "a \<in> set (filter P xs)" "b \<in> set (filter P xs)"
        by simp_all
      then have "a = b" using uniq by auto
      with d \<open>filter P xs = a # as\<close> Cons show ?thesis by simp
    qed
    with Cons show ?thesis by simp
  qed
qed

lemma keyed_distinct: "keyed_files rows \<Longrightarrow> distinct rows"
  by (auto simp: keyed_files_def dest: distinct_map [THEN iffD1])

lemma one_primary_set:
  assumes "keyed_files rows"
  shows "at_most_one_primary rows \<longleftrightarrow>
         (\<forall>x\<in>set rows. \<forall>y\<in>set rows.
            is_primary x \<and> is_primary y \<and> file_contract x = file_contract y \<longrightarrow> x = y)"
proof -
  have d: "distinct rows" using assms by (rule keyed_distinct)
  show ?thesis
    unfolding at_most_one_primary_iff primary_files_def filter_short_iff [OF d]
    by auto
qed

lemma demote_ids: "map file_id (demote_other_primaries f rows) = map file_id rows"
  by (induction rows) (simp_all add: demote_other_primaries_def)

lemma demote_member:
  assumes "x \<in> set (demote_other_primaries f rows)" and "is_primary x"
  shows "x \<in> set rows
         \<and> (file_contract x = file_contract f \<longrightarrow> file_id f \<noteq> None \<and> file_id x = file_id f)"
  using assms by (auto simp: demote_other_primaries_def split: if_splits option.splits)

lemma demote_keyed: "keyed_files rows \<Longrightarrow> keyed_files (demote_other_primaries f rows)"
proof -
  assume k: "keyed_files rows"
  have "list_all (\<lambda>r. file_id r \<noteq> None) (demote_other_primaries f rows)"
    using k by (auto simp: keyed_files_def list_all_iff demote_other_primaries_def)
  with k show ?thesis by (simp add: keyed_files_def demote_ids)
qed

lemma demote_one_primary:
  assumes "keyed_files rows" and "at_most_one_primary rows"
  shows "at_most_one_primary (demote_other_primaries f rows)"
  using assms demote_member [of _ f rows]
  unfolding one_primary_set [OF assms(1)] one_primary_set [OF demote_keyed [OF assms(1)]]
  by blast

lemma fold_max_upper: "x \<in> set ids \<Longrightarrow> x \<le> fold max ids (a::nat)"
proof (induction ids arbitrary: a)
  case Nil
  then show ?case by simp
next
  case (Cons i ids)
  have mono: "a \<le> fold max ids a" for a :: nat and ids
    by (induction ids arbitrary: a) (auto intro: order_trans [OF max.cobounded2])
  from Cons show ?case
    using mono [of "max i a" ids] by auto
qed

lemma fresh_id_new: "fresh_id ids \<notin> set ids"
  using fold_max_upper [of "fresh_id ids" ids 0] by (auto simp: fresh_id_def)

lemma map_filter_ids: "i \<in> set (List.map_filter file_id rows) \<longleftrightarrow> Some i \<in> set (map file_id rows)"
  by (induction rows) (auto simp: List.map_filter_simps split: option.splits)

lemma fresh_file_id_new: "Some (fresh_id (List.map_filter file_id rows)) \<notin> set (map file_id rows)"
  using fresh_id_new [of "List.map_filter file_id rows"] by (simp only: map_filter_ids) simp

lemma save_row_ids:
  "file_id f \<in> set (map file_id rows) \<Longrightarrow> map file_id (save_row file_id rows f) = map file_id rows"
  by (induction rows) (auto simp: save_row_def)

lemma save_row_member:
  assumes "x \<in> set (save_row file_id rows f)"
  shows "x = f \<or> (x \<in> set rows \<and> file_id x \<noteq> file_id f)"
proof (cases "file_id f \<in> set (map file_id rows)")
  case True
  with assms show ?thesis by (auto simp: save_row_def split: if_splits)
next
  case False
  then have "\<forall>r\<in>set rows. file_id r \<noteq> file_id f" by (metis image_eqI list.set_map)
  with assms False show ?thesis by (auto simp: save_row_def)
qed

lemma save_row_has: "f \<in> set (save_row file_id rows f)"
  by (auto simp: save_row_def)

lemma save_row_keyed:
  assumes "keyed_files rows" and "file_id f \<noteq> None"
  shows "keyed_files (save_row file_id rows f)"
proof (cases "file_id f \<in> set (map file_id rows)")
  case True
  have "list_all (\<lambda>r. file_id r \<noteq> None) (save_row file_id rows f)"
    using assms save_row_member [of _ rows f] by (auto simp: keyed_files_def list_all_iff)
  with assms True show ?thesis by (simp add: keyed_files_def save_row_ids)
next
  case False
  with assms show ?thesis by (auto simp: keyed_files_def save_row_def)
qed

lemma saved_rows_keyed: "keyed_files (files d) \<Longrightarrow> keyed_files (saved_rows d f)"
  by (simp add: saved_rows_def demote_keyed)

lemma saved_rows_one_primary:
  "keyed_files (files d) \<Longrightarrow> at_most_one_primary (files d) \<Longrightarrow> at_most_one_primary (saved_rows d f)"
  by (simp add: saved_rows_def demote_one_primary)

lemma saved_rows_clash:
  assumes "x \<in> set (saved_rows d f)" and "is_primary x" and "is_primary f"
    and "file_contract x = file_contract f"
  shows "file_id f \<noteq> None \<and> file_id x = file_id f"
  using assms demote_member [of x f "files d"] by (simp add: saved_rows_def)

lemma ContractFile_save_eq:
  "ContractFile_save d f =
     (case file_id f of
        None \<Rightarrow>
          (f\<lparr>file_id := Some (fresh_id (List.map_filter file_id (saved_rows d f)))\<rparr>,
           d\<lparr>files := saved_rows d f
               @ [f\<lparr>file_id := Some (fresh_id (List.map_filter file_id (saved_rows d f)))\<rparr>]\<rparr>)
      | Some i \<Rightarrow> (f, d\<lparr>files := save_row file_id (saved_rows d f) f\<rparr>))"
  by (cases "is_primary f") (simp_all add: ContractFile_save_def saved_rows_def Let_def split: option.splits)

lemma ContractFile_save_member:
  assumes "x \<in> set (files (snd (ContractFile_save d f)))"
  shows "x = fst (ContractFile_save d f)
         \<or> (x \<in> set (saved_rows d f) \<and> (file_id f \<noteq> None \<longrightarrow> file_id x \<noteq> file_id f))"
  using assms save_row_member [of x "saved_rows d f" f]
  by (auto simp: ContractFile_save_eq split: option.splits)

lemma ContractFile_save_has:
  "fst (ContractFile_save d f) \<in> set (files (snd (ContractFile_save d f)))"
  by (auto simp: ContractFile_save_eq save_row_has split: option.splits)

lemma ContractFile_save_fst:
  "is_primary (fst (ContractFile_save d f)) = is_primary f"
  "file_contract (fst (ContractFile_save d f)) = file_contract f"
  by (auto simp: ContractFile_save_eq split: option.splits)

lemma ContractFile_save_keyed:
  assumes "keyed_files (files d)"
  shows "keyed_files (files (snd (ContractFile_save d f)))"
proof (cases "file_id f")
  case None
  with saved_rows_keyed [OF assms, of f] fresh_file_id_new [of "saved_rows d f"]
  show ?thesis by (auto simp: ContractFile_save_eq keyed_files_def)
next
  case (Some i)
  with saved_rows_keyed [OF assms, of f] save_row_keyed [of "saved_rows d f" f]
  show ?thesis by (simp add: ContractFile_save_eq)
qed

lemma ContractFile_save_one_primary:
  assumes k: "keyed_files (files d)" and one: "at_most_one_primary (files d)"
  shows "at_most_one_primary (files (snd (ContractFile_save d f)))"
proof -
  let ?new = "fst (ContractFile_save d f)"
  have old: "\<forall>x\<in>set (saved_rows d f). \<forall>y\<in>set (saved_rows d f).
               is_primary x \<and> is_primary y \<and> file_contract x = file_contract y \<longrightarrow> x = y"
    using saved_rows_one_primary [OF k one, of f]
    by (simp only: one_primary_set [OF saved_rows_keyed [OF k]])
  have ids: "\<forall>x\<in>set (saved_rows d f). file_id x \<noteq> None"
    using saved_rows_keyed [OF k, of f] by (simp add: keyed_files_def list_all_iff)
  have clash: False
    if "x \<in> set (saved_rows d f)" "file_id f \<noteq> None \<longrightarrow> file_id x \<noteq> file_id f"
      "is_primary x" "is_primary ?new" "file_contract x = file_contract ?new" for x
    using that saved_rows_clash [of x d f] by (auto simp: ContractFile_save_fst)
  show ?thesis
    unfolding one_primary_set [OF ContractFile_save_keyed [OF k]]
  proof (intro ballI impI)
    fix x y
    assume x: "x \<in> set (files (snd (ContractFile_save d f)))"
      and y: "y \<in> set (files (snd (ContractFile_save d f)))"
      and p: "is_primary x \<and> is_primary y \<and> file_contract x = file_contract y"
    from ContractFile_save_member [OF x] ContractFile_save_member [OF y] p old clash
    show "x = y" by metis
  qed
qed

lemma ContractFile_save_demotes:
  assumes k: "keyed_files (files d)" and one: "at_most_one_primary (files d)"
    and prim: "is_primary f"
  shows "primary_files (files (snd (ContractFile_save d f))) (file_contract f)
         = [fst (ContractFile_save d f)]"
proof -
  let ?new = "fst (ContractFile_save d f)" and ?rows = "files (snd (ContractFile_save d f))"
  have short: "length (primary_files ?rows (file_contract f)) \<le> 1"
    using ContractFile_save_one_primary [OF k one, of f] by (simp add: at_most_one_primary_iff)
  have "?new \<in> set (primary_files ?rows (file_contract f))"
    using prim ContractFile_save_has [of d f]
    by (simp add: primary_files_def ContractFile_save_fst)
  with short show ?thesis
    by (cases "primary_files ?rows (file_contract f)") auto
qed

lemma Contract_delete_files:
  "files (Contract_delete d cid) = filter (\<lambda>r. file_contract r \<noteq> cid) (files d)"
  by (simp add: Contract_delete_def Let_def)

lemma filter_keyed: "keyed_files rows \<Longrightarrow> keyed_files (filter P rows)"
  by (auto simp: keyed_files_def list_all_iff distinct_map_filter)

lemma filter_one_primary:
  assumes "keyed_files rows" and "at_most_one_primary rows"
  shows "at_most_one_primary (filter P rows)"
  using assms(2)
  unfolding one_primary_set [OF assms(1)] one_primary_set [OF filter_keyed [OF assms(1)]]
  by auto

lemma apply_op_invariant:
  assumes "keyed_files (files d)" and "at_most_one_primary (files d)"
  shows "keyed_files (files (apply_op d op)) \<and> at_most_one_primary (files (apply_op d op))"
  using assms
  by (cases op)
    (simp_all add: ContractFile_save_keyed ContractFile_save_one_primary Contract_delete_files
      filter_keyed filter_one_primary)

lemma run_ops_invariant:
  assumes "keyed_files (files d)" and "at_most_one_primary (files d)"
  shows "keyed_files (files (run_ops ops d)) \<and> at_most_one_primary (files (run_ops ops d))"
  using assms
proof (induction ops arbitrary: d)
  case Nil
  then show ?case by (simp add: run_ops_def)
next
  case (Cons op ops)
  from apply_op_invariant [OF Cons.prems, of op] Cons.IH [of "apply_op d op"]
  show ?case by (simp add: run_ops_def)
qed

text \<open>
  C7. From a file table in which no contract has two primary files, every sequence of
  file saves and contract deletions leads to a table in which every contract has at most
  one primary file; and saving a file marked primary in such a table leaves that file as
  the only primary file of its contract, so any file that was primary before is demoted.
\<close>

theorem one_primary_file_per_contract:
  assumes "keyed_files (files d)" and "at_most_one_primary (files d)"
  shows "(\<forall>cid. length (primary_files (files (run_ops ops d)) cid) \<le> 1)
         \<and> (is_primary f \<longrightarrow>
              primary_files (files (snd (ContractFile_save (run_ops ops d) f))) (file_contract f)
              = [fst (ContractFile_save (run_ops ops d) f)])"
  using run_ops_invariant [OF assms, of ops] ContractFile_save_demotes [of "run_ops ops d" f]
  by (simp add: at_most_one_primary_iff)

theorem one_primary_file_per_contract_witness:
  "keyed_files (files empty_db) \<and> at_most_one_primary (files empty_db)
   \<and> is_primary (example_file ''test2.pdf'')
   \<and> length (primary_files
               (files (run_ops [Save_file (example_file ''test1.pdf'')] empty_db))
               (contract_id example_contract)) \<le> 1
   \<and> primary_files
        (files (snd (ContractFile_save
                       (run_ops [Save_file (example_file ''test1.pdf'')] empty_db)
                       (example_file ''test2.pdf''))))
        (file_contract (example_file ''test2.pdf''))
       = [fst (ContractFile_save (run_ops [Save_file (example_file ''test1.pdf'')] empty_db)
                 (example_file ''test2.pdf''))]
   \<and> map (\<lambda>r. (file_id r, original_filename r, is_primary r))
        (files (snd (ContractFile_save
                       (run_ops [Save_file (example_file ''test1.pdf'')] empty_db)
                       (example_file ''test2.pdf''))))
       = [(Some 1, ''test1.pdf'', False), (Some 2, ''test2.pdf'', True)]"
proof -
  have k: "keyed_files (files empty_db)" by (simp add: keyed_files_def empty_db_def)
  have one: "at_most_one_primary (files empty_db)"
    by (simp add: at_most_one_primary_def empty_db_def)
  have prim: "is_primary (example_file ''test2.pdf'')" by (simp add: example_file_def)
  have rows: "map (\<lambda>r. (file_id r, original_filename r, is_primary r))
        (files (snd (ContractFile_save
                       (run_ops [Save_file (example_file ''test1.pdf'')] empty_db)
                       (example_file ''test2.pdf''))))
       = [(Some 1, ''test1.pdf'', False), (Some 2, ''test2.pdf'', True)]"
    by (simp add: run_ops_def ContractFile_save_def demote_other_primaries_def example_file_def
        empty_db_def fresh_id_def List.map_filter_simps Let_def)
  show ?thesis
    using k one prim rows
      one_primary_file_per_contract [OF k one,
        of "[Save_file (example_file ''test1.pdf'')]" "example_file ''test2.pdf''"]
    by simp
qed

section \<open>Version numbers: properties\<close>

lemma versions_log [simp]: "versions (AuditLogService_log d c act who meta) = versions d"
  by (simp add: AuditLogService_log_def)

lemma versions_tags_set [simp]: "versions (tags_set d c tags) = versions d"
  by (simp add: tags_set_def Let_def)

lemma versions_file_save [simp]: "versions (snd (ContractFile_save d f)) = versions d"
  by (simp add: ContractFile_save_def Let_def split: option.splits)

lemma versions_create_file [simp]:
  "versions (snd (create_contract_file u d c f primary description)) = versions d"
  by (simp add: create_contract_file_def)

lemma Contract_save_insert:
  assumes "Contract_save now True d c0 = Inr (c, d1)"
  shows "contract_id c = contract_id c0" and "versions d1 = versions d"
    and "contract_id c0 \<notin> set (map contract_id (contracts d))"
  using assms
  by (auto simp: Contract_save_def model_save_def Let_def split: sum.splits if_splits)

lemma contract_id_assign [simp]: "contract_id (assign_fields updates c) = contract_id c"
proof -
  have "contract_id (setattr c f) = contract_id c" for c f by (cases f) simp_all
  then show ?thesis
    unfolding assign_fields_def by (induction updates arbitrary: c) simp_all
qed

lemma create_contract_versions:
  assumes "create_contract now new_id u d data file = Inr (c, d1)"
  shows "contract_id c = new_id"
    and "new_id \<notin> set (map contract_id (contracts d))"
    and "versions d1 = versions d @
           [\<lparr>version_id = fresh_id (map version_id (versions d)), version_contract = new_id,
             version_number = 1, version_label = ''Initial Version'', version_file = None,
             version_notes = [], version_created_by = Some (pk u)\<rparr>]"
proof -
  let ?c0 = "assign_fields
     (if data_owner (data_fields data @ [Set_created_by (Some (pk u))]) = None
      then (data_fields data @ [Set_created_by (Some (pk u))]) @ [Set_owner (Some (pk u))]
      else data_fields data @ [Set_created_by (Some (pk u))]) (new_contract new_id)"
  from assms obtain d0 where s: "Contract_save now True d ?c0 = Inr (c, d0)"
    by (auto simp: create_contract_def Let_def split: sum.splits)
  have id0: "contract_id ?c0 = new_id" by (simp add: new_contract_def)
  from Contract_save_insert [OF s] id0
  show "contract_id c = new_id" "new_id \<notin> set (map contract_id (contracts d))"
    by simp_all
  from assms s Contract_save_insert(2) [OF s] \<open>contract_id c = new_id\<close>
  show "versions d1 = versions d @
           [\<lparr>version_id = fresh_id (map version_id (versions d)), version_contract = new_id,
             version_number = 1, version_label = ''Initial Version'', version_file = None,
             version_notes = [], version_created_by = Some (pk u)\<rparr>]"
    by (auto simp: create_contract_def Let_def split: option.splits if_splits)
qed

lemma create_contract_initial_version:
  assumes "create_contract now new_id u d data file = Inr (c, d1)"
    and "versions_reference_contracts d"
  shows "map (\<lambda>v. (version_number v, version_label v)) (contract_versions d1 c)
         = [(1, ''Initial Version'')]"
proof -
  note cv = create_contract_versions [OF assms(1)]
  have "filter (\<lambda>v. version_contract v = new_id) (versions d) = []"
    using assms(2) cv(2) by (auto simp: versions_reference_contracts_def list_all_iff filter_empty_conv)
  with cv show ?thesis by (simp add: contract_versions_def)
qed

lemma Max_upto: "Max {Suc 0..<Suc (Suc k)} = Suc k"
  by (rule Max_eqI) auto

lemma add_version_versions:
  "versions (snd (add_version u d c label f notes)) = versions d @ [fst (add_version u d c label f notes)]"
  by (simp add: add_version_def Let_def)

lemma add_version_number:
  shows "version_number (fst (add_version u d c label f notes)) =
     (if contract_versions d c = [] then 1
      else Max (set (map version_number (contract_versions d c))) + 1)"
    and "version_contract (fst (add_version u d c label f notes)) = contract_id c"
  by (simp_all add: add_version_def Let_def)

lemma add_version_step:
  assumes "map version_number (contract_versions d c) = [1..<Suc (Suc k)]"
  shows "map version_number (contract_versions (snd (add_version u d c' label f notes)) c)
         = (if contract_id c' = contract_id c then [1..<Suc (Suc (Suc k))] else [1..<Suc (Suc k)])"
proof (cases "contract_id c' = contract_id c")
  case True
  then have same: "contract_versions d c' = contract_versions d c"
    by (simp add: contract_versions_def)
  have ne: "contract_versions d c \<noteq> []" using assms by auto
  have "version_number (fst (add_version u d c' label f notes)) = Suc (Suc k)"
    using assms ne by (simp add: add_version_number same Max_upto del: upt_Suc)
  with True assms show ?thesis
    by (simp add: contract_versions_def add_version_versions add_version_number(2))
next
  case False
  with assms show ?thesis
    by (simp add: contract_versions_def add_version_versions add_version_number(2))
qed

lemma add_versions_numbers:
  assumes "map version_number (contract_versions d c) = [1..<Suc (Suc k)]"
  shows "map version_number (contract_versions (add_versions d calls) c)
         = [1..<Suc (Suc (k + calls_on c calls))]"
  using assms
proof (induction calls arbitrary: d k)
  case Nil
  then show ?case by (simp add: add_versions_def calls_on_def)
next
  case (Cons call calls)
  let ?d = "snd (add_version (call_user call) d (call_contract call) (call_label call)
                   (call_file call) (call_notes call))"
  have unfold: "add_versions d (call # calls) = add_versions ?d calls"
    by (simp add: add_versions_def)
  show ?case
  proof (cases "contract_id (call_contract call) = contract_id c")
    case True
    with add_version_step [OF Cons.prems]
    have "map version_number (contract_versions ?d c) = [1..<Suc (Suc (Suc k))]" by simp
    from Cons.IH [OF this] True show ?thesis
      by (simp add: unfold calls_on_def)
  next
    case False
    with add_version_step [OF Cons.prems]
    have "map version_number (contract_versions ?d c) = [1..<Suc (Suc k)]" by simp
    from Cons.IH [OF this] False show ?thesis
      by (simp add: unfold calls_on_def)
  qed
qed

text \<open>
  C8. Creating a contract leaves it with exactly one version, numbered 1 and labelled
  'Initial Version'; \<open>add_version\<close> numbers the new version 1 when the contract has none
  and one more than the largest number otherwise; so after the creation and any calls of
  \<open>add_version\<close>, on this or other contracts, the version numbers of the contract are, in
  order of creation, 1, 2, ... up to one more than the number of calls on it: strictly
  increasing from 1 with no gap.
\<close>

theorem version_numbers_from_one:
  assumes "create_contract now new_id u d data file = Inr (c, d1)"
    and "versions_reference_contracts d"
  shows "map (\<lambda>v. (version_number v, version_label v)) (contract_versions d1 c)
           = [(1, ''Initial Version'')]
         \<and> version_number (fst (add_version u' d' c' label f notes))
           = (if contract_versions d' c' = [] then 1
              else Max (set (map version_number (contract_versions d' c'))) + 1)
         \<and> map version_number (contract_versions (add_versions d1 calls) c)
           = [1..<Suc (Suc (calls_on c calls))]"
proof -
  note init = create_contract_initial_version [OF assms]
  then have "map version_number (contract_versions d1 c) = [1..<Suc (Suc 0)]"
    by (cases "contract_versions d1 c") auto
  from add_versions_numbers [OF this, of calls] init show ?thesis
    by (simp add: add_version_number(1))
qed

lemma example_created_eq:
  "create_contract example_time (contract_id example_contract) (staff_user 1) empty_db
     example_data None = Inr example_created"
  by (simp add: example_created_def create_contract_def Contract_save_def model_save_def
      save_row_def example_data_def empty_db_def Let_def data_owner_def assign_fields_def
      new_contract_def adapt_decimalfield_value_def)

theorem version_numbers_from_one_witness:
  "versions_reference_contracts empty_db
   \<and> create_contract example_time (contract_id example_contract) (staff_user 1) empty_db
        example_data None = Inr example_created
   \<and> map (\<lambda>v. (version_number v, version_label v))
        (contract_versions (snd example_created) (fst example_created))
       = [(1, ''Initial Version'')]
   \<and> map version_number
        (contract_versions
           (add_versions (snd example_created) [example_call ''Second draft'', example_call ''Signed''])
           (fst example_created))
       = [1, 2, 3]"
proof -
  have refs: "versions_reference_contracts empty_db"
    by (simp add: versions_reference_contracts_def empty_db_def)
  have made: "create_contract example_time (contract_id example_contract) (staff_user 1) empty_db
     example_data None = Inr (fst example_created, snd example_created)"
    by (simp only: example_created_eq prod.collapse)
  have n: "calls_on (fst example_created) [example_call ''Second draft'', example_call ''Signed''] = 2"
    by (simp add: calls_on_def example_call_def)
  have upt: "[1..<Suc (Suc 2)] = [1, 2, 3]" by (simp add: upt_rec)
  show ?thesis
    using refs example_created_eq n upt
      version_numbers_from_one [OF made refs,
        of "staff_user 1" empty_db example_contract "[]" None "[]"
           "[example_call ''Second draft'', example_call ''Signed'']"]
    by simp
qed

section \<open>Contract numbers: properties\<close>

lemma digit_char_digit: "n < 10 \<Longrightarrow> is_digit (digit_char n)"
proof -
  assume "n < 10"
  then have "n \<in> set [0..<10]" by simp
  then show ?thesis
    unfolding upt_rec [of 0] by (auto simp: upt_rec is_digit_def digit_char_def)
qed

lemma dec_step: "10 \<le> n \<Longrightarrow> dec n = dec (n div 10) @ [digit_char (n mod 10)]"
  by (subst dec.simps) simp

lemma dec_digit: "n < 10 \<Longrightarrow> dec n = [digit_char n]"
  by (subst dec.simps) simp

lemma dec_four:
  assumes "1000 \<le> y" and "y \<le> 9999"
  shows "dec y = [digit_char (y div 1000), digit_char (y div 100 mod 10),
                  digit_char (y div 10 mod 10), digit_char (y mod 10)]"
proof -
  have a: "dec y = dec (y div 10) @ [digit_char (y mod 10)]"
    using assms by (intro dec_step) simp
  have b: "dec (y div 10) = dec (y div 100) @ [digit_char (y div 10 mod 10)]"
    using assms dec_step [of "y div 10"] by (simp add: div_mult2_eq [symmetric])
  have c: "dec (y div 100) = dec (y div 1000) @ [digit_char (y div 100 mod 10)]"
    using assms dec_step [of "y div 100"] by (simp add: div_mult2_eq [symmetric])
  have d: "dec (y div 1000) = [digit_char (y div 1000)]"
    using assms by (intro dec_digit) simp
  show ?thesis by (simp add: a b c d)
qed

lemma year_digits:
  assumes "1000 \<le> y" and "y \<le> 9999"
  shows "length (dec y) = 4 \<and> list_all is_digit (dec y)"
proof -
  have "y div 1000 < 10" "y div 100 mod 10 < 10" "y div 10 mod 10 < 10" "y mod 10 < 10"
    using assms by simp_all
  then show ?thesis
    by (simp add: dec_four [OF assms] digit_char_digit)
qed

lemma month_digits:
  assumes "1 \<le> m" and "m \<le> 12"
  shows "length (if m < 10 then CHR ''0'' # dec m else dec m) = 2
         \<and> list_all is_digit (if m < 10 then CHR ''0'' # dec m else dec m)"
proof (cases "m < 10")
  case True
  then show ?thesis
    by (simp add: dec_digit digit_char_digit) (simp add: is_digit_def)
next
  case False
  then have s: "dec m = dec (m div 10) @ [digit_char (m mod 10)]"
    by (intro dec_step) simp
  have t: "dec (m div 10) = [digit_char (m div 10)]"
    using assms by (intro dec_digit) simp
  have "m div 10 < 10" "m mod 10 < 10" using assms by simp_all
  with False show ?thesis by (simp add: s t digit_char_digit)
qed

lemma strftime_digits:
  assumes "clock_ok t"
  shows "length (strftime_Ym t) = 6 \<and> list_all is_digit (strftime_Ym t)"
  using assms year_digits [of "year t"] month_digits [of "month t"]
  unfolding strftime_Ym_def clock_ok_def by simp

lemma hex_upper: "n < 16 \<Longrightarrow> is_upper_alnum (upper_char (hex_digit n))"
proof -
  assume "n < 16"
  then have "n \<in> set [0..<16]" by simp
  then show ?thesis
    unfolding upt_rec [of 0]
    by (auto simp: upt_rec is_upper_alnum_def upper_char_def hex_digit_def)
qed

lemma nibble_small: "unat ((w :: uuid) AND 15) < 16"
proof -
  have "w AND 15 \<le> 15" by (rule word_and_le1)
  then have "unat (w AND 15) \<le> unat (15 :: uuid)" by (simp add: word_le_nat_alt)
  then show ?thesis by simp
qed

lemma uuid_hex_props:
  "length (uuid_hex w) = 32" "list_all (\<lambda>ch. is_upper_alnum (upper_char ch)) (uuid_hex w)"
  by (simp_all add: uuid_hex_def list_all_iff hex_upper nibble_small)

lemma uuid_prefix: "take 8 (uuid_str w) = take 8 (uuid_hex w)"
  by (simp add: uuid_str_def Let_def uuid_hex_props(1))

lemma uuid_prefix_props:
  "length (upper (take 8 (uuid_str w))) = 8"
  "list_all is_upper_alnum (upper (take 8 (uuid_str w)))"
proof -
  show "length (upper (take 8 (uuid_str w))) = 8"
    by (simp add: upper_def uuid_prefix uuid_hex_props(1))
  have "list_all (\<lambda>ch. is_upper_alnum (upper_char ch)) (take 8 (uuid_hex w))"
    using uuid_hex_props(2) [of w] by (auto simp: list_all_iff dest: in_set_takeD)
  then show "list_all is_upper_alnum (upper (take 8 (uuid_str w)))"
    by (simp add: upper_def uuid_prefix list_all_iff)
qed

lemma format_assembled:
  assumes "length ym = 6" and "list_all is_digit ym" and "length h = 8"
    and "list_all is_upper_alnum h"
  shows "contract_number_format (''CNT-'' @ ym @ ''-'' @ h)"
  using assms by (simp add: contract_number_format_def)

lemma generated_number_format:
  "clock_ok now \<Longrightarrow> contract_number_format (generate_contract_number now c)"
  unfolding generate_contract_number_def
  using strftime_digits [of now] uuid_prefix_props [of "contract_id c"]
  by (intro format_assembled) simp_all

lemma find_save_row_any: "find (\<lambda>r. key r = key row) (save_row key rows row) = Some row"
proof (cases "key row \<in> set (map key rows)")
  case True
  then have "find (\<lambda>r. key r = key row) (map (\<lambda>r. if key r = key row then row else r) rows)
             = Some row"
    by (induction rows) auto
  with True show ?thesis by (simp add: save_row_def)
next
  case False
  then have "\<forall>r\<in>set rows. key r \<noteq> key row" by (metis image_eqI list.set_map)
  then have "find (\<lambda>r. key r = key row) (rows @ [row]) = Some row"
    by (induction rows) auto
  with False show ?thesis by (simp add: save_row_def)
qed

lemma find_renumbered:
  "find (\<lambda>r. contract_id r = cid)
     (map (\<lambda>r. if contract_id r = cid then r\<lparr>contract_number := n\<rparr> else r) rows)
   = map_option (\<lambda>r. r\<lparr>contract_number := n\<rparr>) (find (\<lambda>r. contract_id r = cid) rows)"
  by (induction rows) auto

lemma Contract_save_result:
  assumes "Contract_save now fi d c = Inr (c', d')"
  shows "contract_number c' =
           (if contract_number c = [] then generate_contract_number now c else contract_number c)"
    and "stored_number d' (contract_id c) = Some (contract_number c')"
    and "contract_id c' = contract_id c"
proof -
  from assms obtain stored where "adapt_decimalfield_value (value_amount c) = Inr stored"
    by (auto simp: Contract_save_def split: sum.splits)
  with assms find_save_row_any [of contract_id "c\<lparr>value_amount := stored\<rparr>" "contracts d"]
  show "contract_number c' =
           (if contract_number c = [] then generate_contract_number now c else contract_number c)"
    and "stored_number d' (contract_id c) = Some (contract_number c')"
    and "contract_id c' = contract_id c"
    by (auto simp: Contract_save_def model_save_def stored_number_def find_renumbered Let_def
        split: if_splits)
qed

lemma Contract_save_total:
  assumes "\<not> fi \<or> contract_id c \<notin> set (map contract_id (contracts d))"
    and "adapt_decimalfield_value (value_amount c) = Inr stored"
  shows "\<exists>r. Contract_save now fi d c = Inr r"
  using assms by (auto simp: Contract_save_def model_save_def Let_def)

lemma generate_same_id:
  "contract_id c = contract_id c' \<Longrightarrow> generate_contract_number now c = generate_contract_number now c'"
  by (simp add: generate_contract_number_def)

lemma assigned_number_snoc:
  "assigned_number (xs @ [x])
   = (case x of Set_contract_number v \<Rightarrow> Some v | _ \<Rightarrow> assigned_number xs)"
  by (cases x) (simp_all add: assigned_number_def)

lemma contract_number_assigned:
  "contract_number (assign_fields xs c)
   = (case assigned_number xs of None \<Rightarrow> contract_number c | Some v \<Rightarrow> v)"
proof (induction xs rule: rev_induct)
  case Nil
  then show ?case by (simp add: assign_fields_def assigned_number_def)
next
  case (snoc x xs)
  then show ?case
    by (cases x) (simp_all add: assign_fields_append assigned_number_snoc, simp_all add: assign_fields_def)
qed

lemma stored_number_cong: "contracts d = contracts d' \<Longrightarrow> stored_number d cid = stored_number d' cid"
  by (simp add: stored_number_def)

lemma create_contract_number:
  assumes "create_contract now new_id u d data uploaded = Inr (c, d')"
  shows "contract_number c =
           (case assigned_number (data_fields data) of
              None \<Rightarrow> generate_contract_number now (new_contract new_id)
            | Some v \<Rightarrow> if v = [] then generate_contract_number now (new_contract new_id) else v)"
    and "stored_number d' new_id = Some (contract_number c)"
proof -
  let ?fields = "if data_owner (data_fields data @ [Set_created_by (Some (pk u))]) = None
      then (data_fields data @ [Set_created_by (Some (pk u))]) @ [Set_owner (Some (pk u))]
      else data_fields data @ [Set_created_by (Some (pk u))]"
  let ?c0 = "assign_fields ?fields (new_contract new_id)"
  from assms obtain d1 where s: "Contract_save now True d ?c0 = Inr (c, d1)"
    and same: "contracts d' = contracts d1"
    by (auto simp: create_contract_def Let_def split: sum.splits option.splits if_splits)
  have assigned: "assigned_number ?fields = assigned_number (data_fields data)"
    by (simp add: assigned_number_def)
  have number0: "contract_number ?c0
        = (case assigned_number (data_fields data) of None \<Rightarrow> [] | Some v \<Rightarrow> v)"
    unfolding contract_number_assigned assigned
    by (simp add: new_contract_def split: option.splits)
  have gen: "generate_contract_number now ?c0 = generate_contract_number now (new_contract new_id)"
    by (rule generate_same_id) simp
  from Contract_save_result(1) [OF s] number0 gen
  show "contract_number c =
           (case assigned_number (data_fields data) of
              None \<Rightarrow> generate_contract_number now (new_contract new_id)
            | Some v \<Rightarrow> if v = [] then generate_contract_number now (new_contract new_id) else v)"
    by (simp split: option.splits)
  from Contract_save_result(2) [OF s] stored_number_cong [OF same, of new_id]
  show "stored_number d' new_id = Some (contract_number c)" by simp
qed

lemma update_contract_number:
  assumes "update_contract now u d c data = Inr (c', d')"
  shows "contract_number c' =
           (if contract_number (assign_fields (data_fields data) c) = []
            then generate_contract_number now c
            else contract_number (assign_fields (data_fields data) c))"
    and "stored_number d' (contract_id c) = Some (contract_number c')"
proof -
  from assms obtain d1 where
    s: "Contract_save now False d (assign_fields (data_fields data) c) = Inr (c', d1)"
    and same: "contracts d' = contracts d1"
    by (auto simp: update_contract_def Let_def split: sum.splits if_splits option.splits)
  have "generate_contract_number now (assign_fields (data_fields data) c)
        = generate_contract_number now c"
    by (rule generate_same_id) simp
  with Contract_save_result(1) [OF s]
  show "contract_number c' =
           (if contract_number (assign_fields (data_fields data) c) = []
            then generate_contract_number now c
            else contract_number (assign_fields (data_fields data) c))"
    by simp
  from Contract_save_result(2) [OF s] stored_number_cong [OF same, of "contract_id c"]
  show "stored_number d' (contract_id c) = Some (contract_number c')" by simp
qed

lemma update_contract_total:
  assumes "adapt_decimalfield_value (value_amount (assign_fields (data_fields data) c)) = Inr stored"
  shows "\<exists>c' d'. update_contract now u d c data = Inr (c', d')
             \<and> status c' = status (assign_fields (data_fields data) c)"
  using assms by (simp add: update_contract_def Contract_save_def model_save_def Let_def)

lemma wizard_data_assigns_no_number:
  "assigned_number (data_fields (wizard_contract_data u wizard as_draft amount)) = None"
  by (simp add: assigned_number_def wizard_contract_data_def)

text \<open>
  C6 as stated fails: the edit form lists \<open>contract_number\<close> among its fields, and
  \<open>update_contract\<close> assigns every field of the form. The sample contract carries a
  generated number; an update whose data holds another number stores that one.
\<close>

theorem contract_number_reassigned_counterexample:
  "stored_number example_db (contract_id example_contract) = Some ''CNT-202401-1A2B3C4D''
   \<and> (case update_contract example_time (staff_user 1) example_db example_contract
              \<lparr>data_fields = [Set_contract_number ''LEGAL-7''], data_tags = None\<rparr> of
         Inl e \<Rightarrow> False
       | Inr (c, d) \<Rightarrow>
           contract_number c = ''LEGAL-7''
           \<and> stored_number d (contract_id example_contract) = Some ''LEGAL-7'')"
  by (simp add: update_contract_def Contract_save_def model_save_def save_row_def
      assign_fields_def stored_number_def AuditLogService_log_def example_defs Let_def
      adapt_decimalfield_value_def)

text \<open>
  C6, amended. While the clock shows a four-digit year: the first save of a contract
  (its identifier is not in the table) whose contract number is empty assigns \<open>CNT-\<close>,
  year and month, a hyphen and the first eight characters of the identifier in upper
  case, which has the format of the specification, and stores it. This is the first
  persist of every contract that \<open>create_contract\<close> makes from data that assigns no
  contract number or an empty one, and the data of the wizard never assigns one. Once
  the number is not empty, a save keeps it, and \<open>update_contract\<close> keeps it whenever its
  data assigns no contract number or the number the contract has. A save succeeds when
  the column \<open>value_amount\<close> accepts the amount and no row has to be inserted under an
  identifier that is in the table.
\<close>

theorem contract_number_assignment:
  assumes "clock_ok now"
  shows "(Contract_save now fi d c = Inr (c', d') \<and> contract_number c = []
          \<and> contract_id c \<notin> set (map contract_id (contracts d)) \<longrightarrow>
            contract_number c'
              = ''CNT-'' @ strftime_Ym now @ ''-'' @ upper (take 8 (uuid_str (contract_id c)))
            \<and> contract_number_format (contract_number c')
            \<and> stored_number d' (contract_id c) = Some (contract_number c'))
         \<and> (Contract_save now fi d c = Inr (c', d') \<and> contract_number c \<noteq> [] \<longrightarrow>
              contract_number c' = contract_number c
              \<and> stored_number d' (contract_id c) = Some (contract_number c))
         \<and> ((\<not> fi \<or> contract_id c \<notin> set (map contract_id (contracts d)))
            \<and> adapt_decimalfield_value (value_amount c) = Inr stored \<longrightarrow>
              (\<exists>r. Contract_save now fi d c = Inr r))
         \<and> (create_contract now new_id u d data uploaded = Inr (made, d1)
            \<and> (assigned_number (data_fields data) = None
                \<or> assigned_number (data_fields data) = Some []) \<longrightarrow>
              contract_number made
                = ''CNT-'' @ strftime_Ym now @ ''-'' @ upper (take 8 (uuid_str new_id))
              \<and> contract_number_format (contract_number made)
              \<and> stored_number d1 new_id = Some (contract_number made))
         \<and> assigned_number (data_fields (wizard_contract_data u wizard as_draft amount)) = None
         \<and> (update_contract now u d c data = Inr (c'', d'') \<and> contract_number c \<noteq> []
            \<and> (assigned_number (data_fields data) = None
                \<or> assigned_number (data_fields data) = Some (contract_number c)) \<longrightarrow>
              contract_number c'' = contract_number c
              \<and> stored_number d'' (contract_id c) = Some (contract_number c))"
proof (intro conjI impI)
  assume a: "Contract_save now fi d c = Inr (c', d') \<and> contract_number c = []
          \<and> contract_id c \<notin> set (map contract_id (contracts d))"
  then have n: "contract_number c' = generate_contract_number now c"
    using Contract_save_result(1) [of now fi d c c' d'] by simp
  then show "contract_number c'
      = ''CNT-'' @ strftime_Ym now @ ''-'' @ upper (take 8 (uuid_str (contract_id c)))"
    by (simp add: generate_contract_number_def)
  show "contract_number_format (contract_number c')"
    using n generated_number_format [OF assms, of c] by simp
  show "stored_number d' (contract_id c) = Some (contract_number c')"
    using a Contract_save_result(2) [of now fi d c c' d'] by simp
next
  assume a: "Contract_save now fi d c = Inr (c', d') \<and> contract_number c \<noteq> []"
  then show "contract_number c' = contract_number c"
    using Contract_save_result(1) [of now fi d c c' d'] by simp
  then show "stored_number d' (contract_id c) = Some (contract_number c)"
    using a Contract_save_result(2) [of now fi d c c' d'] by simp
next
  assume "(\<not> fi \<or> contract_id c \<notin> set (map contract_id (contracts d)))
            \<and> adapt_decimalfield_value (value_amount c) = Inr stored"
  then show "\<exists>r. Contract_save now fi d c = Inr r"
    using Contract_save_total [of fi c d stored now] by blast
next
  assume a: "create_contract now new_id u d data uploaded = Inr (made, d1)
            \<and> (assigned_number (data_fields data) = None
                \<or> assigned_number (data_fields data) = Some [])"
  then have made: "create_contract now new_id u d data uploaded = Inr (made, d1)" by simp
  from a create_contract_number(1) [OF made]
  have n: "contract_number made = generate_contract_number now (new_contract new_id)"
    by auto
  then show "contract_number made
      = ''CNT-'' @ strftime_Ym now @ ''-'' @ upper (take 8 (uuid_str new_id))"
    by (simp add: generate_contract_number_def)
  show "contract_number_format (contract_number made)"
    using n generated_number_format [OF assms, of "new_contract new_id"] by simp
  show "stored_number d1 new_id = Some (contract_number made)"
    by (rule create_contract_number(2) [OF made])
next
  show "assigned_number (data_fields (wizard_contract_data u wizard as_draft amount)) = None"
    by (rule wizard_data_assigns_no_number)
next
  assume a: "update_contract now u d c data = Inr (c'', d'') \<and> contract_number c \<noteq> []
            \<and> (assigned_number (data_fields data) = None
                \<or> assigned_number (data_fields data) = Some (contract_number c))"
  then have upd: "update_contract now u d c data = Inr (c'', d'')" by simp
  from a have "contract_number (assign_fields (data_fields data) c) = contract_number c"
    by (auto simp: contract_number_assigned)
  with a update_contract_number(1) [OF upd]
  show n: "contract_number c'' = contract_number c" by simp
  from update_contract_number(2) [OF upd] n
  show "stored_number d'' (contract_id c) = Some (contract_number c)" by simp
qed

lemma example_number:
  "generate_contract_number example_time (new_contract (contract_id example_contract))
   = ''CNT-202401-1A2B3C4D''"
  by (simp add: generate_contract_number_def strftime_Ym_def example_time_def dec.simps
      digit_char_def uuid_str_def uuid_hex_def hex_digit_def upper_def upper_char_def
      example_contract_def new_contract_def upt_rec)

lemma example_created_number:
  "contract_number (fst example_created) = ''CNT-202401-1A2B3C4D''"
  using example_created_eq example_number
    create_contract_number(1) [of example_time "contract_id example_contract" "staff_user 1"
      empty_db example_data None "fst example_created" "snd example_created"]
  by (simp add: example_data_def assigned_number_def)

lemma example_created_amount: "value_amount (fst example_created) = None"
  by (simp add: example_created_def create_contract_def Contract_save_def model_save_def save_row_def
      example_data_def empty_db_def Let_def data_owner_def assign_fields_def new_contract_def
      adapt_decimalfield_value_def)

theorem contract_number_assignment_witness:
  "clock_ok example_time \<and> clock_ok later_time
   \<and> contract_number (new_contract (contract_id example_contract)) = []
   \<and> contract_id (new_contract (contract_id example_contract))
       \<notin> set (map contract_id (contracts empty_db))
   \<and> Contract_save example_time True empty_db (new_contract (contract_id example_contract))
       = Inr (numbered_contract, empty_db\<lparr>contracts := [numbered_contract]\<rparr>)
   \<and> adapt_decimalfield_value (value_amount (new_contract (contract_id example_contract)))
       = Inr None
   \<and> (\<exists>r. Contract_save example_time True empty_db
              (new_contract (contract_id example_contract)) = Inr r)
   \<and> contract_number numbered_contract = ''CNT-202401-1A2B3C4D''
   \<and> contract_number_format (contract_number numbered_contract)
   \<and> stored_number (empty_db\<lparr>contracts := [numbered_contract]\<rparr>) (contract_id example_contract)
       = Some ''CNT-202401-1A2B3C4D''
   \<and> Contract_save later_time False (empty_db\<lparr>contracts := [numbered_contract]\<rparr>)
        (numbered_contract\<lparr>status := ''ACTIVE''\<rparr>)
       = Inr (numbered_contract\<lparr>status := ''ACTIVE''\<rparr>,
              empty_db\<lparr>contracts := [numbered_contract\<lparr>status := ''ACTIVE''\<rparr>]\<rparr>)
   \<and> stored_number (empty_db\<lparr>contracts := [numbered_contract\<lparr>status := ''ACTIVE''\<rparr>]\<rparr>)
        (contract_id example_contract)
       = Some ''CNT-202401-1A2B3C4D''
   \<and> create_contract example_time (contract_id example_contract) (staff_user 1) empty_db
        example_data None = Inr example_created
   \<and> assigned_number (data_fields example_data) = None
   \<and> contract_number (fst example_created) = ''CNT-202401-1A2B3C4D''
   \<and> contract_number_format (contract_number (fst example_created))
   \<and> stored_number (snd example_created) (contract_id example_contract)
       = Some ''CNT-202401-1A2B3C4D''
   \<and> assigned_number (data_fields activation_data) = None
   \<and> (case update_contract later_time (staff_user 1) (snd example_created) (fst example_created)
              activation_data of
         Inl e \<Rightarrow> False
       | Inr (c, d) \<Rightarrow>
           contract_number c = ''CNT-202401-1A2B3C4D'' \<and> status c = ''ACTIVE''
           \<and> stored_number d (contract_id example_contract) = Some ''CNT-202401-1A2B3C4D'')"
proof -
  have clock: "clock_ok example_time" "clock_ok later_time"
    by (simp_all add: clock_ok_def example_time_def later_time_def)
  have first: "Contract_save example_time True empty_db (new_contract (contract_id example_contract))
       = Inr (numbered_contract, empty_db\<lparr>contracts := [numbered_contract]\<rparr>)"
    using example_number
    by (simp add: Contract_save_def model_save_def save_row_def empty_db_def
        numbered_contract_def new_contract_def Let_def adapt_decimalfield_value_def)
  have blank: "contract_number (new_contract (contract_id example_contract)) = []"
    by (simp add: new_contract_def)
  have fresh: "contract_id (new_contract (contract_id example_contract))
        \<notin> set (map contract_id (contracts empty_db))"
    by (simp add: empty_db_def)
  have accepted: "adapt_decimalfield_value
        (value_amount (new_contract (contract_id example_contract))) = Inr None"
    by (simp add: new_contract_def adapt_decimalfield_value_def)
  from contract_number_assignment [OF clock(1), where fi = True and d = empty_db
        and c = "new_contract (contract_id example_contract)" and stored = None,
        THEN conjunct2, THEN conjunct2, THEN conjunct1] fresh accepted
  have r0: "\<exists>r. Contract_save example_time True empty_db
              (new_contract (contract_id example_contract)) = Inr r"
    by blast
  have again: "Contract_save later_time False (empty_db\<lparr>contracts := [numbered_contract]\<rparr>)
        (numbered_contract\<lparr>status := ''ACTIVE''\<rparr>)
       = Inr (numbered_contract\<lparr>status := ''ACTIVE''\<rparr>,
              empty_db\<lparr>contracts := [numbered_contract\<lparr>status := ''ACTIVE''\<rparr>]\<rparr>)"
    by (simp add: Contract_save_def model_save_def save_row_def empty_db_def
        numbered_contract_def new_contract_def Let_def adapt_decimalfield_value_def)
  have set: "contract_number (numbered_contract\<lparr>status := ''ACTIVE''\<rparr>) \<noteq> []"
    "contract_number numbered_contract = ''CNT-202401-1A2B3C4D''"
    "contract_id (numbered_contract\<lparr>status := ''ACTIVE''\<rparr>) = contract_id example_contract"
    "contract_id (new_contract (contract_id example_contract)) = contract_id example_contract"
    by (simp_all add: numbered_contract_def new_contract_def)
  from contract_number_assignment [OF clock(1), of True empty_db
        "new_contract (contract_id example_contract)" numbered_contract
        "empty_db\<lparr>contracts := [numbered_contract]\<rparr>", THEN conjunct1] first blank fresh
  have r1: "contract_number_format (contract_number numbered_contract)"
    "stored_number (empty_db\<lparr>contracts := [numbered_contract]\<rparr>)
       (contract_id (new_contract (contract_id example_contract)))
     = Some (contract_number numbered_contract)"
    by blast+
  from contract_number_assignment [OF clock(2), of False
        "empty_db\<lparr>contracts := [numbered_contract]\<rparr>"
        "numbered_contract\<lparr>status := ''ACTIVE''\<rparr>" "numbered_contract\<lparr>status := ''ACTIVE''\<rparr>"
        "empty_db\<lparr>contracts := [numbered_contract\<lparr>status := ''ACTIVE''\<rparr>]\<rparr>",
        THEN conjunct2, THEN conjunct1] again set(1)
  have r2: "stored_number (empty_db\<lparr>contracts := [numbered_contract\<lparr>status := ''ACTIVE''\<rparr>]\<rparr>)
       (contract_id (numbered_contract\<lparr>status := ''ACTIVE''\<rparr>))
     = Some (contract_number (numbered_contract\<lparr>status := ''ACTIVE''\<rparr>))"
    by blast
  have made: "create_contract example_time (contract_id example_contract) (staff_user 1) empty_db
        example_data None = Inr (fst example_created, snd example_created)"
    by (simp only: example_created_eq prod.collapse)
  have none: "assigned_number (data_fields example_data) = None"
    "assigned_number (data_fields activation_data) = None"
    by (simp_all add: example_data_def activation_data_def assigned_number_def)
  from contract_number_assignment [OF clock(1), where new_id = "contract_id example_contract"
        and u = "staff_user 1" and d = empty_db and data = example_data and uploaded = None
        and made = "fst example_created" and ?d1.0 = "snd example_created",
        THEN conjunct2, THEN conjunct2, THEN conjunct2, THEN conjunct1] made none(1)
  have r3: "contract_number_format (contract_number (fst example_created))"
    "stored_number (snd example_created) (contract_id example_contract)
     = Some (contract_number (fst example_created))"
    by blast+
  have id: "contract_id (fst example_created) = contract_id example_contract"
    using create_contract_versions(1) [OF made] by simp
  obtain c2 d2 where upd: "update_contract later_time (staff_user 1) (snd example_created)
        (fst example_created) activation_data = Inr (c2, d2)"
    and st: "status c2 = ''ACTIVE''"
    using update_contract_total [of activation_data "fst example_created" None later_time
        "staff_user 1" "snd example_created"] example_created_amount
    by (auto simp: activation_data_def assign_fields_def adapt_decimalfield_value_def)
  have ne: "contract_number (fst example_created) \<noteq> []"
    by (simp add: example_created_number)
  from contract_number_assignment [OF clock(2), where u = "staff_user 1"
        and d = "snd example_created" and c = "fst example_created" and data = activation_data
        and c'' = c2 and d'' = d2,
        THEN conjunct2, THEN conjunct2, THEN conjunct2, THEN conjunct2, THEN conjunct2]
      upd ne none(2)
  have r4: "contract_number c2 = contract_number (fst example_created)"
    "stored_number d2 (contract_id (fst example_created))
     = Some (contract_number (fst example_created))"
    by blast+
  show ?thesis
    using clock first blank fresh accepted r0 again r1 r2 set example_created_eq none r3 r4 upd st id
    by (simp add: example_created_number)
qed
section \<open>The wizard commit: properties\<close>

subsection \<open>The amount the column keeps\<close>

lemma round_half_even_nearest:
  assumes "0 < m"
  shows "2 * \<bar>round_half_even c m * m - c\<bar> < m
         \<or> (2 * \<bar>round_half_even c m * m - c\<bar> = m \<and> even (round_half_even c m))"
proof -
  define q where "q = c div m"
  define r where "r = c mod m"
  have c: "c = q * m + r" by (simp add: q_def r_def)
  have r: "0 \<le> r" "r < m" using assms by (simp_all add: r_def)
  have low: "\<bar>q * m - c\<bar> = r" using r by (simp add: c)
  have high: "\<bar>(q + 1) * m - c\<bar> = m - r" using r by (simp add: c algebra_simps)
  consider "2 * r < m" | "m < 2 * r" | "2 * r = m" "even q" | "2 * r = m" "odd q"
    by linarith
  then show ?thesis
  proof cases
    case 1
    then have "round_half_even c m = q" by (simp add: round_half_even_def q_def r_def Let_def)
    with 1 low show ?thesis by simp
  next
    case 2
    then have "round_half_even c m = q + 1"
      by (simp add: round_half_even_def q_def r_def Let_def)
    with 2 high show ?thesis by simp
  next
    case 3
    then have "round_half_even c m = q" by (simp add: round_half_even_def q_def r_def Let_def)
    with 3 low show ?thesis by simp
  next
    case 4
    then have "round_half_even c m = q + 1"
      by (simp add: round_half_even_def q_def r_def Let_def)
    with 4 high show ?thesis by simp
  qed
qed

lemma quantize_nearest: "nearest_hundredth c e (quantize c e)"
proof (cases "- 2 \<le> e")
  case True
  then show ?thesis by (simp add: nearest_hundredth_def quantize_def)
next
  case False
  have "(0::int) < 10 ^ nat (- 2 - e)" by simp
  from round_half_even_nearest [OF this, of c] False show ?thesis
    by (simp add: nearest_hundredth_def quantize_def)
qed

lemma adapt_rounds:
  assumes "adapt_decimalfield_value amount = Inr stored"
  shows "rounded_to_hundredths amount stored"
proof (cases amount)
  case None
  with assms show ?thesis
    by (simp add: adapt_decimalfield_value_def rounded_to_hundredths_def)
next
  case (Some a)
  show ?thesis
  proof (cases a)
    case (Finite c e)
    with Some assms quantize_nearest [of c e] show ?thesis
      by (auto simp: adapt_decimalfield_value_def rounded_to_hundredths_def split: if_splits)
  next
    case (Infinity negative)
    with Some assms show ?thesis by (simp add: adapt_decimalfield_value_def)
  next
    case NaN
    with Some assms show ?thesis by (simp add: adapt_decimalfield_value_def)
  qed
qed

subsection \<open>The store after \<open>create_contract\<close>\<close>

lemma tags_set_fresh:
  assumes "contract_id c \<notin> set (map tag_contract (contract_tags d))"
  shows "tags_set d c tags
         = d\<lparr>contract_tags := contract_tags d
               @ map (\<lambda>t. \<lparr>tag_contract = contract_id c, tag = t\<rparr>) (remdups tags)\<rparr>"
proof -
  have other: "\<forall>r \<in> set (contract_tags d). tag_contract r \<noteq> contract_id c"
    using assms by (metis image_eqI list.set_map)
  then have kept: "filter (\<lambda>r. tag_contract r \<noteq> contract_id c \<or> tag r \<in> set tags) (contract_tags d)
                   = contract_tags d"
    by (simp add: filter_id_conv)
  from other have none: "filter (\<lambda>r. tag_contract r = contract_id c) (contract_tags d) = []"
    by (simp add: filter_empty_conv)
  show ?thesis unfolding tags_set_def Let_def kept none by simp
qed

lemma create_contract_file_fresh:
  assumes "contract_id c \<notin> set (map file_contract (files d))"
  shows "snd (create_contract_file u d c f True [])
         = d\<lparr>files := files d
               @ [\<lparr>file_id = Some (fresh_id (List.map_filter file_id (files d))),
                    file_contract = contract_id c, original_filename = upload_name f,
                    file_size = length (upload_content f),
                    mime_type = (case upload_content_type f of None \<Rightarrow> [] | Some t \<Rightarrow> t),
                    is_primary = True, file_description = [], uploaded_by = Some (pk u)\<rparr>]\<rparr>"
proof -
  have other: "\<forall>r \<in> set (files d). file_contract r \<noteq> contract_id c"
    using assms by (metis image_eqI list.set_map)
  have "demote_other_primaries row (files d) = files d" if "file_contract row = contract_id c" for row
    unfolding demote_other_primaries_def
  proof (intro map_idI)
    fix r
    assume "r \<in> set (files d)"
    with other that have "file_contract r \<noteq> file_contract row" by simp
    then show "(if file_contract r = file_contract row \<and> is_primary r
                   \<and> (case file_id row of None \<Rightarrow> True | Some i \<Rightarrow> file_id r \<noteq> Some i)
                then r\<lparr>is_primary := False\<rparr> else r) = r"
      by simp
  qed
  then show ?thesis
    by (simp add: create_contract_file_def ContractFile_save_def Let_def)
qed

lemma create_contract_commits:
  assumes fresh: "new_id \<notin> set (map contract_id (contracts d))"
    and tags_free: "new_id \<notin> set (map tag_contract (contract_tags d))"
    and files_free: "new_id \<notin> set (map file_contract (files d))"
    and owned: "data_owner (data_fields data @ [Set_created_by (Some (pk u))]) \<noteq> None"
    and made: "assign_fields (data_fields data @ [Set_created_by (Some (pk u))])
                 (new_contract new_id) = c0"
    and blank: "contract_number c0 = []"
    and accepted: "adapt_decimalfield_value (value_amount c0) = Inr stored"
    and tags: "data_tags data = Some tags"
    and uploaded: "uploaded = None \<and> buffered = None
                   \<or> (\<exists>f. uploaded = Some f \<and> upload_name f \<noteq> []
                            \<and> upload_content_type f = Some ''text/plain''
                            \<and> buffered = Some (upload_name f, length (upload_content f)))"
  shows "create_contract now new_id u d data uploaded
         = Inr (c0\<lparr>contract_number := generate_contract_number now (new_contract new_id)\<rparr>,
                committed d u
                  (c0\<lparr>value_amount := stored,
                      contract_number := generate_contract_number now (new_contract new_id)\<rparr>)
                  tags buffered)"
proof -
  let ?number = "generate_contract_number now (new_contract new_id)"
  let ?c = "c0\<lparr>contract_number := ?number\<rparr>"
  let ?row = "c0\<lparr>value_amount := stored, contract_number := ?number\<rparr>"
  let ?d1 = "d\<lparr>contracts := contracts d @ [?row]\<rparr>"
  let ?d2 = "?d1\<lparr>contract_tags := contract_tags d
               @ map (\<lambda>t. \<lparr>tag_contract = new_id, tag = t\<rparr>) (remdups tags)\<rparr>"
  have id0: "contract_id c0 = new_id" using made [symmetric] by simp
  have gen: "generate_contract_number now c0 = ?number"
    by (rule generate_same_id) (simp add: id0)
  have save: "Contract_save now True d c0 = Inr (?c, ?d1)"
    using Contract_save_fresh [of c0 d stored now] fresh blank accepted id0 gen by simp
  have d2: "(if tags \<noteq> [] then tags_set ?d1 ?c tags else ?d1) = ?d2"
  proof (cases "tags = []")
    case True
    then show ?thesis by simp
  next
    case False
    have "contract_id ?c \<notin> set (map tag_contract (contract_tags ?d1))"
      using tags_free by (simp add: id0)
    from tags_set_fresh [OF this, of tags] False show ?thesis by (simp add: id0)
  qed
  have free2: "contract_id ?c \<notin> set (map file_contract (files ?d2))"
    using files_free by (simp add: id0)
  from uploaded show ?thesis
  proof (elim disjE conjE exE)
    assume "uploaded = None" "buffered = None"
    then show ?thesis
      using save d2
      by (simp add: create_contract_def Let_def owned made tags committed_def id0
          AuditLogService_log_def)
  next
    fix f
    assume f: "uploaded = Some f" "upload_name f \<noteq> []"
      "upload_content_type f = Some ''text/plain''"
      "buffered = Some (upload_name f, length (upload_content f))"
    show ?thesis
      using save d2 f create_contract_file_fresh [OF free2, of u f]
      by (simp add: create_contract_def Let_def owned made tags committed_def id0
          AuditLogService_log_def)
  qed
qed

subsection \<open>The data \<open>_save_contract\<close> builds\<close>

lemma get_or_basic:
  "get_or (wizard_basic wizard) field missing = basic_entry wizard field missing"
  by (simp add: get_or_def wizard_basic_def basic_entry_def split: option.splits cleaned.splits)

lemma get_or_party:
  "get_or (wizard_party wizard) field missing = party_entry wizard field missing"
  by (simp add: get_or_def wizard_party_def party_entry_def split: option.splits cleaned.splits)

lemma get_or_dates:
  "get_or (wizard_dates wizard) field missing = dates_entry wizard field missing"
  by (simp add: get_or_def wizard_dates_def dates_entry_def split: option.splits cleaned.splits)

lemma get_or_owner_tags:
  "get_or (wizard_owner_tags wizard) field missing = owner_tags_entry wizard field missing"
  by (simp add: get_or_def wizard_owner_tags_def owner_tags_entry_def
      split: option.splits cleaned.splits)

lemmas get_or_entry = get_or_basic get_or_party get_or_dates get_or_owner_tags

lemma wizard_data_owned:
  "data_owner (data_fields (wizard_contract_data u wizard as_draft amount)
               @ [Set_created_by (Some (pk u))]) \<noteq> None"
  by (simp add: wizard_contract_data_def data_owner_def split: option.splits)

lemma wizard_data_assigned:
  "assign_fields (data_fields (wizard_contract_data u wizard as_draft amount)
                  @ [Set_created_by (Some (pk u))]) (new_contract new_id)
   = (accumulated_contract now new_id u wizard (if as_draft then ''DRAFT'' else ''PENDING'') amount)
       \<lparr>contract_number := []\<rparr>"
  by (simp add: assign_fields_def wizard_contract_data_def new_contract_def
      accumulated_contract_def get_or_entry)

lemma wizard_data_tags:
  "data_tags (wizard_contract_data u wizard as_draft amount) = Some (accumulated_tags wizard)"
  by (simp add: wizard_contract_data_def accumulated_tags_def get_or_entry)

lemma contract_id_accumulated [simp]:
  "contract_id (accumulated_contract now new_id u wizard st amount) = new_id"
  by (simp add: accumulated_contract_def)

lemma accumulated_row:
  "(accumulated_contract now new_id u wizard st amount)
     \<lparr>contract_number := [], value_amount := stored,
      contract_number := generate_contract_number now (new_contract new_id)\<rparr>
   = accumulated_contract now new_id u wizard st stored"
  by (simp add: accumulated_contract_def generate_contract_number_def)

subsection \<open>\<open>_save_contract\<close> and \<open>post\<close>\<close>

lemma save_contract_commits:
  assumes fresh: "new_id \<notin> set (map contract_id (contracts d))"
    and refs: "children_reference_contracts d"
    and amount: "parse_decimal Decimal (wizard_amount_text wizard) = Inr amount"
    and accepted: "adapt_decimalfield_value amount = Inr stored"
  shows "save_contract Decimal now new_id u sess d wizard as_draft
         = Inr (Redirect_to_detail new_id, cleared_session,
                committed d u
                  (accumulated_contract now new_id u wizard
                     (if as_draft then ''DRAFT'' else ''PENDING'') stored)
                  (accumulated_tags wizard) (buffered_file sess))"
proof -
  let ?data = "wizard_contract_data u wizard as_draft amount"
  let ?st = "if as_draft then ''DRAFT'' else ''PENDING''"
  let ?c0 = "(accumulated_contract now new_id u wizard ?st amount)\<lparr>contract_number := []\<rparr>"
  let ?uploaded = "case (contract_wizard_file sess, contract_wizard_file_name sess) of
                (Some file_data, Some file_name) \<Rightarrow>
                  if file_data \<noteq> [] \<and> file_name \<noteq> []
                  then Some \<lparr>upload_name = file_name, upload_content = file_data,
                             upload_content_type = Some ''text/plain''\<rparr>
                  else None
              | _ \<Rightarrow> None"
  from fresh refs have tags_free: "new_id \<notin> set (map tag_contract (contract_tags d))"
    and files_free: "new_id \<notin> set (map file_contract (files d))"
    by (auto simp: children_reference_contracts_def)
  have up: "?uploaded = None \<and> buffered_file sess = None
            \<or> (\<exists>f. ?uploaded = Some f \<and> upload_name f \<noteq> []
                 \<and> upload_content_type f = Some ''text/plain''
                 \<and> buffered_file sess = Some (upload_name f, length (upload_content f)))"
    by (simp add: buffered_file_def split: option.splits)
  have acc: "adapt_decimalfield_value (value_amount ?c0) = Inr stored"
    using accepted by (simp add: accumulated_contract_def)
  have "create_contract now new_id u d ?data ?uploaded
        = Inr (?c0\<lparr>contract_number := generate_contract_number now (new_contract new_id)\<rparr>,
               committed d u
                 (?c0\<lparr>value_amount := stored,
                      contract_number := generate_contract_number now (new_contract new_id)\<rparr>)
                 (accumulated_tags wizard) (buffered_file sess))"
    by (rule create_contract_commits [OF fresh tags_free files_free wizard_data_owned
          wizard_data_assigned _ acc wizard_data_tags up]) simp
  then have "create_contract now new_id u d ?data ?uploaded
        = Inr (?c0\<lparr>contract_number := generate_contract_number now (new_contract new_id)\<rparr>,
               committed d u (accumulated_contract now new_id u wizard ?st stored)
                 (accumulated_tags wizard) (buffered_file sess))"
    by (simp only: accumulated_row)
  then show ?thesis
    using amount
    by (simp add: save_contract_def wizard_amount_text_def cleared_session_def Let_def)
qed

lemma save_contract_fails:
  assumes "parse_decimal Decimal (wizard_amount_text wizard) = Inl e
           \<or> (parse_decimal Decimal (wizard_amount_text wizard) = Inr amount
               \<and> adapt_decimalfield_value amount = Inl e)"
  shows "save_contract Decimal now new_id u sess d wizard as_draft = Inl e"
  using assms
proof
  assume "parse_decimal Decimal (wizard_amount_text wizard) = Inl e"
  then show ?thesis by (simp add: save_contract_def wizard_amount_text_def)
next
  assume a: "parse_decimal Decimal (wizard_amount_text wizard) = Inr amount
             \<and> adapt_decimalfield_value amount = Inl e"
  have "value_amount (assign_fields
          (if data_owner (data_fields (wizard_contract_data u wizard as_draft amount)
                          @ [Set_created_by (Some (pk u))]) = None
           then (data_fields (wizard_contract_data u wizard as_draft amount)
                 @ [Set_created_by (Some (pk u))]) @ [Set_owner (Some (pk u))]
           else data_fields (wizard_contract_data u wizard as_draft amount)
                @ [Set_created_by (Some (pk u))]) (new_contract new_id)) = amount"
    by (simp add: wizard_data_owned wizard_data_assigned [where now = now]
        accumulated_contract_def)
  with a have "create_contract now new_id u d (wizard_contract_data u wizard as_draft amount)
                 uploaded = Inl e" for uploaded
    by (simp add: create_contract_def Contract_save_def Let_def)
  with a show ?thesis
    by (simp add: save_contract_def wizard_amount_text_def Let_def)
qed

lemma post_save_draft:
  assumes "post_action posted = Some ''save_draft''"
  shows "ContractCreateWizardView_post Decimal now new_id u sess d posted
         = save_contract Decimal now new_id u sess d (session_wizard sess) True"
  using assms by (simp add: ContractCreateWizardView_post_def session_wizard_def Let_def)

lemma step_index_final: "step_index ''owner_tags'' = 7"
  by (simp add: step_index_def STEPS_def)

lemma step_index_other: "step \<noteq> ''owner_tags'' \<Longrightarrow> step_index step < 7"
  by (auto simp: step_index_def STEPS_def)

lemma post_final:
  assumes "current_step posted = Some ''owner_tags''" and "post_action posted \<noteq> Some ''back''"
    and "post_action posted \<noteq> Some ''save_draft''" and "form_cleaned posted = Some cd"
  shows "ContractCreateWizardView_post Decimal now new_id u sess d posted
         = save_contract Decimal now new_id u
             (sess\<lparr>contract_wizard := Some ((session_wizard sess)(''owner_tags'' \<mapsto> cd))\<rparr>) d
             ((session_wizard sess)(''owner_tags'' \<mapsto> cd)) False"
  using assms
  by (auto simp: ContractCreateWizardView_post_def session_wizard_def Let_def step_index_final
      STEPS_def split: option.splits)

lemma post_no_commit:
  assumes "post_action posted \<noteq> Some ''save_draft''"
    and "\<not> (current_step posted = Some ''owner_tags'' \<and> form_cleaned posted \<noteq> None
            \<and> post_action posted \<noteq> Some ''back'')"
  shows "\<exists>response sess'. ContractCreateWizardView_post Decimal now new_id u sess d posted
           = Inr (response, sess', d)"
proof -
  let ?step = "case current_step posted of None \<Rightarrow> ''method'' | Some s \<Rightarrow> s"
  let ?act = "case post_action posted of None \<Rightarrow> ''next'' | Some a \<Rightarrow> a"
  have act: "?act \<noteq> ''save_draft''" using assms(1) by (cases "post_action posted") auto
  show ?thesis
  proof (cases "?act = ''back''")
    case True
    then show ?thesis
      by (simp add: ContractCreateWizardView_post_def Let_def)
  next
    case False
    note not_back = this
    show ?thesis
    proof (cases "?step = ''value''")
      case True
      with not_back act show ?thesis
        by (simp add: ContractCreateWizardView_post_def Let_def)
    next
      case False
      note not_value = this
      show ?thesis
      proof (cases "form_cleaned posted")
        case None
        with not_back act not_value show ?thesis
          by (simp add: ContractCreateWizardView_post_def Let_def)
      next
        case (Some cd)
        with assms(2) not_back have "?step \<noteq> ''owner_tags''"
          by (auto split: option.splits)
        then have "step_index ?step < 7" by (rule step_index_other)
        then have "step_index ?step < length STEPS - 1" by (simp add: STEPS_def)
        with Some not_back act not_value show ?thesis
          by (simp add: ContractCreateWizardView_post_def Let_def)
      qed
    qed
  qed
qed

lemma amount_text_owner_tags:
  "wizard_amount_text (wizard(''owner_tags'' \<mapsto> cd)) = wizard_amount_text wizard"
  by (simp add: wizard_amount_text_def)

lemma buffered_file_wizard [simp]:
  "buffered_file (sess\<lparr>contract_wizard := w\<rparr>) = buffered_file sess"
  by (simp add: buffered_file_def split: option.splits)

text \<open>
  C9. In a store whose tag and file rows belong to contracts of the store, and with an
  identifier for the new contract that the store does not hold: a request with the
  action save-as-draft, at any step, commits what the session has accumulated, with
  status Draft; a valid request at the last step (\<open>owner_tags\<close>) that is neither back
  nor save-as-draft commits what the session has accumulated together with the form of
  that step, with status Pending. A commit answers with the redirect to the new
  contract, empties the wizard's session entries, and leaves the store with exactly one
  more contract (every field as accumulated, the amount rounded to hundredths), the
  accumulated tags, the buffered file as primary file, one version numbered 1 and
  labelled 'Initial Version', and one audit event CREATE_CONTRACT. This is so whenever
  the amount text of the value step, if any, is a number that the column accepts; when
  it is not, the committing request fails with the error and stores nothing. Every
  other request leaves the store as it was.
\<close>

theorem wizard_commit_status:
  assumes "new_id \<notin> set (map contract_id (contracts d))"
    and "children_reference_contracts d"
  shows "(post_action posted = Some ''save_draft''
          \<and> parse_decimal Decimal (wizard_amount_text (session_wizard sess)) = Inr amount
          \<and> adapt_decimalfield_value amount = Inr stored \<longrightarrow>
            ContractCreateWizardView_post Decimal now new_id u sess d posted
              = Inr (Redirect_to_detail new_id, cleared_session,
                     committed d u
                       (accumulated_contract now new_id u (session_wizard sess) ''DRAFT'' stored)
                       (accumulated_tags (session_wizard sess)) (buffered_file sess))
            \<and> rounded_to_hundredths amount stored)
         \<and> (current_step posted = Some ''owner_tags'' \<and> post_action posted \<noteq> Some ''back''
            \<and> post_action posted \<noteq> Some ''save_draft'' \<and> form_cleaned posted = Some cd
            \<and> parse_decimal Decimal (wizard_amount_text (session_wizard sess)) = Inr amount
            \<and> adapt_decimalfield_value amount = Inr stored \<longrightarrow>
              ContractCreateWizardView_post Decimal now new_id u sess d posted
                = Inr (Redirect_to_detail new_id, cleared_session,
                       committed d u
                         (accumulated_contract now new_id u
                            ((session_wizard sess)(''owner_tags'' \<mapsto> cd)) ''PENDING'' stored)
                         (accumulated_tags ((session_wizard sess)(''owner_tags'' \<mapsto> cd)))
                         (buffered_file sess))
              \<and> rounded_to_hundredths amount stored)
         \<and> ((post_action posted = Some ''save_draft''
              \<or> current_step posted = Some ''owner_tags'' \<and> post_action posted \<noteq> Some ''back''
                 \<and> form_cleaned posted \<noteq> None)
            \<and> (parse_decimal Decimal (wizard_amount_text (session_wizard sess)) = Inl e
                \<or> parse_decimal Decimal (wizard_amount_text (session_wizard sess)) = Inr amount
                   \<and> adapt_decimalfield_value amount = Inl e) \<longrightarrow>
              ContractCreateWizardView_post Decimal now new_id u sess d posted = Inl e)
         \<and> (post_action posted \<noteq> Some ''save_draft''
            \<and> \<not> (current_step posted = Some ''owner_tags'' \<and> form_cleaned posted \<noteq> None
                   \<and> post_action posted \<noteq> Some ''back'') \<longrightarrow>
              (\<exists>response sess'. ContractCreateWizardView_post Decimal now new_id u sess d posted
                                  = Inr (response, sess', d)))"
proof (intro conjI impI)
  assume a: "post_action posted = Some ''save_draft''
          \<and> parse_decimal Decimal (wizard_amount_text (session_wizard sess)) = Inr amount
          \<and> adapt_decimalfield_value amount = Inr stored"
  then show "ContractCreateWizardView_post Decimal now new_id u sess d posted
              = Inr (Redirect_to_detail new_id, cleared_session,
                     committed d u
                       (accumulated_contract now new_id u (session_wizard sess) ''DRAFT'' stored)
                       (accumulated_tags (session_wizard sess)) (buffered_file sess))"
    using save_contract_commits [OF assms, of Decimal "session_wizard sess" amount stored
        now u sess True]
    by (simp add: post_save_draft)
  from a show "rounded_to_hundredths amount stored" by (simp add: adapt_rounds)
next
  assume a: "current_step posted = Some ''owner_tags'' \<and> post_action posted \<noteq> Some ''back''
            \<and> post_action posted \<noteq> Some ''save_draft'' \<and> form_cleaned posted = Some cd
            \<and> parse_decimal Decimal (wizard_amount_text (session_wizard sess)) = Inr amount
            \<and> adapt_decimalfield_value amount = Inr stored"
  let ?w = "(session_wizard sess)(''owner_tags'' \<mapsto> cd)"
  have amt: "parse_decimal Decimal (wizard_amount_text ?w) = Inr amount"
    using a by (simp add: amount_text_owner_tags)
  from a have eq: "ContractCreateWizardView_post Decimal now new_id u sess d posted
         = save_contract Decimal now new_id u (sess\<lparr>contract_wizard := Some ?w\<rparr>) d ?w False"
    by (intro post_final) simp_all
  from a have acc: "adapt_decimalfield_value amount = Inr stored" by simp
  show "ContractCreateWizardView_post Decimal now new_id u sess d posted
                = Inr (Redirect_to_detail new_id, cleared_session,
                       committed d u (accumulated_contract now new_id u ?w ''PENDING'' stored)
                         (accumulated_tags ?w) (buffered_file sess))"
    using save_contract_commits [OF assms amt acc, of now u "sess\<lparr>contract_wizard := Some ?w\<rparr>"
        False]
    by (simp add: eq)
  from acc show "rounded_to_hundredths amount stored" by (rule adapt_rounds)
next
  assume a: "(post_action posted = Some ''save_draft''
              \<or> current_step posted = Some ''owner_tags'' \<and> post_action posted \<noteq> Some ''back''
                 \<and> form_cleaned posted \<noteq> None)
            \<and> (parse_decimal Decimal (wizard_amount_text (session_wizard sess)) = Inl e
                \<or> parse_decimal Decimal (wizard_amount_text (session_wizard sess)) = Inr amount
                   \<and> adapt_decimalfield_value amount = Inl e)"
  show "ContractCreateWizardView_post Decimal now new_id u sess d posted = Inl e"
  proof (cases "post_action posted = Some ''save_draft''")
    case True
    with a show ?thesis
      using save_contract_fails [of Decimal "session_wizard sess" e amount now new_id u sess d
          True]
      by (simp add: post_save_draft)
  next
    case False
    with a obtain cd where final: "current_step posted = Some ''owner_tags''"
      "post_action posted \<noteq> Some ''back''" "form_cleaned posted = Some cd"
      by auto
    let ?w = "(session_wizard sess)(''owner_tags'' \<mapsto> cd)"
    from final False have eq: "ContractCreateWizardView_post Decimal now new_id u sess d posted
         = save_contract Decimal now new_id u (sess\<lparr>contract_wizard := Some ?w\<rparr>) d ?w False"
      by (intro post_final) simp_all
    from a show ?thesis
      using save_contract_fails [of Decimal ?w e amount now new_id u
          "sess\<lparr>contract_wizard := Some ?w\<rparr>" d False]
      by (simp add: eq amount_text_owner_tags)
  qed
next
  assume "post_action posted \<noteq> Some ''save_draft''
            \<and> \<not> (current_step posted = Some ''owner_tags'' \<and> form_cleaned posted \<noteq> None
                   \<and> post_action posted \<noteq> Some ''back'')"
  then show "\<exists>response sess'. ContractCreateWizardView_post Decimal now new_id u sess d posted
                                  = Inr (response, sess', d)"
    using post_no_commit by blast
qed

lemma drawn_number:
  "generate_contract_number example_time (new_contract drawn_id) = ''CNT-202401-5E6F7A8B''"
  by (simp add: generate_contract_number_def strftime_Ym_def example_time_def dec.simps
      digit_char_def uuid_str_def uuid_hex_def hex_digit_def upper_def upper_char_def
      drawn_id_def new_contract_def upt_rec)

lemma example_accumulated:
  "accumulated_contract example_time drawn_id acting_user example_wizard
     ''DRAFT'' (Some (Finite 250050 (- 2))) = example_committed_contract"
  "accumulated_contract example_time drawn_id acting_user
     (example_wizard(''owner_tags'' \<mapsto> example_owner_tags)) ''PENDING''
     (Some (Finite 250050 (- 2)))
   = example_committed_contract\<lparr>status := ''PENDING'', owner := Some 4, is_confidential := True\<rparr>"
  using drawn_number
  by (simp_all add: generate_contract_number_def accumulated_contract_def
      example_committed_contract_def example_wizard_def example_owner_tags_def basic_entry_def
      party_entry_def dates_entry_def owner_tags_entry_def acting_user_def staff_user_def
      plain_user_def)

lemma example_stores:
  "committed populated_db acting_user example_committed_contract
     (accumulated_tags example_wizard) (buffered_file example_session) = example_draft_store"
  "committed populated_db acting_user
     (example_committed_contract\<lparr>status := ''PENDING'', owner := Some 4, is_confidential := True\<rparr>)
     (accumulated_tags (example_wizard(''owner_tags'' \<mapsto> example_owner_tags)))
     (buffered_file example_session) = example_pending_store"
  by (simp_all add: committed_def example_draft_store_def example_pending_store_def
      populated_db_def example_audit_log_def example_initial_version_def
      accumulated_tags_def owner_tags_entry_def example_wizard_def example_owner_tags_def
      buffered_file_def example_session_def example_committed_contract_def acting_user_def
      staff_user_def plain_user_def fresh_id_def)

theorem wizard_commit_status_witness:
  "drawn_id \<notin> set (map contract_id (contracts populated_db))
   \<and> children_reference_contracts populated_db
   \<and> parse_decimal example_Decimal (wizard_amount_text (session_wizard example_session))
       = Inr (Some (Finite 25005 (- 1)))
   \<and> adapt_decimalfield_value (Some (Finite 25005 (- 1))) = Inr (Some (Finite 250050 (- 2)))
   \<and> rounded_to_hundredths (Some (Finite 25005 (- 1))) (Some (Finite 250050 (- 2)))
   \<and> post_action draft_post = Some ''save_draft''
   \<and> ContractCreateWizardView_post example_Decimal example_time drawn_id acting_user
        example_session populated_db draft_post
       = Inr (Redirect_to_detail drawn_id, cleared_session, example_draft_store)
   \<and> current_step final_post = Some ''owner_tags''
   \<and> post_action final_post = Some ''next''
   \<and> form_cleaned final_post = Some example_owner_tags
   \<and> ContractCreateWizardView_post example_Decimal example_time drawn_id acting_user
        example_session populated_db final_post
       = Inr (Redirect_to_detail drawn_id, cleared_session, example_pending_store)
   \<and> parse_decimal example_Decimal (wizard_amount_text (session_wizard unreadable_session))
       = Inl InvalidOperation
   \<and> ContractCreateWizardView_post example_Decimal example_time drawn_id acting_user
        unreadable_session populated_db draft_post = Inl InvalidOperation
   \<and> post_action back_post = Some ''back''
   \<and> (\<exists>response sess'.
         ContractCreateWizardView_post example_Decimal example_time drawn_id acting_user
           example_session populated_db back_post
         = Inr (response, sess', populated_db))"
proof -
  have fresh: "drawn_id \<notin> set (map contract_id (contracts populated_db))"
    by (simp add: populated_db_def example_contract_def drawn_id_def)
  have refs: "children_reference_contracts populated_db"
    by (simp add: children_reference_contracts_def populated_db_def example_file_def)
  have wiz: "session_wizard example_session = example_wizard"
    by (simp add: session_wizard_def example_session_def)
  have amt: "parse_decimal example_Decimal (wizard_amount_text (session_wizard example_session))
             = Inr (Some (Finite 25005 (- 1)))"
    by (simp add: wiz parse_decimal_def wizard_amount_text_def example_wizard_def
        example_Decimal_def)
  have acc: "adapt_decimalfield_value (Some (Finite 25005 (- 1)))
             = Inr (Some (Finite 250050 (- 2)))"
    by (simp add: adapt_decimalfield_value_def quantize_def)
  have bad: "parse_decimal example_Decimal (wizard_amount_text (session_wizard unreadable_session))
             = Inl InvalidOperation"
    by (simp add: session_wizard_def unreadable_session_def parse_decimal_def
        wizard_amount_text_def example_Decimal_def)
  have draft: "post_action draft_post = Some ''save_draft''" by (simp add: draft_post_def)
  have final: "current_step final_post = Some ''owner_tags''"
    "post_action final_post \<noteq> Some ''back''" "post_action final_post \<noteq> Some ''save_draft''"
    "form_cleaned final_post = Some example_owner_tags" "post_action final_post = Some ''next''"
    by (simp_all add: final_post_def)
  have backward: "post_action back_post = Some ''back''"
    "post_action back_post \<noteq> Some ''save_draft''"
    by (simp_all add: back_post_def)
  note commit = wizard_commit_status [OF fresh refs, where Decimal = example_Decimal
      and now = example_time and u = acting_user]
  from commit [where posted = draft_post and sess = example_session, THEN conjunct1] draft amt acc
  have r1: "ContractCreateWizardView_post example_Decimal example_time drawn_id acting_user
              example_session populated_db draft_post
            = Inr (Redirect_to_detail drawn_id, cleared_session,
                   committed populated_db acting_user
                     (accumulated_contract example_time drawn_id acting_user
                        (session_wizard example_session) ''DRAFT'' (Some (Finite 250050 (- 2))))
                     (accumulated_tags (session_wizard example_session))
                     (buffered_file example_session))"
    and round: "rounded_to_hundredths (Some (Finite 25005 (- 1))) (Some (Finite 250050 (- 2)))"
    by blast+
  from commit [where posted = final_post and sess = example_session
      and cd = example_owner_tags, THEN conjunct2, THEN conjunct1] final amt acc
  have r2: "ContractCreateWizardView_post example_Decimal example_time drawn_id acting_user
              example_session populated_db final_post
            = Inr (Redirect_to_detail drawn_id, cleared_session,
                   committed populated_db acting_user
                     (accumulated_contract example_time drawn_id acting_user
                        ((session_wizard example_session)(''owner_tags'' \<mapsto> example_owner_tags))
                        ''PENDING'' (Some (Finite 250050 (- 2))))
                     (accumulated_tags
                        ((session_wizard example_session)(''owner_tags'' \<mapsto> example_owner_tags)))
                     (buffered_file example_session))"
    by blast
  from commit [where posted = draft_post and sess = unreadable_session
      and e = InvalidOperation, THEN conjunct2, THEN conjunct2, THEN conjunct1] draft bad
  have r3: "ContractCreateWizardView_post example_Decimal example_time drawn_id acting_user
              unreadable_session populated_db draft_post = Inl InvalidOperation"
    by blast
  from commit [where posted = back_post and sess = example_session,
      THEN conjunct2, THEN conjunct2, THEN conjunct2] backward
  have r4: "\<exists>response sess'.
         ContractCreateWizardView_post example_Decimal example_time drawn_id acting_user
           example_session populated_db back_post
         = Inr (response, sess', populated_db)"
    by blast
  have s1: "ContractCreateWizardView_post example_Decimal example_time drawn_id acting_user
              example_session populated_db draft_post
            = Inr (Redirect_to_detail drawn_id, cleared_session, example_draft_store)"
    using r1 by (simp only: wiz example_accumulated example_stores)
  have s2: "ContractCreateWizardView_post example_Decimal example_time drawn_id acting_user
              example_session populated_db final_post
            = Inr (Redirect_to_detail drawn_id, cleared_session, example_pending_store)"
    using r2 by (simp only: wiz example_accumulated example_stores)
  show ?thesis
    using fresh refs amt acc round draft final s1 s2 r3 r4 bad backward by simp
qed

section \<open>Deleting a contract: properties\<close>

lemma Contract_delete_audit_logs:
  "audit_logs (Contract_delete d cid) = filter (\<lambda>r. log_contract r \<noteq> Some cid) (audit_logs d)"
  by (simp add: Contract_delete_def on_delete_audit_logs_def AuditLog_contract_on_delete_def Let_def)

text \<open>
  C4, evaluated on a populated store. Deleting the sample contract removes its row in
  every child table, as the claim says, and removes its audit event as well: the foreign
  key \<open>AuditLog.contract\<close> is declared with \<open>CASCADE\<close>, so the event is not kept with
  an empty reference.
\<close>

theorem audit_log_deleted_with_contract:
  "audit_logs populated_db = [example_audit_log]
   \<and> log_contract example_audit_log = Some (contract_id example_contract)
   \<and> audit_logs (Contract_delete populated_db (contract_id example_contract)) = []
   \<and> Contract_delete populated_db (contract_id example_contract) = empty_db"
  by (simp add: populated_db_def Contract_delete_def on_delete_audit_logs_def
      AuditLog_contract_on_delete_def example_audit_log_def example_approval_def
      example_file_def empty_db_def Let_def)
end
